(* ===== verification/Prelude.thy ===== *)
theory Prelude
  imports Complex_Main "HOL-Library.Sublist"
begin

text \<open>
  Shared vocabulary of the development: identifiers and timestamps, the
  exceptions the Python code can raise below the HTTP layer, the PostgreSQL
  integer ranges, the optional-field patches of the Pydantic update schemas,
  and a small library of keyed row tables (a table is the list of its rows in
  scan order, each row carrying its own primary key), with the lemmas the
  component theories share.
\<close>

named_theorems table_simps "lookup/replace/remove facts on keyed row tables"

type_synonym ident = string
type_synonym timestamp = nat

text \<open>
  Exceptions raised below the route handlers. \<open>IntegrityError\<close>: a primary or
  foreign key violation at commit; \<open>DataError\<close>: a value outside a column's
  range, or a negative OFFSET/LIMIT; \<open>StaleDataError\<close>: an ORM UPDATE that
  matched no row; \<open>TypeError\<close>: Python arithmetic or comparison on
  \<open>None\<close> (a NULL column); \<open>AttributeError\<close>: a missing attribute.
\<close>

datatype exc = IntegrityError | DataError | StaleDataError | TypeError | AttributeError

text \<open>PostgreSQL \<open>integer\<close> (int4) and \<open>bigint\<close> (int8) ranges.\<close>

definition int32_ok :: "int \<Rightarrow> bool" where
  "int32_ok x \<longleftrightarrow> - (2 ^ 31) \<le> x \<and> x < 2 ^ 31"

definition int64_ok :: "int \<Rightarrow> bool" where
  "int64_ok x \<longleftrightarrow> - (2 ^ 63) \<le> x \<and> x < 2 ^ 63"

text \<open>
  A field of an update schema after \<open>.dict(exclude_unset=True)\<close>: either the
  client did not send it, or it sent a value (possibly JSON null).
\<close>

datatype 'a patch = Unset | Set 'a

primrec apply_patch :: "'a patch \<Rightarrow> 'a \<Rightarrow> 'a" where
  "apply_patch Unset v = v"
| "apply_patch (Set v') v = v'"

subsection \<open>Keyed row tables\<close>

definition lookup_by :: "('r \<Rightarrow> 'k) \<Rightarrow> 'k \<Rightarrow> 'r list \<Rightarrow> 'r option" where
  "lookup_by key k rows = find (\<lambda>r. key r = k) rows"

definition replace_by :: "('r \<Rightarrow> 'k) \<Rightarrow> 'r \<Rightarrow> 'r list \<Rightarrow> 'r list" where
  "replace_by key r rows = map (\<lambda>x. if key x = key r then r else x) rows"

definition remove_by :: "('r \<Rightarrow> 'k) \<Rightarrow> 'k \<Rightarrow> 'r list \<Rightarrow> 'r list" where
  "remove_by key k rows = filter (\<lambda>x. key x \<noteq> k) rows"

lemma lookup_by_None_iff [table_simps]:
  "lookup_by key k rows = None \<longleftrightarrow> k \<notin> key ` set rows"
  by (auto simp: lookup_by_def find_None_iff)

lemma lookup_by_notin [table_simps]:
  "k \<notin> key ` set rows \<Longrightarrow> lookup_by key k rows = None"
  by (simp add: lookup_by_None_iff)

lemma lookup_by_SomeD [table_simps]:
  "lookup_by key k rows = Some r \<Longrightarrow> r \<in> set rows \<and> key r = k"
  by (auto simp: lookup_by_def find_Some_iff)

lemma lookup_by_unique:
  "distinct (map key rows) \<Longrightarrow> r \<in> set rows \<Longrightarrow> lookup_by key (key r) rows = Some r"
  by (induction rows) (auto simp: lookup_by_def)

lemma lookup_by_append [table_simps]:
  "lookup_by key k (rows @ [r]) =
     (case lookup_by key k rows of None \<Rightarrow> (if key r = k then Some r else None) | s \<Rightarrow> s)"
  by (induction rows) (auto simp: lookup_by_def)

lemma map_key_replace_by [table_simps]:
  "map key (replace_by key r rows) = map key rows"
  by (induction rows) (auto simp: replace_by_def)

lemma lookup_by_replace_by [table_simps]:
  "lookup_by key k (replace_by key r rows) =
     (if k = key r \<and> k \<in> key ` set rows then Some r else lookup_by key k rows)"
  by (induction rows) (auto simp: lookup_by_def replace_by_def)

lemma lookup_by_remove_by [table_simps]:
  "lookup_by key k (remove_by key k' rows) = (if k = k' then None else lookup_by key k rows)"
  by (induction rows) (auto simp: lookup_by_def remove_by_def)

lemma keys_remove_by [table_simps]:
  "key ` set (remove_by key k rows) = key ` set rows - {k}"
  by (auto simp: remove_by_def)

lemma distinct_remove_by [table_simps]:
  "distinct (map key rows) \<Longrightarrow> distinct (map key (remove_by key k rows))"
  by (induction rows) (auto simp: remove_by_def)

lemma set_replace_by:
  "set (replace_by key r rows) \<subseteq> insert r (set rows)"
  by (auto simp: replace_by_def)

lemma length_replace_by [table_simps]:
  "length (replace_by key r rows) = length rows"
  by (simp add: replace_by_def)

end
