(* ===== verification/Schema.thy ===== *)
theory Schema
  imports Prelude "HOL-Library.Multiset"
begin

text \<open>
  The persisted rows (SQLAlchemy models \<open>ItemModel\<close> of
  src/app/models/items_models.py and \<open>ItemStatus\<close> of
  src/app/models/status_models.py) and the request payloads (Pydantic schemas
  of src/app/schemas/).  Nullable columns are \<open>option\<close>: the ORM writes
  \<open>None\<close> as NULL on UPDATE, and the update schemas let a client send JSON
  null for every field.  \<open>price\<close> is a PostgreSQL \<open>double precision\<close>,
  modelled as a real number (rounding and NaN are not modelled).
\<close>

record item =
  item_id :: ident
  name :: "string option"
  description :: "string option"
  price :: "real option"
  category :: "string option"
  item_created_at :: timestamp
  item_updated_at :: timestamp

record status =
  status_id :: ident
  total_sell :: "int option"
  stock :: "int option"
  status_created_at :: timestamp
  status_updated_at :: timestamp

text \<open>\<open>ItemCreate\<close>: \<open>stock: Optional[int] = 0\<close>, so a client may send null.\<close>

record item_create =
  ic_name :: string
  ic_description :: "string option"
  ic_price :: real
  ic_category :: string
  ic_stock :: "int option"

text \<open>\<open>ItemUpdate\<close>: every field optional; only the fields sent are applied.\<close>

record item_update =
  iu_name :: "string option patch"
  iu_description :: "string option patch"
  iu_price :: "real option patch"
  iu_category :: "string option patch"

text \<open>\<open>StatusCreate\<close>: two plain \<open>int\<close> fields with default 0.\<close>

record status_create =
  sc_total_sell :: int
  sc_stock :: int

record status_update =
  su_total_sell :: "int option patch"
  su_stock :: "int option patch"

definition empty_item_update :: item_update where
  "empty_item_update = \<lparr>iu_name = Unset, iu_description = Unset, iu_price = Unset, iu_category = Unset\<rparr>"

definition empty_status_update :: status_update where
  "empty_status_update = \<lparr>su_total_sell = Unset, su_stock = Unset\<rparr>"

text \<open>
  The loop \<open>for field, value in update_data.items(): setattr(db_item, field, value)\<close>
  of \<open>update_item\<close>: each field present in the payload overwrites the column.
\<close>

definition apply_item_update :: "item_update \<Rightarrow> item \<Rightarrow> item" where
  "apply_item_update u r =
     r\<lparr>name := apply_patch (iu_name u) (name r),
       description := apply_patch (iu_description u) (description r),
       price := apply_patch (iu_price u) (price r),
       category := apply_patch (iu_category u) (category r)\<rparr>"

definition apply_status_update :: "status_update \<Rightarrow> status \<Rightarrow> status" where
  "apply_status_update u r =
     r\<lparr>total_sell := apply_patch (su_total_sell u) (total_sell r),
       stock := apply_patch (su_stock u) (stock r)\<rparr>"

end
