(* ===== verification/Database.thy ===== *)
theory Database
  imports Schema
begin

text \<open>
  The persistence layer as the code sees it through a SQLAlchemy session: the
  two tables \<open>items\<close> and \<open>item_status\<close> of the PostgreSQL schema, the
  pending writes a session flushes at \<open>db.commit()\<close>, and the checks the
  server makes on each statement (int4 range of the Integer columns, primary
  key uniqueness, the foreign key \<open>item_status.id \<rightarrow> items.id\<close>, which
  has no ON DELETE CASCADE at the database level, and the ORM's row-count check
  on UPDATE).  A commit applies its writes in order and stops at the first
  failing statement; the caller then keeps the database it started from
  (rollback).  The invariant \<open>wf_db\<close> collects the table constraints;
  every successful commit keeps it.
\<close>

record db =
  items :: "item list"
  item_status :: "status list"

definition empty_db :: db where
  "empty_db = \<lparr>items = [], item_status = []\<rparr>"

text \<open>
  Inserting an \<open>ItemStatus\<close>: a column left at \<open>None\<close> is omitted from the
  INSERT by the ORM, so its Python-side default fires (\<open>total_sell\<close> and
  \<open>stock\<close> default to 0, the timestamps to \<open>datetime.now\<close>).
\<close>

definition orm_new_status :: "timestamp \<Rightarrow> ident \<Rightarrow> int option \<Rightarrow> int option \<Rightarrow> status" where
  "orm_new_status now k ts st =
     \<lparr>status_id = k, total_sell = Some (case ts of None \<Rightarrow> 0 | Some v \<Rightarrow> v),
      stock = Some (case st of None \<Rightarrow> 0 | Some v \<Rightarrow> v),
      status_created_at = now, status_updated_at = now\<rparr>"

definition status_ints_ok :: "status \<Rightarrow> bool" where
  "status_ints_ok s \<longleftrightarrow> pred_option int32_ok (total_sell s) \<and> pred_option int32_ok (stock s)"

text \<open>
  The ORM flushes an UPDATE of the columns a request changed.  For the item
  and status updates and for sell these are all the mutable columns, written
  from the request's copy of the row (\<open>UpdItem\<close>, \<open>UpdStatus\<close>).  A
  restock changes only \<open>stock\<close> and \<open>updated_at\<close>; \<open>UpdStatusStock\<close>
  sets those two columns of the row as it is when the statement runs.
\<close>

datatype db_write =
    InsItem item
  | InsStatus status
  | UpdItem item
  | UpdStatus status
  | DelItem ident
  | DelStatus ident
  | UpdStatusStock ident int timestamp

abbreviation item_ids :: "db \<Rightarrow> ident list" where
  "item_ids d \<equiv> map item_id (items d)"

abbreviation status_ids :: "db \<Rightarrow> ident list" where
  "status_ids d \<equiv> map status_id (item_status d)"

fun apply_write :: "db \<Rightarrow> db_write \<Rightarrow> exc + db" where
  "apply_write d (InsItem r) =
     (if item_id r \<in> set (item_ids d) then Inl IntegrityError
      else Inr (d\<lparr>items := items d @ [r]\<rparr>))"
| "apply_write d (InsStatus r) =
     (if \<not> status_ints_ok r then Inl DataError
      else if status_id r \<in> set (status_ids d) then Inl IntegrityError
      else if status_id r \<notin> set (item_ids d) then Inl IntegrityError
      else Inr (d\<lparr>item_status := item_status d @ [r]\<rparr>))"
| "apply_write d (UpdItem r) =
     (if item_id r \<notin> set (item_ids d) then Inl StaleDataError
      else Inr (d\<lparr>items := replace_by item_id r (items d)\<rparr>))"
| "apply_write d (UpdStatus r) =
     (if \<not> status_ints_ok r then Inl DataError
      else if status_id r \<notin> set (status_ids d) then Inl StaleDataError
      else Inr (d\<lparr>item_status := replace_by status_id r (item_status d)\<rparr>))"
| "apply_write d (DelItem k) =
     (if k \<in> set (status_ids d) then Inl IntegrityError
      else Inr (d\<lparr>items := remove_by item_id k (items d)\<rparr>))"
| "apply_write d (DelStatus k) =
     Inr (d\<lparr>item_status := remove_by status_id k (item_status d)\<rparr>)"
| "apply_write d (UpdStatusStock k v now) =
     (if \<not> int32_ok v then Inl DataError
      else case lookup_by status_id k (item_status d) of
             None \<Rightarrow> Inl StaleDataError
           | Some s \<Rightarrow> Inr (d\<lparr>item_status := replace_by status_id
                          (s\<lparr>stock := Some v, status_updated_at := now\<rparr>) (item_status d)\<rparr>))"

fun commit :: "db \<Rightarrow> db_write list \<Rightarrow> exc + db" where
  "commit d [] = Inr d"
| "commit d (w # ws) = (case apply_write d w of Inl e \<Rightarrow> Inl e | Inr d' \<Rightarrow> commit d' ws)"

text \<open>Point queries \<open>db.query(M).filter(M.id == k).first()\<close>.\<close>

definition get_item_row :: "db \<Rightarrow> ident \<Rightarrow> item option" where
  "get_item_row d k = lookup_by item_id k (items d)"

definition get_status_row :: "db \<Rightarrow> ident \<Rightarrow> status option" where
  "get_status_row d k = lookup_by status_id k (item_status d)"

subsection \<open>The table constraints\<close>

definition wf_db :: "db \<Rightarrow> bool" where
  "wf_db d \<longleftrightarrow> distinct (item_ids d) \<and> distinct (status_ids d)
     \<and> set (status_ids d) \<subseteq> set (item_ids d) \<and> list_all status_ints_ok (item_status d)"

lemma wf_empty_db: "wf_db empty_db"
  by (simp add: wf_db_def empty_db_def)

lemma commit_append:
  "commit d (ws @ vs) = (case commit d ws of Inl e \<Rightarrow> Inl e | Inr d' \<Rightarrow> commit d' vs)"
  by (induction ws arbitrary: d) (auto split: sum.splits)

lemma wf_ins_item:
  "wf_db d \<Longrightarrow> item_id r \<notin> set (item_ids d) \<Longrightarrow> wf_db (d\<lparr>items := items d @ [r]\<rparr>)"
  unfolding wf_db_def by auto

lemma wf_ins_status:
  "wf_db d \<Longrightarrow> status_ints_ok r \<Longrightarrow> status_id r \<notin> set (status_ids d) \<Longrightarrow>
   status_id r \<in> set (item_ids d) \<Longrightarrow> wf_db (d\<lparr>item_status := item_status d @ [r]\<rparr>)"
  unfolding wf_db_def by auto

lemma wf_upd_item:
  "wf_db d \<Longrightarrow> wf_db (d\<lparr>items := replace_by item_id r (items d)\<rparr>)"
  unfolding wf_db_def by (simp add: map_key_replace_by)

lemma wf_upd_status:
  "wf_db d \<Longrightarrow> status_ints_ok r \<Longrightarrow> wf_db (d\<lparr>item_status := replace_by status_id r (item_status d)\<rparr>)"
  unfolding wf_db_def list_all_iff
  by (auto simp: map_key_replace_by dest: set_replace_by [THEN subsetD])

lemma wf_del_item:
  "wf_db d \<Longrightarrow> k \<notin> set (status_ids d) \<Longrightarrow> wf_db (d\<lparr>items := remove_by item_id k (items d)\<rparr>)"
  unfolding wf_db_def by (auto simp: distinct_remove_by keys_remove_by)

lemma wf_del_status:
  "wf_db d \<Longrightarrow> wf_db (d\<lparr>item_status := remove_by status_id k (item_status d)\<rparr>)"
  using distinct_remove_by [of status_id "item_status d" k]
  unfolding wf_db_def list_all_iff by (auto simp: remove_by_def)

lemma wf_upd_status_stock:
  assumes "wf_db d" and "lookup_by status_id k (item_status d) = Some s" and "int32_ok v"
  shows "wf_db (d\<lparr>item_status := replace_by status_id (s\<lparr>stock := Some v, status_updated_at := now\<rparr>) (item_status d)\<rparr>)"
proof -
  have "s \<in> set (item_status d)" using lookup_by_SomeD [OF assms(2)] by simp
  with assms(1) have "status_ints_ok s" by (simp add: wf_db_def list_all_iff)
  with assms(3) have "status_ints_ok (s\<lparr>stock := Some v, status_updated_at := now\<rparr>)"
    by (simp add: status_ints_ok_def)
  with assms(1) show ?thesis by (rule wf_upd_status)
qed

lemmas wf_db_writes = wf_ins_item wf_ins_status wf_upd_item wf_upd_status wf_del_item wf_del_status

lemma apply_write_wf:
  assumes "wf_db d" and "apply_write d w = Inr d'"
  shows "wf_db d'"
proof (cases w)
  case (UpdStatusStock k v now)
  with assms show ?thesis
    by (auto intro: wf_upd_status_stock split: if_splits option.splits)
qed (use assms in \<open>auto simp: wf_db_writes split: if_splits\<close>)

lemma commit_wf:
  "wf_db d \<Longrightarrow> commit d ws = Inr d' \<Longrightarrow> wf_db d'"
proof (induction ws arbitrary: d)
  case Nil
  then show ?case by simp
next
  case (Cons w ws)
  then obtain d1 where "apply_write d w = Inr d1" and "commit d1 ws = Inr d'"
    by (auto split: sum.splits)
  with Cons show ?case by (blast intro: apply_write_wf)
qed

end
