(* ===== verification/Fixtures.thy ===== *)
theory Fixtures
  imports Database
begin

text \<open>
  A small concrete database used to instantiate the theorems of the component
  theories: item A (price 9.99, five in stock, nothing sold), item B (price 15,
  no status row), item C (stock 15, three sold).
\<close>

definition item_a :: item where
  "item_a = \<lparr>item_id = ''A'', name = Some ''Red Apple'', description = None, price = Some (999 / 100),
     category = Some ''fruit'', item_created_at = 1, item_updated_at = 1\<rparr>"

definition item_b :: item where
  "item_b = \<lparr>item_id = ''B'', name = Some ''Banana'', description = Some ''yellow'', price = Some 15,
     category = Some ''fruit'', item_created_at = 2, item_updated_at = 2\<rparr>"

definition item_c :: item where
  "item_c = \<lparr>item_id = ''C'', name = Some ''Carrot_cake'', description = None, price = Some 25,
     category = Some ''bakery'', item_created_at = 3, item_updated_at = 3\<rparr>"

definition status_a :: status where
  "status_a = \<lparr>status_id = ''A'', total_sell = Some 0, stock = Some 5,
     status_created_at = 1, status_updated_at = 1\<rparr>"

definition status_c :: status where
  "status_c = \<lparr>status_id = ''C'', total_sell = Some 3, stock = Some 15,
     status_created_at = 3, status_updated_at = 3\<rparr>"

definition shop :: db where
  "shop = \<lparr>items = [item_a, item_b, item_c], item_status = [status_a, status_c]\<rparr>"

definition donut :: item_create where
  "donut = \<lparr>ic_name = ''Donut'', ic_description = None, ic_price = 2, ic_category = ''bakery'',
     ic_stock = Some 4\<rparr>"

lemmas fixture_defs = item_a_def item_b_def item_c_def status_a_def status_c_def shop_def

lemma wf_shop: "wf_db shop"
  by (simp add: wf_db_def fixture_defs status_ints_ok_def int32_ok_def)

end
