(* ===== verification/Like.thy ===== *)
theory Like
  imports Prelude
begin

text \<open>
  The pattern matching behind \<open>ItemModel.name.ilike(f"%{name}%")\<close> in
  \<open>search_items\<close> (src/app/crud/items_crud.py): SQLAlchemy renders
  \<open>name ILIKE :pattern\<close> and PostgreSQL matches it with its LIKE matcher,
  after case folding.  In a LIKE pattern \<open>%\<close> matches any string, \<open>_\<close>
  any single character, and the default escape character \<open>\\\<close> makes the
  next pattern character literal; a pattern whose escape character has nothing
  after it is an error when the matcher reaches it.  The matcher scans the text
  from left to right and, at a \<open>%\<close>, tries the rest of the pattern at each
  remaining position in turn, stopping at the first position that matches or
  fails with an error.  Case folding is modelled on ASCII letters only.
\<close>

definition pct :: char where "pct = CHR ''%''"
definition underscore :: char where "underscore = CHR ''_''"
definition backslash :: char where "backslash = CHR 0x5C"

text \<open>Every suffix of the text, longest first: the positions a \<open>%\<close> tries.\<close>

fun tails_of :: "'a list \<Rightarrow> 'a list list" where
  "tails_of [] = [[]]"
| "tails_of (x # xs) = (x # xs) # tails_of xs"

text \<open>The first result that is not a plain mismatch, or a mismatch if there is none.\<close>

fun first_match :: "bool option list \<Rightarrow> bool option" where
  "first_match [] = Some False"
| "first_match (Some False # rs) = first_match rs"
| "first_match (r # rs) = r"

text \<open>\<open>like_match p t\<close>: \<open>Some b\<close> the outcome of \<open>t LIKE p\<close>, \<open>None\<close> the error.\<close>

fun like_match :: "string \<Rightarrow> string \<Rightarrow> bool option" where
  "like_match [] t = Some (t = [])"
| "like_match (c # p) t =
     (if c = pct then first_match (map (like_match p) (tails_of t))
      else if c = backslash then
        (case p of
          [] \<Rightarrow> None
        | e # p' \<Rightarrow> (case t of [] \<Rightarrow> Some False
                    | x # t' \<Rightarrow> if x = e then like_match p' t' else Some False))
      else
        (case t of [] \<Rightarrow> Some False
        | x # t' \<Rightarrow> if c = underscore \<or> x = c then like_match p t' else Some False))"

definition lower_ascii :: "char \<Rightarrow> char" where
  "lower_ascii c =
     (if 65 \<le> (of_char c :: nat) \<and> (of_char c :: nat) \<le> 90 then char_of (of_char c + (32::nat)) else c)"

text \<open>\<open>t ILIKE p\<close>: both sides case-folded, then LIKE.\<close>

definition ilike :: "string \<Rightarrow> string \<Rightarrow> bool option" where
  "ilike t p = like_match (map lower_ascii p) (map lower_ascii t)"

text \<open>The pattern \<open>f"%{s}%"\<close> the code builds from a search term.\<close>

definition contains_pattern :: "string \<Rightarrow> string" where
  "contains_pattern s = pct # s @ [pct]"

definition literal_text :: "string \<Rightarrow> bool" where
  "literal_text s \<longleftrightarrow> list_all (\<lambda>c. c \<noteq> pct \<and> c \<noteq> underscore \<and> c \<noteq> backslash) s"

text \<open>A pattern in which every escape character has a character after it.\<close>

fun escape_ok :: "string \<Rightarrow> bool" where
  "escape_ok [] = True"
| "escape_ok [c] = (c \<noteq> backslash)"
| "escape_ok (c # d # p) = (if c = backslash then escape_ok p else escape_ok (d # p))"

subsection \<open>Matching a literal search term\<close>

lemma first_match_Cons_Some:
  "first_match (Some b # rs) = (if b then Some True else first_match rs)"
  by (cases b) auto

lemma first_match_Some_map:
  "first_match (map (\<lambda>u. Some (P u)) us) = Some (\<exists>u\<in>set us. P u)"
  by (induction us) (auto simp: first_match_Cons_Some)

lemma like_match_pct_Cons:
  "like_match (pct # p) t = first_match (map (like_match p) (tails_of t))"
  by simp

lemma map_like_match_Nil: "map (like_match []) us = map (\<lambda>u. Some (u = [])) us"
  by simp

lemma first_match_not_None:
  "list_all (\<lambda>r. r \<noteq> None) rs \<Longrightarrow> first_match rs \<noteq> None"
  by (induction rs rule: first_match.induct) auto

lemma set_tails_of: "set (tails_of t) = {u. suffix u t}"
  by (induction t) (auto simp: suffix_Cons)

lemma like_match_literal_prefix:
  "literal_text s \<Longrightarrow>
   like_match (s @ p) t = (if prefix s t then like_match p (drop (length s) t) else Some False)"
proof (induction s arbitrary: t)
  case Nil
  then show ?case by simp
next
  case (Cons c s)
  then show ?case
    by (cases t) (auto simp: literal_text_def)
qed

lemma like_match_pct: "like_match [pct] t = Some True"
proof -
  have "[] \<in> set (tails_of t)" by (simp add: set_tails_of)
  then show ?thesis
    by (simp only: like_match_pct_Cons map_like_match_Nil first_match_Some_map) auto
qed

lemma like_match_contains:
  "literal_text s \<Longrightarrow> like_match (contains_pattern s) t = Some (sublist s t)"
proof -
  assume lit: "literal_text s"
  have "like_match (s @ [pct]) u = Some (prefix s u)" for u
    using lit by (simp add: like_match_literal_prefix like_match_pct del: like_match.simps(2))
  then have "like_match (s @ [pct]) = (\<lambda>u. Some (prefix s u))"
    by (rule ext)
  then have "like_match (contains_pattern s) t = first_match (map (\<lambda>u. Some (prefix s u)) (tails_of t))"
    by (simp only: contains_pattern_def like_match_pct_Cons)
  also have "\<dots> = Some (sublist s t)"
    by (simp add: first_match_Some_map set_tails_of sublist_altdef')
  finally show ?thesis .
qed

lemma like_match_escape_ok:
  "escape_ok p \<Longrightarrow> like_match p t \<noteq> None"
proof (induction p t rule: like_match.induct)
  case (1 t)
  then show ?case by simp
next
  case (2 c p t)
  show ?case
  proof (cases "c = pct")
    case True
    have "escape_ok p"
      using "2.prems" True by (cases p) (auto simp: pct_def backslash_def)
    with True "2.IH"(1) have "list_all (\<lambda>r. r \<noteq> None) (map (like_match p) (tails_of t))"
      by (simp add: list_all_iff)
    with True show ?thesis
      by (simp only: like_match_pct_Cons) (rule first_match_not_None)
  next
    case False
    then show ?thesis
      using "2.prems" "2.IH"(2,3)
      by (cases p; cases t) (auto simp: pct_def backslash_def underscore_def split: if_splits)
  qed
qed

lemma escape_ok_snoc:
  "c \<noteq> backslash \<Longrightarrow> escape_ok (xs @ [c])"
  by (induction xs rule: escape_ok.induct) (auto simp: Cons_eq_append_conv)

lemma escape_ok_contains_pattern: "escape_ok (contains_pattern s)"
proof -
  have "escape_ok ((pct # s) @ [pct])"
    by (rule escape_ok_snoc) (simp add: pct_def backslash_def)
  then show ?thesis by (simp add: contains_pattern_def)
qed

lemma lower_ascii_special:
  "c \<in> {pct, underscore, backslash} \<Longrightarrow> lower_ascii c = c"
  by (auto simp: lower_ascii_def pct_def underscore_def backslash_def)

lemma lower_ascii_special_iff:
  assumes "d \<in> {pct, underscore, backslash}"
  shows "lower_ascii c = d \<longleftrightarrow> c = d"
proof
  assume eq: "lower_ascii c = d"
  show "c = d"
  proof (cases "65 \<le> (of_char c :: nat) \<and> (of_char c :: nat) \<le> 90")
    case True
    then have "(of_char (lower_ascii c) :: nat) = of_char c + 32"
      by (simp add: lower_ascii_def)
    with True eq assms have False
      by (auto simp: pct_def underscore_def backslash_def)
    then show ?thesis ..
  next
    case False
    with eq show ?thesis by (simp add: lower_ascii_def)
  qed
next
  assume "c = d"
  with assms show "lower_ascii c = d" by (simp add: lower_ascii_special)
qed

lemma literal_text_lower: "literal_text s \<Longrightarrow> literal_text (map lower_ascii s)"
  by (auto simp: literal_text_def list_all_iff lower_ascii_special_iff)

lemma lower_contains_pattern:
  "map lower_ascii (contains_pattern s) = contains_pattern (map lower_ascii s)"
  by (simp add: contains_pattern_def lower_ascii_special)

theorem ilike_contains:
  "literal_text s \<Longrightarrow>
   ilike t (contains_pattern s) = Some (sublist (map lower_ascii s) (map lower_ascii t))"
  by (simp add: ilike_def lower_contains_pattern like_match_contains literal_text_lower)

theorem ilike_contains_defined: "ilike t (contains_pattern s) \<noteq> None"
  by (simp add: ilike_def lower_contains_pattern like_match_escape_ok escape_ok_contains_pattern)

end
