(* ===== verification/ItemsCrud.thy ===== *)
theory ItemsCrud
  imports Fixtures Like
begin

text \<open>
  The item operations of src/app/crud/items_crud.py, each a function from the
  database to an exception or a result with the database after the commit.
  The server-generated identifier (\<open>generate_id()\<close>, a uuid4) and the clock
  (\<open>datetime.now()\<close>) are parameters.  A failed commit leaves the database as
  it was.  Queries without ORDER BY return rows in scan order, modelled as the
  table's list order.
\<close>

definition new_item_row :: "timestamp \<Rightarrow> ident \<Rightarrow> item_create \<Rightarrow> item" where
  "new_item_row now k ic =
     \<lparr>item_id = k, name = Some (ic_name ic), description = ic_description ic,
      price = Some (ic_price ic), category = Some (ic_category ic),
      item_created_at = now, item_updated_at = now\<rparr>"

text \<open>
  \<open>create_item\<close>: the item row and its status row (stock from the payload,
  \<open>total_sell\<close> left to its default) are added to the session and committed
  together; the unit of work inserts \<open>items\<close> before \<open>item_status\<close>.
\<close>

definition create_item :: "db \<Rightarrow> ident \<Rightarrow> timestamp \<Rightarrow> item_create \<Rightarrow> exc + (item \<times> db)" where
  "create_item d k now ic =
     (let r = new_item_row now k ic;
          s = orm_new_status now k None (ic_stock ic)
      in case commit d [InsItem r, InsStatus s] of
           Inl e \<Rightarrow> Inl e
         | Inr d' \<Rightarrow> Inr (r, d'))"

text \<open>
  \<open>get_items\<close>: \<open>.offset(skip).limit(limit)\<close>.  PostgreSQL rejects a
  negative OFFSET or LIMIT, and a value outside bigint.
\<close>

definition get_items :: "db \<Rightarrow> int \<Rightarrow> int \<Rightarrow> exc + item list" where
  "get_items d skip limit =
     (if skip < 0 \<or> limit < 0 \<or> \<not> int64_ok skip \<or> \<not> int64_ok limit then Inl DataError
      else Inr (take (nat limit) (drop (nat skip) (items d))))"

definition get_item :: "db \<Rightarrow> ident \<Rightarrow> item option" where
  "get_item d k = get_item_row d k"

definition update_item :: "db \<Rightarrow> ident \<Rightarrow> item_update \<Rightarrow> timestamp \<Rightarrow> exc + (item option \<times> db)" where
  "update_item d k u now =
     (case get_item_row d k of
        None \<Rightarrow> Inr (None, d)
      | Some r \<Rightarrow>
          (let r' = (apply_item_update u r)\<lparr>item_updated_at := now\<rparr>
           in case commit d [UpdItem r'] of
                Inl e \<Rightarrow> Inl e
              | Inr d' \<Rightarrow> Inr (Some r', d')))"

text \<open>
  \<open>delete_item\<close>: \<open>db.delete(db_item)\<close>; the relationship's
  \<open>cascade="all, delete-orphan"\<close> makes the ORM delete the item's status
  row first, in the same flush.
\<close>

definition delete_item :: "db \<Rightarrow> ident \<Rightarrow> exc + (bool \<times> db)" where
  "delete_item d k =
     (case get_item_row d k of
        None \<Rightarrow> Inr (False, d)
      | Some _ \<Rightarrow>
          (let ws = (case get_status_row d k of None \<Rightarrow> [] | Some _ \<Rightarrow> [DelStatus k]) @ [DelItem k]
           in case commit d ws of
                Inl e \<Rightarrow> Inl e
              | Inr d' \<Rightarrow> Inr (True, d')))"

subsection \<open>search_items\<close>

text \<open>
  SQL conditions are three-valued; \<open>Some b\<close> is a truth value, where a
  comparison with NULL gives \<open>Some False\<close> as far as WHERE is concerned, and
  \<open>None\<close> is a matcher error.  Conditions joined by \<open>.filter(...)\<close> are
  AND-ed in the order of the code.
\<close>

definition cond_and :: "bool option \<Rightarrow> bool option \<Rightarrow> bool option" where
  "cond_and a b = (case a of Some False \<Rightarrow> Some False | Some True \<Rightarrow> b | None \<Rightarrow> None)"

text \<open>\<open>if name: query = query.filter(col.ilike(f"%{name}%"))\<close>: no filter for None or ''.\<close>

definition text_filter :: "string option \<Rightarrow> string option \<Rightarrow> bool option" where
  "text_filter arg col =
     (case arg of
        None \<Rightarrow> Some True
      | Some s \<Rightarrow> if s = [] then Some True
                  else (case col of None \<Rightarrow> Some False | Some v \<Rightarrow> ilike v (contains_pattern s)))"

definition min_filter :: "real option \<Rightarrow> real option \<Rightarrow> bool option" where
  "min_filter arg col =
     (case arg of None \<Rightarrow> Some True
      | Some m \<Rightarrow> (case col of None \<Rightarrow> Some False | Some p \<Rightarrow> Some (m \<le> p)))"

definition max_filter :: "real option \<Rightarrow> real option \<Rightarrow> bool option" where
  "max_filter arg col =
     (case arg of None \<Rightarrow> Some True
      | Some m \<Rightarrow> (case col of None \<Rightarrow> Some False | Some p \<Rightarrow> Some (p \<le> m)))"

definition search_cond ::
  "string option \<Rightarrow> string option \<Rightarrow> real option \<Rightarrow> real option \<Rightarrow> item \<Rightarrow> bool option" where
  "search_cond nm cat lo hi r =
     cond_and (text_filter nm (name r))
       (cond_and (text_filter cat (category r))
         (cond_and (min_filter lo (price r)) (max_filter hi (price r))))"

definition search_items ::
  "db \<Rightarrow> string option \<Rightarrow> string option \<Rightarrow> real option \<Rightarrow> real option \<Rightarrow> exc + item list" where
  "search_items d nm cat lo hi =
     (if list_ex (\<lambda>r. search_cond nm cat lo hi r = None) (items d) then Inl DataError
      else Inr (filter (\<lambda>r. search_cond nm cat lo hi r = Some True) (items d)))"

subsection \<open>Properties\<close>

lemma status_ints_ok_new:
  "status_ints_ok (orm_new_status now k ts st) \<longleftrightarrow>
     int32_ok (case ts of None \<Rightarrow> 0 | Some v \<Rightarrow> v) \<and> int32_ok (case st of None \<Rightarrow> 0 | Some v \<Rightarrow> v)"
  by (simp add: status_ints_ok_def orm_new_status_def)

lemma int32_ok_0 [simp]: "int32_ok 0"
  by (simp add: int32_ok_def)

lemma wf_db_fresh_status:
  "wf_db d \<Longrightarrow> k \<notin> set (item_ids d) \<Longrightarrow> k \<notin> set (status_ids d)"
  by (auto simp: wf_db_def)

lemma create_item_eq:
  assumes "wf_db d" and "k \<notin> set (item_ids d)" and "pred_option int32_ok (ic_stock ic)"
  shows "create_item d k now ic =
           Inr (new_item_row now k ic,
                d\<lparr>items := items d @ [new_item_row now k ic],
                  item_status := item_status d @ [orm_new_status now k None (ic_stock ic)]\<rparr>)"
proof -
  have ok: "status_ints_ok (orm_new_status now k None (ic_stock ic))"
    using assms(3) by (cases "ic_stock ic") (simp_all add: status_ints_ok_new)
  have "k \<notin> set (status_ids d)"
    using assms(1,2) by (rule wf_db_fresh_status)
  with assms(2) ok show ?thesis
    by (simp add: create_item_def new_item_row_def orm_new_status_def Let_def)
qed

lemma create_item_duplicate_id:
  "k \<in> set (item_ids d) \<Longrightarrow> create_item d k now ic = Inl IntegrityError"
  by (simp add: create_item_def new_item_row_def Let_def)

text \<open>C11: A create request whose stock is outside the PostgreSQL int4 range fails with a DataError at commit, so neither the item row nor its status row is stored.\<close>

theorem create_item_stock_out_of_range:
  "k \<notin> set (item_ids d) \<Longrightarrow> ic_stock ic = Some v \<Longrightarrow> \<not> int32_ok v \<Longrightarrow>
   create_item d k now ic = Inl DataError"
  by (simp add: create_item_def new_item_row_def status_ints_ok_new Let_def)

text \<open>C10: Creating an item with a fresh identifier and an in-range stock stores exactly the submitted fields with the server id and equal creation and update times, together with a status row holding the submitted stock and zero sales.\<close>

theorem get_item_after_create:
  assumes "wf_db d" and "k \<notin> set (item_ids d)" and "pred_option int32_ok (ic_stock ic)"
    and "create_item d k now ic = Inr (r, d')"
  shows "get_item d' k = Some r \<and> item_id r = k \<and> name r = Some (ic_name ic)
     \<and> description r = ic_description ic \<and> price r = Some (ic_price ic)
     \<and> category r = Some (ic_category ic) \<and> item_created_at r = now \<and> item_updated_at r = now
     \<and> get_status_row d' k = Some (orm_new_status now k None (ic_stock ic))"
proof -
  have "k \<notin> set (status_ids d)"
    using assms(1,2) by (rule wf_db_fresh_status)
  with assms show ?thesis
    by (auto simp: create_item_eq get_item_def get_item_row_def get_status_row_def
        new_item_row_def orm_new_status_def lookup_by_append lookup_by_notin)
qed

lemma get_item_row_in_ids:
  "get_item_row d k = Some r \<Longrightarrow> item_id r = k \<and> k \<in> set (item_ids d)"
  by (auto simp: get_item_row_def dest!: lookup_by_SomeD)

lemma update_item_found:
  assumes "get_item_row d k = Some r"
  shows "update_item d k u now =
           Inr (Some ((apply_item_update u r)\<lparr>item_updated_at := now\<rparr>),
                d\<lparr>items := replace_by item_id ((apply_item_update u r)\<lparr>item_updated_at := now\<rparr>) (items d)\<rparr>)"
  using get_item_row_in_ids [OF assms]
  by (simp add: update_item_def assms apply_item_update_def Let_def)

lemma update_item_missing:
  "get_item_row d k = None \<Longrightarrow> update_item d k u now = Inr (None, d)"
  by (simp add: update_item_def)

lemma apply_item_update_empty: "apply_item_update empty_item_update r = r"
  by (simp add: apply_item_update_def empty_item_update_def)

lemma get_item_row_replace:
  "get_item_row d k = Some r \<Longrightarrow> item_id r' = k \<Longrightarrow>
   get_item_row (d\<lparr>items := replace_by item_id r' (items d)\<rparr>) k' =
     (if k' = k then Some r' else get_item_row d k')"
  using get_item_row_in_ids [of d k r]
  by (auto simp: get_item_row_def lookup_by_replace_by)

text \<open>C12: Updating an existing item with an empty payload changes only its updated_at timestamp; every other item and every status row is left as it was.\<close>

theorem update_item_empty_payload:
  assumes "get_item d k = Some r" and "update_item d k empty_item_update now = Inr (res, d')"
  shows "res = Some (r\<lparr>item_updated_at := now\<rparr>) \<and> get_item d' k = Some (r\<lparr>item_updated_at := now\<rparr>)
     \<and> (\<forall>k'. k' \<noteq> k \<longrightarrow> get_item d' k' = get_item d k') \<and> item_status d' = item_status d"
proof -
  have row: "get_item_row d k = Some r" using assms(1) by (simp add: get_item_def)
  then have "item_id r = k" by (simp add: get_item_row_in_ids)
  with row assms(2) show ?thesis
    by (auto simp: update_item_found apply_item_update_empty get_item_def get_item_row_replace)
qed

lemma delete_item_found:
  assumes "wf_db d" and "get_item_row d k = Some r"
  shows "delete_item d k =
           Inr (True, d\<lparr>items := remove_by item_id k (items d),
                        item_status := remove_by status_id k (item_status d)\<rparr>)"
proof (cases "get_status_row d k")
  case None
  then have "k \<notin> set (status_ids d)"
    by (simp add: get_status_row_def lookup_by_None_iff)
  then have "remove_by status_id k (item_status d) = item_status d"
    by (auto simp: remove_by_def filter_id_conv)
  with None assms(2) \<open>k \<notin> set (status_ids d)\<close> show ?thesis
    by (simp add: delete_item_def)
next
  case (Some s)
  have "k \<notin> status_id ` set (remove_by status_id k (item_status d))"
    by (simp add: keys_remove_by)
  with Some assms(2) show ?thesis
    by (simp add: delete_item_def)
qed

text \<open>C13: Deleting an existing item of a database satisfying the table constraints succeeds: it removes the item row and, through the relationship cascade, its status row, and leaves every other item and status as it was.\<close>

theorem delete_item_removes:
  assumes "wf_db d" and "get_item d k = Some r"
  shows "\<exists>d'. delete_item d k = Inr (True, d') \<and> get_item d' k = None \<and> get_status_row d' k = None
     \<and> (\<forall>k'. k' \<noteq> k \<longrightarrow> get_item d' k' = get_item d k' \<and> get_status_row d' k' = get_status_row d k')"
  using assms
  by (auto simp: get_item_def delete_item_found get_item_row_def get_status_row_def lookup_by_remove_by)

lemma delete_item_missing:
  "get_item_row d k = None \<Longrightarrow> delete_item d k = Inr (False, d)"
  by (simp add: delete_item_def)

lemma get_items_ok:
  "0 \<le> skip \<Longrightarrow> 0 \<le> limit \<Longrightarrow> int64_ok skip \<Longrightarrow> int64_ok limit \<Longrightarrow>
   get_items d skip limit = Inr (take (nat limit) (drop (nat skip) (items d)))"
  by (simp add: get_items_def)

text \<open>A successful listing is the window of at most limit rows starting at offset skip of the table, and it only succeeds for non-negative skip and limit.\<close>

theorem get_items_page:
  assumes "get_items d skip limit = Inr xs"
  shows "length xs \<le> nat limit \<and> 0 \<le> skip \<and> 0 \<le> limit
     \<and> xs = take (nat limit) (drop (nat skip) (items d)) \<and> sublist xs (items d)"
proof -
  have "sublist (take (nat limit) (drop (nat skip) (items d))) (items d)"
    by (metis append_take_drop_id sublist_appendI)
  with assms show ?thesis by (auto simp: get_items_def split: if_splits)
qed

theorem get_items_negative:
  "skip < 0 \<or> limit < 0 \<Longrightarrow> get_items d skip limit = Inl DataError"
  by (auto simp: get_items_def)

lemma cond_and_Some: "cond_and (Some b) c = (if b then c else Some False)"
  by (cases b) (simp_all add: cond_and_def)

lemma text_filter_defined: "text_filter arg col \<noteq> None"
  using ilike_contains_defined
  by (auto simp: text_filter_def split: option.splits simp del: not_None_eq)

lemma min_filter_defined: "min_filter arg col \<noteq> None"
  by (auto simp: min_filter_def split: option.splits)

lemma max_filter_defined: "max_filter arg col \<noteq> None"
  by (auto simp: max_filter_def split: option.splits)

lemma cond_and_defined: "a \<noteq> None \<Longrightarrow> b \<noteq> None \<Longrightarrow> cond_and a b \<noteq> None"
  by (auto simp: cond_and_def split: option.splits bool.splits)

lemma search_cond_defined: "search_cond nm cat lo hi r \<noteq> None"
  unfolding search_cond_def
  by (intro cond_and_defined text_filter_defined min_filter_defined max_filter_defined)

text \<open>A search never fails: the patterns it builds always parse, so it returns the items satisfying every given filter.\<close>

theorem search_items_total:
  "search_items d nm cat lo hi = Inr (filter (\<lambda>r. search_cond nm cat lo hi r = Some True) (items d))"
  by (simp add: search_items_def list_ex_iff search_cond_defined)

text \<open>A search with no filters returns every item.\<close>

theorem search_items_no_filters: "search_items d None None None None = Inr (items d)"
  by (simp add: search_items_total search_cond_def cond_and_def text_filter_def
      min_filter_def max_filter_def)

text \<open>A search with both price bounds returns exactly the items whose price is set and lies in the closed range.\<close>

theorem search_items_price_range:
  "search_items d None None (Some lo) (Some hi) =
     Inr (filter (\<lambda>r. \<exists>p. price r = Some p \<and> lo \<le> p \<and> p \<le> hi) (items d))"
  unfolding search_items_total
  by (auto simp: search_cond_def cond_and_Some text_filter_def min_filter_def max_filter_def
      intro!: filter_cong split: option.splits)

text \<open>A search by a name term with no LIKE wildcard or escape characters returns exactly the items whose name contains the term, ignoring ASCII case.\<close>

theorem search_items_name:
  assumes "literal_text s" and "s \<noteq> []"
  shows "search_items d (Some s) None None None =
     Inr (filter (\<lambda>r. case name r of None \<Rightarrow> False
                        | Some n \<Rightarrow> sublist (map lower_ascii s) (map lower_ascii n)) (items d))"
  unfolding search_items_total
  using assms
  by (auto simp: search_cond_def cond_and_Some text_filter_def min_filter_def max_filter_def
      ilike_contains intro!: filter_cong split: option.splits)



lemma create_item_wf:
  "wf_db d \<Longrightarrow> create_item d k now ic = Inr (r, d') \<Longrightarrow> wf_db d'"
  by (auto simp: create_item_def Let_def simp del: commit.simps split: sum.splits intro: commit_wf)

lemma update_item_wf:
  "wf_db d \<Longrightarrow> update_item d k u now = Inr (res, d') \<Longrightarrow> wf_db d'"
  by (auto simp: update_item_def Let_def simp del: commit.simps split: option.splits sum.splits intro: commit_wf)

lemma delete_item_wf:
  "wf_db d \<Longrightarrow> delete_item d k = Inr (b, d') \<Longrightarrow> wf_db d'"
  by (auto simp: delete_item_def Let_def simp del: commit.simps split: option.splits sum.splits intro: commit_wf)

subsection \<open>Witnesses\<close>

theorem get_item_after_create_witness:
  "create_item shop ''D'' 10 donut =
     Inr (new_item_row 10 ''D'' donut,
          shop\<lparr>items := items shop @ [new_item_row 10 ''D'' donut],
               item_status := item_status shop @ [orm_new_status 10 ''D'' None (Some 4)]\<rparr>)
   \<and> get_item (shop\<lparr>items := items shop @ [new_item_row 10 ''D'' donut],
               item_status := item_status shop @ [orm_new_status 10 ''D'' None (Some 4)]\<rparr>) ''D''
     = Some (new_item_row 10 ''D'' donut)
   \<and> item_created_at (new_item_row 10 ''D'' donut) = 10
   \<and> item_updated_at (new_item_row 10 ''D'' donut) = 10"
proof -
  have fresh: "''D'' \<notin> set (item_ids shop)" by (simp add: fixture_defs)
  have ok: "pred_option int32_ok (ic_stock donut)" by (simp add: donut_def int32_ok_def)
  have eq: "create_item shop ''D'' 10 donut =
     Inr (new_item_row 10 ''D'' donut,
          shop\<lparr>items := items shop @ [new_item_row 10 ''D'' donut],
               item_status := item_status shop @ [orm_new_status 10 ''D'' None (Some 4)]\<rparr>)"
    using create_item_eq [OF wf_shop fresh ok] by (simp add: donut_def)
  show ?thesis
    using eq get_item_after_create [OF wf_shop fresh ok eq] by simp
qed

theorem create_item_stock_out_of_range_witness:
  "create_item shop ''D'' 10 (donut\<lparr>ic_stock := Some (2 ^ 31)\<rparr>) = Inl DataError"
proof -
  have "''D'' \<notin> set (item_ids shop)" by (simp add: fixture_defs)
  moreover have "\<not> int32_ok (2 ^ 31)" by (simp add: int32_ok_def)
  ultimately show ?thesis
    using create_item_stock_out_of_range [of "''D''" shop "donut\<lparr>ic_stock := Some (2 ^ 31)\<rparr>" "2 ^ 31" 10]
    by simp
qed

theorem update_item_empty_payload_witness:
  "update_item shop ''A'' empty_item_update 7 =
     Inr (Some (item_a\<lparr>item_updated_at := 7\<rparr>), shop\<lparr>items := [item_a\<lparr>item_updated_at := 7\<rparr>, item_b, item_c]\<rparr>)
   \<and> get_item (shop\<lparr>items := [item_a\<lparr>item_updated_at := 7\<rparr>, item_b, item_c]\<rparr>) ''A'' = Some (item_a\<lparr>item_updated_at := 7\<rparr>)"
proof -
  have g: "get_item shop ''A'' = Some item_a"
    by (simp add: get_item_def get_item_row_def lookup_by_def fixture_defs)
  have u: "update_item shop ''A'' empty_item_update 7 =
     Inr (Some (item_a\<lparr>item_updated_at := 7\<rparr>), shop\<lparr>items := [item_a\<lparr>item_updated_at := 7\<rparr>, item_b, item_c]\<rparr>)"
    by (simp add: update_item_def get_item_row_def lookup_by_def replace_by_def
        apply_item_update_def empty_item_update_def fixture_defs Let_def)
  show ?thesis
    using u update_item_empty_payload [OF g u] by simp
qed

theorem delete_item_removes_witness:
  "\<exists>d'. delete_item shop ''C'' = Inr (True, d') \<and> get_item d' ''C'' = None \<and> get_status_row d' ''C'' = None
     \<and> (\<forall>k'. k' \<noteq> ''C'' \<longrightarrow> get_item d' k' = get_item shop k' \<and> get_status_row d' k' = get_status_row shop k')"
proof -
  have g: "get_item shop ''C'' = Some item_c"
    by (simp add: get_item_def get_item_row_def lookup_by_def fixture_defs)
  show ?thesis using delete_item_removes [OF wf_shop g] .
qed

theorem get_items_page_witness:
  "get_items shop 1 1 = Inr [item_b] \<and> length [item_b] \<le> nat 1 \<and> sublist [item_b] (items shop)"
proof -
  have p: "get_items shop 1 1 = Inr [item_b]"
    by (simp add: get_items_def int64_ok_def fixture_defs)
  show ?thesis using p get_items_page [OF p] by (simp add: fixture_defs)
qed

theorem search_items_name_witness:
  "search_items shop (Some ''apple'') None None None = Inr [item_a]"
proof -
  have lit: "literal_text ''apple''"
    by (simp add: literal_text_def pct_def underscore_def backslash_def)
  have "filter (\<lambda>r. case name r of None \<Rightarrow> False
             | Some n \<Rightarrow> sublist (map lower_ascii ''apple'') (map lower_ascii n)) (items shop) = [item_a]"
    by code_simp
  with search_items_name [OF lit] show ?thesis by simp
qed

text \<open>The search term is spliced into the LIKE pattern unescaped, so an underscore in it matches any character: searching for the name "_" returns items whose names contain no underscore.\<close>

theorem search_underscore_is_wildcard:
  "search_items shop (Some ''_'') None None None = Inr [item_a, item_b, item_c]
   \<and> \<not> sublist ''_'' (the (name item_a)) \<and> \<not> sublist ''_'' (the (name item_b))"
  by code_simp

end
