(* ===== verification/StatusCrud.thy ===== *)
theory StatusCrud
  imports Fixtures "HOL-Library.Product_Lexorder"
begin

text \<open>
  The status operations of src/app/crud/status_crud.py: the CRUD functions on
  \<open>item_status\<close>, the inventory mutations \<open>sell_item\<close> and
  \<open>restock_item\<close>, and the two join queries behind the inventory routes.
  Each mutation reads the row, computes the new column values in Python
  (unbounded integers; \<open>None\<close> for a NULL column, on which \<open><\<close> and
  \<open>+\<close> raise TypeError) and commits an UPDATE that writes those values; the
  int4 range is checked by the server at commit.
\<close>

definition create_status :: "db \<Rightarrow> ident \<Rightarrow> status_create \<Rightarrow> timestamp \<Rightarrow> exc + (status \<times> db)" where
  "create_status d k sc now =
     (let s = orm_new_status now k (Some (sc_total_sell sc)) (Some (sc_stock sc))
      in case commit d [InsStatus s] of
           Inl e \<Rightarrow> Inl e
         | Inr d' \<Rightarrow> Inr (s, d'))"

definition get_status :: "db \<Rightarrow> ident \<Rightarrow> status option" where
  "get_status d k = get_status_row d k"

definition update_status :: "db \<Rightarrow> ident \<Rightarrow> status_update \<Rightarrow> timestamp \<Rightarrow> exc + (status option \<times> db)" where
  "update_status d k u now =
     (case get_status_row d k of
        None \<Rightarrow> Inr (None, d)
      | Some s \<Rightarrow>
          (let s' = (apply_status_update u s)\<lparr>status_updated_at := now\<rparr>
           in case commit d [UpdStatus s'] of
                Inl e \<Rightarrow> Inl e
              | Inr d' \<Rightarrow> Inr (Some s', d')))"

definition delete_status :: "db \<Rightarrow> ident \<Rightarrow> exc + (bool \<times> db)" where
  "delete_status d k =
     (case get_status_row d k of
        None \<Rightarrow> Inr (False, d)
      | Some _ \<Rightarrow>
          (case commit d [DelStatus k] of
             Inl e \<Rightarrow> Inl e
           | Inr d' \<Rightarrow> Inr (True, d')))"

text \<open>
  \<open>sell_item\<close>: no row or \<open>stock < quantity\<close> returns \<open>None\<close> (nothing
  written); otherwise \<open>stock -= quantity\<close>, \<open>total_sell += quantity\<close>,
  \<open>updated_at = now\<close>, commit.
\<close>

definition sell_item :: "db \<Rightarrow> ident \<Rightarrow> int \<Rightarrow> timestamp \<Rightarrow> exc + (status option \<times> db)" where
  "sell_item d k q now =
     (case get_status_row d k of
        None \<Rightarrow> Inr (None, d)
      | Some s \<Rightarrow>
          (case stock s of
             None \<Rightarrow> Inl TypeError
           | Some st \<Rightarrow>
               if st < q then Inr (None, d)
               else (case total_sell s of
                       None \<Rightarrow> Inl TypeError
                     | Some ts \<Rightarrow>
                         (let s' = s\<lparr>stock := Some (st - q), total_sell := Some (ts + q),
                                    status_updated_at := now\<rparr>
                          in case commit d [UpdStatus s'] of
                               Inl e \<Rightarrow> Inl e
                             | Inr d' \<Rightarrow> Inr (Some s', d')))))"

text \<open>\<open>restock_item\<close>: no row returns \<open>None\<close>; otherwise \<open>stock += quantity\<close>, with no check on the quantity.\<close>

definition restock_item :: "db \<Rightarrow> ident \<Rightarrow> int \<Rightarrow> timestamp \<Rightarrow> exc + (status option \<times> db)" where
  "restock_item d k q now =
     (case get_status_row d k of
        None \<Rightarrow> Inr (None, d)
      | Some s \<Rightarrow>
          (case stock s of
             None \<Rightarrow> Inl TypeError
           | Some st \<Rightarrow>
               (let s' = s\<lparr>stock := Some (st + q), status_updated_at := now\<rparr>
                in case commit d [UpdStatus s'] of
                     Inl e \<Rightarrow> Inl e
                   | Inr d' \<Rightarrow> Inr (Some s', d'))))"

subsection \<open>Join queries\<close>

text \<open>\<open>db.query(ItemModel).join(ItemStatus)\<close>: the inner join on the shared id, as a nested loop over the tables.\<close>

definition joined :: "db \<Rightarrow> (item \<times> status) list" where
  "joined d = [(i, s). i \<leftarrow> items d, s \<leftarrow> item_status d, item_id i = status_id s]"

definition stock_at_most :: "int \<Rightarrow> status \<Rightarrow> bool" where
  "stock_at_most t s = (case stock s of None \<Rightarrow> False | Some v \<Rightarrow> v \<le> t)"

definition get_low_stock_items :: "db \<Rightarrow> int \<Rightarrow> item list" where
  "get_low_stock_items d threshold = map fst (filter (\<lambda>(i, s). stock_at_most threshold s) (joined d))"

text \<open>
  \<open>.order_by(ItemStatus.total_sell.desc())\<close>: PostgreSQL sorts NULLs first in
  descending order; rows with equal sales keep the order the join produced
  them in (the database leaves it unspecified; a stable sort is one choice).
\<close>

definition sell_rank :: "item \<times> status \<Rightarrow> nat \<times> int" where
  "sell_rank p = (case total_sell (snd p) of None \<Rightarrow> (0, 0) | Some n \<Rightarrow> (1, - n))"

definition get_top_sellers :: "db \<Rightarrow> int \<Rightarrow> exc + item list" where
  "get_top_sellers d limit =
     (if limit < 0 \<or> \<not> int64_ok limit then Inl DataError
      else Inr (map fst (take (nat limit) (sort_key sell_rank (joined d)))))"

definition nonneg_stock :: "db \<Rightarrow> bool" where
  "nonneg_stock d \<longleftrightarrow> list_all (\<lambda>s. pred_option (\<lambda>v. 0 \<le> v) (stock s)) (item_status d)"

subsection \<open>Properties\<close>

lemma get_status_row_in_ids:
  "get_status_row d k = Some s \<Longrightarrow> status_id s = k \<and> k \<in> set (status_ids d)"
  by (auto simp: get_status_row_def dest!: lookup_by_SomeD)

lemma commit_upd_status:
  "get_status_row d k = Some s \<Longrightarrow> status_id s' = k \<Longrightarrow>
   commit d [UpdStatus s'] =
     (if status_ints_ok s' then Inr (d\<lparr>item_status := replace_by status_id s' (item_status d)\<rparr>)
      else Inl DataError)"
  by (auto dest: get_status_row_in_ids)

text \<open>C1: Selling q units of an item whose status row holds stock st with q <= st and sales ts, where the new values fit the int4 columns, commits stock st - q and total_sell ts + q with the request time and changes no other row.\<close>

theorem sell_item_success:
  assumes "get_status d k = Some s" and "stock s = Some st" and "total_sell s = Some ts"
    and "q \<le> st" and "int32_ok (st - q)" and "int32_ok (ts + q)"
  shows "sell_item d k q now =
     Inr (Some (s\<lparr>stock := Some (st - q), total_sell := Some (ts + q), status_updated_at := now\<rparr>),
          d\<lparr>item_status := replace_by status_id
              (s\<lparr>stock := Some (st - q), total_sell := Some (ts + q), status_updated_at := now\<rparr>)
              (item_status d)\<rparr>)"
proof -
  have row: "get_status_row d k = Some s" using assms(1) by (simp add: get_status_def)
  then have "status_id s = k" by (simp add: get_status_row_in_ids)
  with row assms(2-6) show ?thesis
    by (simp add: sell_item_def Let_def commit_upd_status status_ints_ok_def del: commit.simps)
qed

text \<open>C2: Selling more units than the stock holds is rejected (None) and leaves the database unchanged: no partial deduction.\<close>

theorem sell_item_insufficient:
  "get_status d k = Some s \<Longrightarrow> stock s = Some st \<Longrightarrow> st < q \<Longrightarrow> sell_item d k q now = Inr (None, d)"
  by (simp add: sell_item_def get_status_def)

text \<open>Selling an item that has no status row is rejected (None) and leaves the database unchanged.\<close>

theorem sell_item_missing:
  "get_status d k = None \<Longrightarrow> sell_item d k q now = Inr (None, d)"
  by (simp add: sell_item_def get_status_def)

text \<open>Selling an item whose stock column is NULL raises a TypeError (Python compares None with an int), so the request fails instead of being rejected.\<close>

theorem sell_item_null_stock:
  "get_status d k = Some s \<Longrightarrow> stock s = None \<Longrightarrow> sell_item d k q now = Inl TypeError"
  by (simp add: sell_item_def get_status_def)

lemma nonneg_stock_replace:
  "nonneg_stock d \<Longrightarrow> pred_option (\<lambda>v. 0 \<le> v) (stock s') \<Longrightarrow>
   nonneg_stock (d\<lparr>item_status := replace_by status_id s' (item_status d)\<rparr>)"
  by (auto simp: nonneg_stock_def list_all_iff dest: set_replace_by [THEN subsetD])

text \<open>C3: No successful sell, whatever its quantity, makes a stock negative: if every stock was non-negative before, every stock is non-negative after.\<close>

theorem sell_item_nonneg:
  assumes "nonneg_stock d" and "sell_item d k q now = Inr (r, d')"
  shows "nonneg_stock d'"
  using assms get_status_row_in_ids [of d k]
  by (auto simp: sell_item_def Let_def commit_upd_status simp del: commit.simps
      split: option.splits if_splits sum.splits intro!: nonneg_stock_replace)

text \<open>C8: Restocking an item whose status row holds stock st commits stock st + q with the request time for any quantity q, positive or not, as long as the result fits int4.\<close>

theorem restock_item_success:
  assumes "get_status d k = Some s" and "stock s = Some st" and "status_ints_ok (s\<lparr>stock := Some (st + q)\<rparr>)"
  shows "restock_item d k q now =
     Inr (Some (s\<lparr>stock := Some (st + q), status_updated_at := now\<rparr>),
          d\<lparr>item_status := replace_by status_id (s\<lparr>stock := Some (st + q), status_updated_at := now\<rparr>)
              (item_status d)\<rparr>)"
proof -
  have row: "get_status_row d k = Some s" using assms(1) by (simp add: get_status_def)
  then have "status_id s = k" by (simp add: get_status_row_in_ids)
  with row assms(2,3) show ?thesis
    by (simp add: restock_item_def Let_def commit_upd_status status_ints_ok_def del: commit.simps)
qed

lemma join_row_distinct:
  "distinct (map key rows) \<Longrightarrow>
   concat (map (\<lambda>s. if k = key s then [(i, s)] else []) rows) =
     (case lookup_by key k rows of None \<Rightarrow> [] | Some s \<Rightarrow> [(i, s)])"
proof (induction rows)
  case Nil
  then show ?case by (simp add: lookup_by_def)
next
  case (Cons a rows)
  then have "lookup_by key (key a) rows = None"
    by (simp add: lookup_by_None_iff)
  with Cons show ?case
    by (auto simp: lookup_by_def)
qed

lemma joined_wf:
  assumes "wf_db d"
  shows "joined d = concat (map (\<lambda>i. case get_status_row d (item_id i) of None \<Rightarrow> [] | Some s \<Rightarrow> [(i, s)]) (items d))"
proof -
  have "distinct (status_ids d)" using assms by (simp add: wf_db_def)
  then show ?thesis
    by (simp add: joined_def get_status_row_def join_row_distinct)
qed

lemma map_fst_filter_join:
  "map fst (filter (\<lambda>(i, s). P s) (concat (map (\<lambda>i. case g i of None \<Rightarrow> [] | Some s \<Rightarrow> [(i, s)]) xs))) =
   filter (\<lambda>i. case g i of None \<Rightarrow> False | Some s \<Rightarrow> P s) xs"
  by (induction xs) (auto split: option.splits)

text \<open>The low-stock query returns, in table order, exactly the items that have a status row whose stock is at most the threshold; items without status and NULL stocks are excluded.\<close>

theorem low_stock_items_wf:
  assumes "wf_db d"
  shows "get_low_stock_items d t =
     filter (\<lambda>i. case get_status_row d (item_id i) of None \<Rightarrow> False | Some s \<Rightarrow> stock_at_most t s) (items d)"
  by (simp add: get_low_stock_items_def joined_wf [OF assms] map_fst_filter_join)

lemma sorted_take_drop_le:
  "sorted (map f ys) \<Longrightarrow> x \<in> set (take n ys) \<Longrightarrow> y \<in> set (drop n ys) \<Longrightarrow> f x \<le> f y"
proof -
  assume s: "sorted (map f ys)" and x: "x \<in> set (take n ys)" and y: "y \<in> set (drop n ys)"
  from s have "sorted (map f (take n ys @ drop n ys))" by simp
  then have "sorted (map f (take n ys) @ map f (drop n ys))" by (simp only: map_append)
  with x y show "f x \<le> f y" by (simp add: sorted_append)
qed

lemma top_sellers_rank_prefix:
  assumes "get_top_sellers d l = Inr xs"
  shows "\<exists>ps. xs = map fst ps \<and> length ps = min (nat l) (length (joined d))
     \<and> sorted (map sell_rank ps) \<and> mset ps \<subseteq># mset (joined d)
     \<and> (\<forall>p\<in>set ps. \<forall>p'\<in># mset (joined d) - mset ps. sell_rank p \<le> sell_rank p')"
proof -
  let ?ys = "sort_key sell_rank (joined d)"
  let ?ps = "take (nat l) ?ys"
  have xs: "xs = map fst ?ps" using assms by (simp add: get_top_sellers_def split: if_splits)
  have m: "mset ?ys = mset (joined d)" by simp
  have s: "sorted (map sell_rank ?ys)" by simp
  have split: "mset (joined d) = mset ?ps + mset (drop (nat l) ?ys)"
    by (metis append_take_drop_id m mset_append)
  have "sorted (map sell_rank ?ps)"
    using s by (simp add: sorted_wrt_take take_map [symmetric])
  moreover have "mset ?ps \<subseteq># mset (joined d)"
    by (simp add: split)
  moreover have "\<forall>p\<in>set ?ps. \<forall>p'\<in># mset (joined d) - mset ?ps. sell_rank p \<le> sell_rank p'"
    using sorted_take_drop_le [OF s] by (simp add: split)
  moreover have "length ?ps = min (nat l) (length (joined d))" by simp
  ultimately show ?thesis using xs by blast
qed

lemma sell_rank_le:
  "sell_rank p \<le> sell_rank p' \<longleftrightarrow>
     total_sell (snd p) = None \<or> (\<exists>a b. total_sell (snd p) = Some a \<and> total_sell (snd p') = Some b \<and> b \<le> a)"
  by (simp add: sell_rank_def less_eq_prod_def split: option.splits)

text \<open>C23: The top-sellers query returns min(limit, number of items with a status) of the items that have a status row, ordered by total_sell descending with NULLs first (PostgreSQL's DESC), and no item left out sells more than one returned.\<close>

theorem top_sellers_ranked:
  assumes "get_top_sellers d l = Inr xs"
  shows "\<exists>ps. xs = map fst ps \<and> length ps = min (nat l) (length (joined d)) \<and> mset ps \<subseteq># mset (joined d)
     \<and> sorted_wrt (\<lambda>p p'. total_sell (snd p) = None
          \<or> (\<exists>a b. total_sell (snd p) = Some a \<and> total_sell (snd p') = Some b \<and> b \<le> a)) ps
     \<and> (\<forall>p\<in>set ps. \<forall>p'\<in># mset (joined d) - mset ps. total_sell (snd p) = None
          \<or> (\<exists>a b. total_sell (snd p) = Some a \<and> total_sell (snd p') = Some b \<and> b \<le> a))"
proof -
  from top_sellers_rank_prefix [OF assms] obtain ps where
    ps: "xs = map fst ps" "length ps = min (nat l) (length (joined d))" "mset ps \<subseteq># mset (joined d)"
    and s: "sorted (map sell_rank ps)"
    and r: "\<forall>p\<in>set ps. \<forall>p'\<in># mset (joined d) - mset ps. sell_rank p \<le> sell_rank p'" by blast
  from s have "sorted_wrt (\<lambda>p p'. sell_rank p \<le> sell_rank p') ps" by (simp add: sorted_map)
  with ps r show ?thesis by (auto simp: sell_rank_le)
qed

lemma create_status_eq:
  assumes "k \<in> set (item_ids d)" and "k \<notin> set (status_ids d)"
    and "int32_ok (sc_total_sell sc)" and "int32_ok (sc_stock sc)"
  shows "create_status d k sc now =
     Inr (orm_new_status now k (Some (sc_total_sell sc)) (Some (sc_stock sc)),
          d\<lparr>item_status := item_status d @ [orm_new_status now k (Some (sc_total_sell sc)) (Some (sc_stock sc))]\<rparr>)"
  using assms by (simp add: create_status_def status_ints_ok_def orm_new_status_def Let_def)

text \<open>C30: Creating a status for an item that already has one fails with an IntegrityError at commit.\<close>

theorem create_status_duplicate:
  assumes "get_status d k = Some s" and "int32_ok (sc_total_sell sc)" and "int32_ok (sc_stock sc)"
  shows "create_status d k sc now = Inl IntegrityError"
proof -
  have "k \<in> set (status_ids d)"
    using assms(1) get_status_row_in_ids [of d k s] by (simp add: get_status_def)
  with assms(2,3) show ?thesis
    by (simp add: create_status_def status_ints_ok_def orm_new_status_def Let_def)
qed

lemma wf_status_row_ok:
  "wf_db d \<Longrightarrow> get_status_row d k = Some s \<Longrightarrow> status_ints_ok s"
  by (auto simp: wf_db_def list_all_iff get_status_row_def dest!: lookup_by_SomeD)

lemma get_status_row_replace:
  "get_status_row d k = Some s \<Longrightarrow> status_id s' = k \<Longrightarrow>
   get_status_row (d\<lparr>item_status := replace_by status_id s' (item_status d)\<rparr>) k' =
     (if k' = k then Some s' else get_status_row d k')"
  using get_status_row_in_ids [of d k s]
  by (auto simp: get_status_row_def lookup_by_replace_by)

lemma update_status_found:
  assumes "get_status_row d k = Some s" and "status_ints_ok (apply_status_update u s)"
  shows "update_status d k u now =
     Inr (Some ((apply_status_update u s)\<lparr>status_updated_at := now\<rparr>),
          d\<lparr>item_status := replace_by status_id ((apply_status_update u s)\<lparr>status_updated_at := now\<rparr>)
              (item_status d)\<rparr>)"
proof -
  have "status_id s = k" using assms(1) by (simp add: get_status_row_in_ids)
  with assms show ?thesis
    by (simp add: update_status_def Let_def commit_upd_status apply_status_update_def
        status_ints_ok_def del: commit.simps)
qed

text \<open>C26: An update that sets stock to null is accepted, and every later sell of that item then fails with a TypeError.\<close>

theorem update_status_null_stock_then_sell:
  assumes "wf_db d" and "get_status d k = Some s"
    and "update_status d k (empty_status_update\<lparr>su_stock := Set None\<rparr>) now = Inr (r, d')"
  shows "sell_item d' k q now' = Inl TypeError"
proof -
  let ?u = "empty_status_update\<lparr>su_stock := Set None\<rparr>"
  have row: "get_status_row d k = Some s" using assms(2) by (simp add: get_status_def)
  have "status_ints_ok s" using assms(1) row by (rule wf_status_row_ok)
  then have ok: "status_ints_ok (apply_status_update ?u s)"
    by (simp add: status_ints_ok_def apply_status_update_def empty_status_update_def)
  have k: "status_id s = k" using row by (simp add: get_status_row_in_ids)
  from assms(3) update_status_found [OF row ok]
  have "d' = d\<lparr>item_status := replace_by status_id ((apply_status_update ?u s)\<lparr>status_updated_at := now\<rparr>)
              (item_status d)\<rparr>" by simp
  then have "get_status_row d' k = Some ((apply_status_update ?u s)\<lparr>status_updated_at := now\<rparr>)"
    using row k by (simp add: get_status_row_replace apply_status_update_def)
  then show ?thesis
    by (simp add: sell_item_def apply_status_update_def empty_status_update_def)
qed

lemma sell_item_commit:
  assumes "get_status_row d k = Some s" and "stock s = Some st" and "total_sell s = Some ts" and "q \<le> st"
  shows "sell_item d k q now =
     (if int32_ok (st - q) \<and> int32_ok (ts + q)
      then Inr (Some (s\<lparr>stock := Some (st - q), total_sell := Some (ts + q), status_updated_at := now\<rparr>),
                d\<lparr>item_status := replace_by status_id
                    (s\<lparr>stock := Some (st - q), total_sell := Some (ts + q), status_updated_at := now\<rparr>)
                    (item_status d)\<rparr>)
      else Inl DataError)"
proof -
  have "status_id s = k" using assms(1) by (simp add: get_status_row_in_ids)
  with assms show ?thesis
    by (simp add: sell_item_def Let_def commit_upd_status status_ints_ok_def del: commit.simps)
qed

text \<open>C6: Selling exactly the whole stock leaves stock 0 and adds the quantity to total_sell; selling one more unit right after is rejected and leaves the database unchanged.\<close>

theorem sell_exact_then_reject:
  assumes "get_status d k = Some s" and "stock s = Some q" and "total_sell s = Some ts"
    and "0 \<le> q" and "int32_ok (ts + q)" and "sell_item d k q now = Inr (r, d1)"
  shows "\<exists>s1. r = Some s1 \<and> stock s1 = Some 0 \<and> total_sell s1 = Some (ts + q)
     \<and> get_status d1 k = Some s1 \<and> sell_item d1 k (q + 1) now' = Inr (None, d1)"
proof -
  have row: "get_status_row d k = Some s" using assms(1) by (simp add: get_status_def)
  have k: "status_id s = k" using row by (simp add: get_status_row_in_ids)
  have "int32_ok 0" by (simp add: int32_ok_def)
  then have eq: "sell_item d k q now =
      Inr (Some (s\<lparr>stock := Some 0, total_sell := Some (ts + q), status_updated_at := now\<rparr>),
           d\<lparr>item_status := replace_by status_id
               (s\<lparr>stock := Some 0, total_sell := Some (ts + q), status_updated_at := now\<rparr>) (item_status d)\<rparr>)"
    using row k assms(2,3,5)
    by (simp add: sell_item_def Let_def commit_upd_status status_ints_ok_def del: commit.simps)
  let ?s1 = "s\<lparr>stock := Some 0, total_sell := Some (ts + q), status_updated_at := now\<rparr>"
  from assms(6) eq have r: "r = Some ?s1"
    and d1_eq: "d1 = d\<lparr>item_status := replace_by status_id ?s1 (item_status d)\<rparr>" by simp_all
  have d1: "get_status_row d1 k = Some ?s1"
    using d1_eq row k by (simp add: get_status_row_replace)
  have "sell_item d1 k (q + 1) now' = Inr (None, d1)"
    using assms(4) d1 by (simp add: sell_item_def)
  then show ?thesis using r d1 by (simp add: get_status_def)
qed

text \<open>C16: A sell with a negative quantity passes the stock check and commits: the stock grows and total_sell decreases.\<close>

theorem sell_negative_quantity:
  assumes "get_status d k = Some s" and "stock s = Some st" and "total_sell s = Some ts"
    and "0 \<le> st" and "q < 0" and "int32_ok (st - q)" and "int32_ok (ts + q)"
  shows "\<exists>s' d'. sell_item d k q now = Inr (Some s', d') \<and> get_status d' k = Some s'
     \<and> stock s' = Some (st - q) \<and> st < st - q \<and> total_sell s' = Some (ts + q) \<and> ts + q < ts"
proof -
  have row: "get_status_row d k = Some s" using assms(1) by (simp add: get_status_def)
  have k: "status_id s = k" using row by (simp add: get_status_row_in_ids)
  have "q \<le> st" using assms(4,5) by simp
  with sell_item_commit [OF row assms(2,3), of q now] assms(5-7) k row show ?thesis
    by (simp add: get_status_def get_status_row_replace)
qed

text \<open>A successful sell moves exactly the quantity from stock to total_sell, so their sum is unchanged.\<close>

theorem sell_item_conserves:
  assumes "sell_item d k q now = Inr (Some s', d')"
  shows "\<exists>s st ts. get_status d k = Some s \<and> stock s = Some st \<and> total_sell s = Some ts
     \<and> stock s' = Some (st - q) \<and> total_sell s' = Some (ts + q) \<and> get_status d' k = Some s'"
  using assms get_status_row_in_ids [of d k]
  by (auto simp: sell_item_def get_status_def Let_def commit_upd_status get_status_row_replace
      simp del: commit.simps split: option.splits if_splits sum.splits)

lemma create_status_wf:
  "wf_db d \<Longrightarrow> create_status d k sc now = Inr (r, d') \<Longrightarrow> wf_db d'"
  by (auto simp: create_status_def Let_def simp del: commit.simps split: sum.splits intro: commit_wf)

lemma update_status_wf:
  "wf_db d \<Longrightarrow> update_status d k u now = Inr (r, d') \<Longrightarrow> wf_db d'"
  by (auto simp: update_status_def Let_def simp del: commit.simps split: option.splits sum.splits intro: commit_wf)

lemma delete_status_wf:
  "wf_db d \<Longrightarrow> delete_status d k = Inr (r, d') \<Longrightarrow> wf_db d'"
  by (auto simp: delete_status_def simp del: commit.simps split: option.splits sum.splits intro: commit_wf)

lemma sell_item_wf:
  "wf_db d \<Longrightarrow> sell_item d k q now = Inr (r, d') \<Longrightarrow> wf_db d'"
  by (auto simp: sell_item_def Let_def simp del: commit.simps split: option.splits if_splits sum.splits intro: commit_wf)

lemma restock_item_wf:
  "wf_db d \<Longrightarrow> restock_item d k q now = Inr (r, d') \<Longrightarrow> wf_db d'"
  by (auto simp: restock_item_def Let_def simp del: commit.simps split: option.splits sum.splits intro: commit_wf)



subsection \<open>Witnesses\<close>

lemma get_status_shop_A: "get_status shop ''A'' = Some status_a"
  by (simp add: get_status_def get_status_row_def lookup_by_def fixture_defs)

lemma get_status_shop_B: "get_status shop ''B'' = None"
  by (simp add: get_status_def get_status_row_def lookup_by_def fixture_defs)

lemma status_a_fields: "stock status_a = Some 5" "total_sell status_a = Some 0"
  by (simp_all add: status_a_def)

theorem sell_item_success_witness:
  "sell_item shop ''A'' 3 7 =
     Inr (Some (status_a\<lparr>stock := Some 2, total_sell := Some 3, status_updated_at := 7\<rparr>),
          shop\<lparr>item_status := replace_by status_id
              (status_a\<lparr>stock := Some 2, total_sell := Some 3, status_updated_at := 7\<rparr>) (item_status shop)\<rparr>)"
proof -
  have "int32_ok (5 - 3)" "int32_ok (0 + 3)" by (simp_all add: int32_ok_def)
  with sell_item_success [OF get_status_shop_A status_a_fields, of 3 7] show ?thesis by simp
qed

theorem sell_item_insufficient_witness: "sell_item shop ''A'' 6 7 = Inr (None, shop)"
  using sell_item_insufficient [OF get_status_shop_A status_a_fields(1), of 6 7] by simp

theorem sell_item_missing_witness: "sell_item shop ''B'' 1 7 = Inr (None, shop)"
  by (rule sell_item_missing [OF get_status_shop_B])

theorem sell_item_null_stock_witness:
  "sell_item (shop\<lparr>item_status := [status_a\<lparr>stock := None\<rparr>, status_c]\<rparr>) ''A'' 1 7 = Inl TypeError"
proof -
  have "get_status (shop\<lparr>item_status := [status_a\<lparr>stock := None\<rparr>, status_c]\<rparr>) ''A'' = Some (status_a\<lparr>stock := None\<rparr>)"
    by (simp add: get_status_def get_status_row_def lookup_by_def fixture_defs)
  then show ?thesis by (rule sell_item_null_stock) simp
qed

theorem sell_item_nonneg_witness:
  "nonneg_stock (shop\<lparr>item_status := replace_by status_id
      (status_a\<lparr>stock := Some 2, total_sell := Some 3, status_updated_at := 7\<rparr>) (item_status shop)\<rparr>)"
proof -
  have n: "nonneg_stock shop" by (simp add: nonneg_stock_def fixture_defs)
  have "int32_ok (5 - 3)" "int32_ok (0 + 3)" by (simp_all add: int32_ok_def)
  then have "sell_item shop ''A'' 3 7 =
     Inr (Some (status_a\<lparr>stock := Some 2, total_sell := Some 3, status_updated_at := 7\<rparr>),
          shop\<lparr>item_status := replace_by status_id
              (status_a\<lparr>stock := Some 2, total_sell := Some 3, status_updated_at := 7\<rparr>) (item_status shop)\<rparr>)"
    using sell_item_commit [of shop "''A''" status_a 5 0 3 7] get_status_shop_A status_a_fields
    by (simp add: get_status_def)
  then show ?thesis by (rule sell_item_nonneg [OF n])
qed

theorem sell_exact_then_reject_witness:
  "\<exists>r d1. sell_item shop ''A'' 5 7 = Inr (r, d1) \<and> sell_item d1 ''A'' 6 8 = Inr (None, d1)
     \<and> get_status d1 ''A'' = Some (status_a\<lparr>stock := Some 0, total_sell := Some 5, status_updated_at := 7\<rparr>)"
proof -
  have ok: "int32_ok (0 + 5)" "int32_ok (5 - 5)" by (simp_all add: int32_ok_def)
  obtain r d1 where sell: "sell_item shop ''A'' 5 7 = Inr (r, d1)"
    using sell_item_commit [of shop "''A''" status_a 5 0 5 7] get_status_shop_A status_a_fields ok
    by (simp add: get_status_def)
  from sell_exact_then_reject [OF get_status_shop_A status_a_fields _ ok(1) sell, of 8]
  obtain s1 where "r = Some s1" "stock s1 = Some 0" "total_sell s1 = Some 5"
    "get_status d1 ''A'' = Some s1" "sell_item d1 ''A'' 6 8 = Inr (None, d1)" by auto
  moreover have "r = Some (status_a\<lparr>stock := Some 0, total_sell := Some 5, status_updated_at := 7\<rparr>)"
    using sell sell_item_commit [of shop "''A''" status_a 5 0 5 7] get_status_shop_A status_a_fields ok
    by (simp add: get_status_def)
  ultimately show ?thesis using sell by auto
qed

theorem sell_negative_quantity_witness:
  "\<exists>s' d'. sell_item shop ''A'' (-2) 7 = Inr (Some s', d') \<and> stock s' = Some 7 \<and> total_sell s' = Some (-2)"
proof -
  have "int32_ok (5 - (-2))" "int32_ok (0 + (-2))" by (simp_all add: int32_ok_def)
  with sell_negative_quantity [OF get_status_shop_A status_a_fields, of "-2" 7]
  show ?thesis by auto
qed

theorem sell_item_conserves_witness:
  "\<exists>s st ts. get_status shop ''A'' = Some s \<and> stock s = Some st \<and> total_sell s = Some ts
     \<and> stock (status_a\<lparr>stock := Some 2, total_sell := Some 3, status_updated_at := 7\<rparr>) = Some (st - 3)
     \<and> total_sell (status_a\<lparr>stock := Some 2, total_sell := Some 3, status_updated_at := 7\<rparr>) = Some (ts + 3)"
proof -
  have "int32_ok (5 - 3)" "int32_ok (0 + 3)" by (simp_all add: int32_ok_def)
  then have "sell_item shop ''A'' 3 7 =
     Inr (Some (status_a\<lparr>stock := Some 2, total_sell := Some 3, status_updated_at := 7\<rparr>),
          shop\<lparr>item_status := replace_by status_id
              (status_a\<lparr>stock := Some 2, total_sell := Some 3, status_updated_at := 7\<rparr>) (item_status shop)\<rparr>)"
    using sell_item_commit [of shop "''A''" status_a 5 0 3 7] get_status_shop_A status_a_fields
    by (simp add: get_status_def)
  from sell_item_conserves [OF this] show ?thesis by blast
qed

theorem restock_item_success_witness:
  "restock_item shop ''A'' (-10) 7 =
     Inr (Some (status_a\<lparr>stock := Some (-5), status_updated_at := 7\<rparr>),
          shop\<lparr>item_status := replace_by status_id (status_a\<lparr>stock := Some (-5), status_updated_at := 7\<rparr>)
              (item_status shop)\<rparr>)"
proof -
  have "status_ints_ok (status_a\<lparr>stock := Some (5 + (-10))\<rparr>)"
    by (simp add: status_ints_ok_def status_a_def int32_ok_def)
  with restock_item_success [OF get_status_shop_A status_a_fields(1), of "-10" 7] show ?thesis by simp
qed

theorem low_stock_items_wf_witness: "get_low_stock_items shop 10 = [item_a]"
proof -
  have "filter (\<lambda>i. case get_status_row shop (item_id i) of None \<Rightarrow> False
           | Some s \<Rightarrow> stock_at_most 10 s) (items shop) = [item_a]"
    by (simp add: get_status_row_def lookup_by_def stock_at_most_def fixture_defs)
  with low_stock_items_wf [OF wf_shop, of 10] show ?thesis by simp
qed

theorem top_sellers_ranked_witness:
  "get_top_sellers shop 1 = Inr [item_c] \<and>
   (\<exists>ps. [item_c] = map fst ps \<and> length ps = min (nat 1) (length (joined shop)) \<and> mset ps \<subseteq># mset (joined shop)
     \<and> sorted_wrt (\<lambda>p p'. total_sell (snd p) = None
          \<or> (\<exists>a b. total_sell (snd p) = Some a \<and> total_sell (snd p') = Some b \<and> b \<le> a)) ps
     \<and> (\<forall>p\<in>set ps. \<forall>p'\<in># mset (joined shop) - mset ps. total_sell (snd p) = None
          \<or> (\<exists>a b. total_sell (snd p) = Some a \<and> total_sell (snd p') = Some b \<and> b \<le> a)))"
proof -
  have t: "get_top_sellers shop 1 = Inr [item_c]"
    by (simp add: get_top_sellers_def joined_def sell_rank_def int64_ok_def fixture_defs)
  show ?thesis using t top_sellers_ranked [OF t] by (rule conjI)
qed

theorem create_status_duplicate_witness:
  "create_status shop ''A'' \<lparr>sc_total_sell = 0, sc_stock = 1\<rparr> 7 = Inl IntegrityError"
  using create_status_duplicate [OF get_status_shop_A, of "\<lparr>sc_total_sell = 0, sc_stock = 1\<rparr>" 7]
  by (simp add: int32_ok_def)

theorem update_status_null_stock_then_sell_witness:
  "\<exists>r d'. update_status shop ''A'' (empty_status_update\<lparr>su_stock := Set None\<rparr>) 7 = Inr (r, d')
     \<and> sell_item d' ''A'' 1 8 = Inl TypeError"
proof -
  have ok: "status_ints_ok (apply_status_update (empty_status_update\<lparr>su_stock := Set None\<rparr>) status_a)"
    by (simp add: status_ints_ok_def apply_status_update_def empty_status_update_def status_a_def int32_ok_def)
  obtain r d' where u: "update_status shop ''A'' (empty_status_update\<lparr>su_stock := Set None\<rparr>) 7 = Inr (r, d')"
    using update_status_found [OF _ ok, of shop "''A''" 7] get_status_shop_A by (simp add: get_status_def)
  show ?thesis
    using u update_status_null_stock_then_sell [OF wf_shop get_status_shop_A u, of 1 8] by blast
qed

end
