(* ===== verification/Routes.thy ===== *)
theory Routes
  imports ItemsCrud StatusCrud
begin

text \<open>
  The request handlers of src/app/routes/ (items.py, status.py, inventory.py)
  and the two health endpoints of src/app/main.py.  Each handler calls the data
  access functions and maps their outcome to an HTTP response: a handled
  outcome becomes \<open>HttpError\<close> with the code and detail of the
  \<open>HTTPException\<close>; an exception of the data access layer, or a body that
  fails the route's \<open>response_model\<close> validation (a NULL in a required
  field), becomes a 500 (\<open>ServerError\<close>).  Validation happens after the
  handler returned, so a request whose commit succeeded can still answer 500.
  \<open>dispatch\<close> is the routing table over a datatype of requests.
\<close>

record summary =
  total_items :: nat
  items_with_status :: nat
  total_stock :: int
  total_sales :: int
  low_stock_count :: nat

text \<open>
  \<open>BItemStatus\<close> and \<open>BItemsStatus\<close> are item bodies that nest the item's
  status row, for a schema whose \<open>ItemResponse\<close> declares a \<open>status\<close>
  field (the single-file version's).
\<close>

datatype body =
    BItem item
  | BItems "item list"
  | BItemStatus item "status option"
  | BItemsStatus "(item \<times> status option) list"
  | BStatus status
  | BFull item status
  | BMsg string
  | BSummary summary
  | BHealth timestamp

datatype response = Ok body | HttpError nat string | ServerError

text \<open>\<open>ItemResponse\<close> and \<open>StatusResponse\<close>: \<open>name\<close>, \<open>price\<close>, \<open>category\<close>, \<open>total_sell\<close> and \<open>stock\<close> are required (not Optional).\<close>

definition item_response_ok :: "item \<Rightarrow> bool" where
  "item_response_ok r \<longleftrightarrow> name r \<noteq> None \<and> price r \<noteq> None \<and> category r \<noteq> None"

definition status_response_ok :: "status \<Rightarrow> bool" where
  "status_response_ok s \<longleftrightarrow> total_sell s \<noteq> None \<and> stock s \<noteq> None"

definition respond_item :: "item \<Rightarrow> response" where
  "respond_item r = (if item_response_ok r then Ok (BItem r) else ServerError)"

definition respond_items :: "item list \<Rightarrow> response" where
  "respond_items xs = (if list_all item_response_ok xs then Ok (BItems xs) else ServerError)"

definition respond_status :: "status \<Rightarrow> response" where
  "respond_status s = (if status_response_ok s then Ok (BStatus s) else ServerError)"

subsection \<open>Item routes (routes/items.py)\<close>

definition create_item_route :: "db \<Rightarrow> ident \<Rightarrow> timestamp \<Rightarrow> item_create \<Rightarrow> response \<times> db" where
  "create_item_route d k now ic =
     (case create_item d k now ic of Inl _ \<Rightarrow> (ServerError, d) | Inr (r, d') \<Rightarrow> (respond_item r, d'))"

definition read_all_items :: "db \<Rightarrow> int \<Rightarrow> int \<Rightarrow> response \<times> db" where
  "read_all_items d skip limit =
     (case get_items d skip limit of Inl _ \<Rightarrow> (ServerError, d) | Inr xs \<Rightarrow> (respond_items xs, d))"

definition read_item :: "db \<Rightarrow> ident \<Rightarrow> response \<times> db" where
  "read_item d k =
     (case get_item d k of None \<Rightarrow> (HttpError 404 ''Item not found'', d) | Some r \<Rightarrow> (respond_item r, d))"

definition update_item_route :: "db \<Rightarrow> ident \<Rightarrow> item_update \<Rightarrow> timestamp \<Rightarrow> response \<times> db" where
  "update_item_route d k u now =
     (case update_item d k u now of
        Inl _ \<Rightarrow> (ServerError, d)
      | Inr (None, d') \<Rightarrow> (HttpError 404 ''Item not found'', d')
      | Inr (Some r, d') \<Rightarrow> (respond_item r, d'))"

definition delete_item_route :: "db \<Rightarrow> ident \<Rightarrow> response \<times> db" where
  "delete_item_route d k =
     (case delete_item d k of
        Inl _ \<Rightarrow> (ServerError, d)
      | Inr (False, d') \<Rightarrow> (HttpError 404 ''Item not found'', d')
      | Inr (True, d') \<Rightarrow> (Ok (BMsg ''Item deleted successfully''), d'))"

text \<open>\<open>ItemWithStatusResponse\<close> declares \<open>status: StatusResponse\<close>, not Optional.\<close>

definition get_item_with_status :: "db \<Rightarrow> ident \<Rightarrow> response \<times> db" where
  "get_item_with_status d k =
     (case get_item d k of
        None \<Rightarrow> (HttpError 404 ''Item not found'', d)
      | Some r \<Rightarrow>
          (case get_status d k of
             None \<Rightarrow> (ServerError, d)
           | Some s \<Rightarrow> (if item_response_ok r \<and> status_response_ok s then Ok (BFull r s) else ServerError, d)))"

definition search_items_route ::
  "db \<Rightarrow> string option \<Rightarrow> string option \<Rightarrow> real option \<Rightarrow> real option \<Rightarrow> response \<times> db" where
  "search_items_route d nm cat lo hi =
     (case search_items d nm cat lo hi of Inl _ \<Rightarrow> (ServerError, d) | Inr xs \<Rightarrow> (respond_items xs, d))"

subsection \<open>Status routes (routes/status.py)\<close>

definition create_item_status_route :: "db \<Rightarrow> ident \<Rightarrow> status_create \<Rightarrow> timestamp \<Rightarrow> response \<times> db" where
  "create_item_status_route d k sc now =
     (case get_item d k of
        None \<Rightarrow> (HttpError 404 ''Item not found'', d)
      | Some _ \<Rightarrow>
          (case get_status d k of
             Some _ \<Rightarrow> (HttpError 400 ''Status already exists for this item'', d)
           | None \<Rightarrow>
               (case create_status d k sc now of
                  Inl _ \<Rightarrow> (ServerError, d)
                | Inr (s, d') \<Rightarrow> (respond_status s, d'))))"

definition get_item_status_route :: "db \<Rightarrow> ident \<Rightarrow> response \<times> db" where
  "get_item_status_route d k =
     (case get_status d k of
        None \<Rightarrow> (HttpError 404 ''Status not found for this item'', d)
      | Some s \<Rightarrow> (respond_status s, d))"

definition update_item_status_route :: "db \<Rightarrow> ident \<Rightarrow> status_update \<Rightarrow> timestamp \<Rightarrow> response \<times> db" where
  "update_item_status_route d k u now =
     (case update_status d k u now of
        Inl _ \<Rightarrow> (ServerError, d)
      | Inr (None, d') \<Rightarrow> (HttpError 404 ''Status not found for this item'', d')
      | Inr (Some s, d') \<Rightarrow> (respond_status s, d'))"

definition delete_item_status_route :: "db \<Rightarrow> ident \<Rightarrow> response \<times> db" where
  "delete_item_status_route d k =
     (case delete_status d k of
        Inl _ \<Rightarrow> (ServerError, d)
      | Inr (False, d') \<Rightarrow> (HttpError 404 ''Status not found for this item'', d')
      | Inr (True, d') \<Rightarrow> (Ok (BMsg ''Item status deleted successfully''), d'))"

definition sell_item_route :: "db \<Rightarrow> ident \<Rightarrow> int \<Rightarrow> timestamp \<Rightarrow> response \<times> db" where
  "sell_item_route d k q now =
     (case sell_item d k q now of
        Inl _ \<Rightarrow> (ServerError, d)
      | Inr (None, d') \<Rightarrow> (HttpError 400 ''Item status not found or insufficient stock'', d')
      | Inr (Some s, d') \<Rightarrow> (respond_status s, d'))"

definition restock_item_route :: "db \<Rightarrow> ident \<Rightarrow> int \<Rightarrow> timestamp \<Rightarrow> response \<times> db" where
  "restock_item_route d k q now =
     (case restock_item d k q now of
        Inl _ \<Rightarrow> (ServerError, d)
      | Inr (None, d') \<Rightarrow> (HttpError 404 ''Item status not found'', d')
      | Inr (Some s, d') \<Rightarrow> (respond_status s, d'))"

subsection \<open>Inventory routes (routes/inventory.py)\<close>

definition get_low_stock_items_route :: "db \<Rightarrow> int \<Rightarrow> response \<times> db" where
  "get_low_stock_items_route d threshold = (respond_items (get_low_stock_items d threshold), d)"

definition get_top_sellers_route :: "db \<Rightarrow> int \<Rightarrow> response \<times> db" where
  "get_top_sellers_route d limit =
     (case get_top_sellers d limit of Inl _ \<Rightarrow> (ServerError, d) | Inr xs \<Rightarrow> (respond_items xs, d))"

text \<open>\<open>func.sum(col)\<close>: NULL when no row has a non-NULL value; \<open>.scalar() or 0\<close> turns that into 0.\<close>

definition sql_sum :: "int option list \<Rightarrow> int option" where
  "sql_sum vs = (if list_all (\<lambda>v. v = None) vs then None else Some (sum_list (map (\<lambda>v. case v of None \<Rightarrow> 0 | Some x \<Rightarrow> x) vs)))"

definition or_zero :: "int option \<Rightarrow> int" where
  "or_zero v = (case v of None \<Rightarrow> 0 | Some x \<Rightarrow> if x = 0 then 0 else x)"

definition inventory_summary_route :: "db \<Rightarrow> response \<times> db" where
  "inventory_summary_route d =
     (Ok (BSummary
        \<lparr>total_items = length (items d),
         items_with_status = length (item_status d),
         total_stock = or_zero (sql_sum (map stock (item_status d))),
         total_sales = or_zero (sql_sum (map total_sell (item_status d))),
         low_stock_count = length (filter (stock_at_most 10) (item_status d))\<rparr>), d)"

subsection \<open>Health endpoints (main.py) and the routing table\<close>

definition root_route :: "db \<Rightarrow> response \<times> db" where
  "root_route d = (Ok (BMsg ''FastAPI CRUD API with PostgreSQL is running!''), d)"

definition health_check :: "db \<Rightarrow> timestamp \<Rightarrow> response \<times> db" where
  "health_check d now = (Ok (BHealth now), d)"

datatype request =
    CreateItem ident timestamp item_create
  | ReadAllItems int int
  | ReadItem ident
  | UpdateItem ident item_update timestamp
  | DeleteItem ident
  | ItemFull ident
  | SearchItems "string option" "string option" "real option" "real option"
  | CreateStatus ident status_create timestamp
  | GetStatus ident
  | UpdateStatus ident status_update timestamp
  | DeleteStatus ident
  | Sell ident int timestamp
  | Restock ident int timestamp
  | LowStock int
  | TopSellers int
  | Summary
  | Root
  | Health timestamp

fun dispatch :: "db \<Rightarrow> request \<Rightarrow> response \<times> db" where
  "dispatch d (CreateItem k now ic) = create_item_route d k now ic"
| "dispatch d (ReadAllItems skip limit) = read_all_items d skip limit"
| "dispatch d (ReadItem k) = read_item d k"
| "dispatch d (UpdateItem k u now) = update_item_route d k u now"
| "dispatch d (DeleteItem k) = delete_item_route d k"
| "dispatch d (ItemFull k) = get_item_with_status d k"
| "dispatch d (SearchItems nm cat lo hi) = search_items_route d nm cat lo hi"
| "dispatch d (CreateStatus k sc now) = create_item_status_route d k sc now"
| "dispatch d (GetStatus k) = get_item_status_route d k"
| "dispatch d (UpdateStatus k u now) = update_item_status_route d k u now"
| "dispatch d (DeleteStatus k) = delete_item_status_route d k"
| "dispatch d (Sell k q now) = sell_item_route d k q now"
| "dispatch d (Restock k q now) = restock_item_route d k q now"
| "dispatch d (LowStock t) = get_low_stock_items_route d t"
| "dispatch d (TopSellers l) = get_top_sellers_route d l"
| "dispatch d Summary = inventory_summary_route d"
| "dispatch d Root = root_route d"
| "dispatch d (Health now) = health_check d now"

text \<open>A sequence of requests served one after another.\<close>

fun run_requests :: "db \<Rightarrow> request list \<Rightarrow> response list \<times> db" where
  "run_requests d [] = ([], d)"
| "run_requests d (rq # rqs) =
     (let (r, d1) = dispatch d rq; (rs, d2) = run_requests d1 rqs in (r # rs, d2))"

text \<open>
  A body conforms to the \<open>response_model\<close> of the route that sends it when
  every required field of every \<open>ItemResponse\<close> and \<open>StatusResponse\<close> in
  it is present.
\<close>

fun body_ok :: "body \<Rightarrow> bool" where
  "body_ok (BItem r) = item_response_ok r"
| "body_ok (BItems xs) = list_all item_response_ok xs"
| "body_ok (BItemStatus r so) = (item_response_ok r \<and> pred_option status_response_ok so)"
| "body_ok (BItemsStatus ps) = list_all (\<lambda>p. item_response_ok (fst p) \<and> pred_option status_response_ok (snd p)) ps"
| "body_ok (BStatus s) = status_response_ok s"
| "body_ok (BFull r s) = (item_response_ok r \<and> status_response_ok s)"
| "body_ok _ = True"

subsection \<open>Properties\<close>

lemma update_item_None: "update_item d k u now = Inr (None, d') \<Longrightarrow> d' = d"
  by (auto simp: update_item_def Let_def split: option.splits sum.splits)

lemma delete_item_False: "delete_item d k = Inr (False, d') \<Longrightarrow> d' = d"
  by (auto simp: delete_item_def Let_def split: option.splits sum.splits)

lemma update_status_None: "update_status d k u now = Inr (None, d') \<Longrightarrow> d' = d"
  by (auto simp: update_status_def Let_def split: option.splits sum.splits)

lemma delete_status_False: "delete_status d k = Inr (False, d') \<Longrightarrow> d' = d"
  by (auto simp: delete_status_def split: option.splits sum.splits)

lemma sell_item_None: "sell_item d k q now = Inr (None, d') \<Longrightarrow> d' = d"
  by (auto simp: sell_item_def Let_def simp del: commit.simps split: option.splits if_splits sum.splits)

lemma restock_item_None: "restock_item d k q now = Inr (None, d') \<Longrightarrow> d' = d"
  by (auto simp: restock_item_def Let_def simp del: commit.simps split: option.splits sum.splits)

lemmas no_write_results = update_item_None delete_item_False update_status_None delete_status_False
  sell_item_None restock_item_None

lemma create_item_route_client_error:
  "create_item_route d k now ic = (HttpError c m, d') \<Longrightarrow> d' = d \<and> (c = 400 \<or> c = 404)"
  by (auto simp: create_item_route_def respond_item_def respond_items_def respond_status_def dest: no_write_results split: sum.splits if_splits)

lemma read_all_items_client_error:
  "read_all_items d skip limit = (HttpError c m, d') \<Longrightarrow> d' = d \<and> (c = 400 \<or> c = 404)"
  by (auto simp: read_all_items_def respond_item_def respond_items_def respond_status_def dest: no_write_results split: sum.splits if_splits)

lemma read_item_client_error:
  "read_item d k = (HttpError c m, d') \<Longrightarrow> d' = d \<and> (c = 400 \<or> c = 404)"
  by (auto simp: read_item_def respond_item_def respond_items_def respond_status_def dest: no_write_results split: option.splits if_splits)

lemma update_item_route_client_error:
  "update_item_route d k u now = (HttpError c m, d') \<Longrightarrow> d' = d \<and> (c = 400 \<or> c = 404)"
  by (auto simp: update_item_route_def respond_item_def respond_items_def respond_status_def dest: no_write_results split: sum.splits option.splits if_splits)

lemma delete_item_route_client_error:
  "delete_item_route d k = (HttpError c m, d') \<Longrightarrow> d' = d \<and> (c = 400 \<or> c = 404)"
  by (auto simp: delete_item_route_def respond_item_def respond_items_def respond_status_def dest: no_write_results split: sum.splits bool.splits if_splits)

lemma get_item_with_status_client_error:
  "get_item_with_status d k = (HttpError c m, d') \<Longrightarrow> d' = d \<and> (c = 400 \<or> c = 404)"
  by (auto simp: get_item_with_status_def respond_item_def respond_items_def respond_status_def dest: no_write_results split: option.splits if_splits)

lemma search_items_route_client_error:
  "search_items_route d nm cat lo hi = (HttpError c m, d') \<Longrightarrow> d' = d \<and> (c = 400 \<or> c = 404)"
  by (auto simp: search_items_route_def respond_item_def respond_items_def respond_status_def dest: no_write_results split: sum.splits if_splits)

lemma create_item_status_route_client_error:
  "create_item_status_route d k sc now = (HttpError c m, d') \<Longrightarrow> d' = d \<and> (c = 400 \<or> c = 404)"
  by (auto simp: create_item_status_route_def respond_item_def respond_items_def respond_status_def dest: no_write_results split: option.splits sum.splits if_splits)

lemma get_item_status_route_client_error:
  "get_item_status_route d k = (HttpError c m, d') \<Longrightarrow> d' = d \<and> (c = 400 \<or> c = 404)"
  by (auto simp: get_item_status_route_def respond_item_def respond_items_def respond_status_def dest: no_write_results split: option.splits if_splits)

lemma update_item_status_route_client_error:
  "update_item_status_route d k u now = (HttpError c m, d') \<Longrightarrow> d' = d \<and> (c = 400 \<or> c = 404)"
  by (auto simp: update_item_status_route_def respond_item_def respond_items_def respond_status_def dest: no_write_results split: sum.splits option.splits if_splits)

lemma delete_item_status_route_client_error:
  "delete_item_status_route d k = (HttpError c m, d') \<Longrightarrow> d' = d \<and> (c = 400 \<or> c = 404)"
  by (auto simp: delete_item_status_route_def respond_item_def respond_items_def respond_status_def dest: no_write_results split: sum.splits bool.splits if_splits)

lemma sell_item_route_client_error:
  "sell_item_route d k q now = (HttpError c m, d') \<Longrightarrow> d' = d \<and> (c = 400 \<or> c = 404)"
  by (auto simp: sell_item_route_def respond_item_def respond_items_def respond_status_def dest: no_write_results split: sum.splits option.splits if_splits)

lemma restock_item_route_client_error:
  "restock_item_route d k q now = (HttpError c m, d') \<Longrightarrow> d' = d \<and> (c = 400 \<or> c = 404)"
  by (auto simp: restock_item_route_def respond_item_def respond_items_def respond_status_def dest: no_write_results split: sum.splits option.splits if_splits)

lemma get_low_stock_items_route_client_error:
  "get_low_stock_items_route d t = (HttpError c m, d') \<Longrightarrow> d' = d \<and> (c = 400 \<or> c = 404)"
  by (auto simp: get_low_stock_items_route_def respond_item_def respond_items_def respond_status_def dest: no_write_results split: if_splits)

lemma get_top_sellers_route_client_error:
  "get_top_sellers_route d l = (HttpError c m, d') \<Longrightarrow> d' = d \<and> (c = 400 \<or> c = 404)"
  by (auto simp: get_top_sellers_route_def respond_item_def respond_items_def respond_status_def dest: no_write_results split: sum.splits if_splits)

lemma inventory_summary_route_client_error:
  "inventory_summary_route d = (HttpError c m, d') \<Longrightarrow> d' = d \<and> (c = 400 \<or> c = 404)"
  by (auto simp: inventory_summary_route_def respond_item_def respond_items_def respond_status_def dest: no_write_results split: if_splits)

lemma root_route_client_error:
  "root_route d = (HttpError c m, d') \<Longrightarrow> d' = d \<and> (c = 400 \<or> c = 404)"
  by (auto simp: root_route_def respond_item_def respond_items_def respond_status_def dest: no_write_results split: if_splits)

lemma health_check_client_error:
  "health_check d now = (HttpError c m, d') \<Longrightarrow> d' = d \<and> (c = 400 \<or> c = 404)"
  by (auto simp: health_check_def respond_item_def respond_items_def respond_status_def dest: no_write_results split: if_splits)

lemmas route_client_errors = create_item_route_client_error read_all_items_client_error read_item_client_error update_item_route_client_error delete_item_route_client_error get_item_with_status_client_error search_items_route_client_error create_item_status_route_client_error get_item_status_route_client_error update_item_status_route_client_error delete_item_status_route_client_error sell_item_route_client_error restock_item_route_client_error get_low_stock_items_route_client_error get_top_sellers_route_client_error inventory_summary_route_client_error root_route_client_error health_check_client_error

lemma respond_typed:
  "respond_item r = Ok b \<Longrightarrow> body_ok b"
  "respond_items xs = Ok b \<Longrightarrow> body_ok b"
  "respond_status s = Ok b \<Longrightarrow> body_ok b"
  by (auto simp: respond_item_def respond_items_def respond_status_def split: if_splits)

lemma create_item_route_typed:
  "create_item_route d k now ic = (Ok b, d') \<Longrightarrow> body_ok b"
  by (auto simp: create_item_route_def dest: respond_typed split: sum.splits option.splits prod.splits bool.splits if_splits)

lemma read_all_items_typed:
  "read_all_items d skip limit = (Ok b, d') \<Longrightarrow> body_ok b"
  by (auto simp: read_all_items_def dest: respond_typed split: sum.splits option.splits prod.splits bool.splits if_splits)

lemma read_item_typed:
  "read_item d k = (Ok b, d') \<Longrightarrow> body_ok b"
  by (auto simp: read_item_def dest: respond_typed split: sum.splits option.splits prod.splits bool.splits if_splits)

lemma update_item_route_typed:
  "update_item_route d k u now = (Ok b, d') \<Longrightarrow> body_ok b"
  by (auto simp: update_item_route_def dest: respond_typed split: sum.splits option.splits prod.splits bool.splits if_splits)

lemma delete_item_route_typed:
  "delete_item_route d k = (Ok b, d') \<Longrightarrow> body_ok b"
  by (auto simp: delete_item_route_def dest: respond_typed split: sum.splits option.splits prod.splits bool.splits if_splits)

lemma get_item_with_status_typed:
  "get_item_with_status d k = (Ok b, d') \<Longrightarrow> body_ok b"
  by (auto simp: get_item_with_status_def dest: respond_typed split: sum.splits option.splits prod.splits bool.splits if_splits)

lemma search_items_route_typed:
  "search_items_route d nm cat lo hi = (Ok b, d') \<Longrightarrow> body_ok b"
  by (auto simp: search_items_route_def dest: respond_typed split: sum.splits option.splits prod.splits bool.splits if_splits)

lemma create_item_status_route_typed:
  "create_item_status_route d k sc now = (Ok b, d') \<Longrightarrow> body_ok b"
  by (auto simp: create_item_status_route_def dest: respond_typed split: sum.splits option.splits prod.splits bool.splits if_splits)

lemma get_item_status_route_typed:
  "get_item_status_route d k = (Ok b, d') \<Longrightarrow> body_ok b"
  by (auto simp: get_item_status_route_def dest: respond_typed split: sum.splits option.splits prod.splits bool.splits if_splits)

lemma update_item_status_route_typed:
  "update_item_status_route d k u now = (Ok b, d') \<Longrightarrow> body_ok b"
  by (auto simp: update_item_status_route_def dest: respond_typed split: sum.splits option.splits prod.splits bool.splits if_splits)

lemma delete_item_status_route_typed:
  "delete_item_status_route d k = (Ok b, d') \<Longrightarrow> body_ok b"
  by (auto simp: delete_item_status_route_def dest: respond_typed split: sum.splits option.splits prod.splits bool.splits if_splits)

lemma sell_item_route_typed:
  "sell_item_route d k q now = (Ok b, d') \<Longrightarrow> body_ok b"
  by (auto simp: sell_item_route_def dest: respond_typed split: sum.splits option.splits prod.splits bool.splits if_splits)

lemma restock_item_route_typed:
  "restock_item_route d k q now = (Ok b, d') \<Longrightarrow> body_ok b"
  by (auto simp: restock_item_route_def dest: respond_typed split: sum.splits option.splits prod.splits bool.splits if_splits)

lemma get_low_stock_items_route_typed:
  "get_low_stock_items_route d t = (Ok b, d') \<Longrightarrow> body_ok b"
  by (auto simp: get_low_stock_items_route_def dest: respond_typed split: sum.splits option.splits prod.splits bool.splits if_splits)

lemma get_top_sellers_route_typed:
  "get_top_sellers_route d l = (Ok b, d') \<Longrightarrow> body_ok b"
  by (auto simp: get_top_sellers_route_def dest: respond_typed split: sum.splits option.splits prod.splits bool.splits if_splits)

lemma inventory_summary_route_typed:
  "inventory_summary_route d = (Ok b, d') \<Longrightarrow> body_ok b"
  by (auto simp: inventory_summary_route_def dest: respond_typed split: sum.splits option.splits prod.splits bool.splits if_splits)

lemma root_route_typed:
  "root_route d = (Ok b, d') \<Longrightarrow> body_ok b"
  by (auto simp: root_route_def dest: respond_typed split: sum.splits option.splits prod.splits bool.splits if_splits)

lemma health_check_typed:
  "health_check d now = (Ok b, d') \<Longrightarrow> body_ok b"
  by (auto simp: health_check_def dest: respond_typed split: sum.splits option.splits prod.splits bool.splits if_splits)

lemmas route_typed = create_item_route_typed read_all_items_typed read_item_typed update_item_route_typed delete_item_route_typed get_item_with_status_typed search_items_route_typed create_item_status_route_typed get_item_status_route_typed update_item_status_route_typed delete_item_status_route_typed sell_item_route_typed restock_item_route_typed get_low_stock_items_route_typed get_top_sellers_route_typed inventory_summary_route_typed root_route_typed health_check_typed

text \<open>Every answer 200 of the service has a body that conforms to its route's response_model: a row with a NULL required field is never sent, it becomes a 500.\<close>

theorem dispatch_typed:
  "dispatch d rq = (Ok b, d') \<Longrightarrow> body_ok b"
  by (cases rq) (auto dest: route_typed)

text \<open>C9: Every request answered with a client error is answered 400 or 404 and leaves the database exactly as it was.\<close>

theorem client_errors_write_nothing:
  assumes "dispatch d rq = (HttpError c m, d')"
  shows "d' = d \<and> (c = 400 \<or> c = 404)"
  using assms by (cases rq) (auto dest: route_client_errors)

lemma create_item_route_wf:
  "wf_db d \<Longrightarrow> create_item_route d k now ic = (res, d') \<Longrightarrow> wf_db d'"
  by (auto simp: create_item_route_def dest: create_item_wf split: sum.splits)

lemma read_all_items_wf:
  "wf_db d \<Longrightarrow> read_all_items d skip limit = (res, d') \<Longrightarrow> wf_db d'"
  by (auto simp: read_all_items_def split: sum.splits)

lemma read_item_wf:
  "wf_db d \<Longrightarrow> read_item d k = (res, d') \<Longrightarrow> wf_db d'"
  by (auto simp: read_item_def split: option.splits)

lemma update_item_route_wf:
  "wf_db d \<Longrightarrow> update_item_route d k u now = (res, d') \<Longrightarrow> wf_db d'"
  by (auto simp: update_item_route_def dest: update_item_wf split: sum.splits option.splits)

lemma delete_item_route_wf:
  "wf_db d \<Longrightarrow> delete_item_route d k = (res, d') \<Longrightarrow> wf_db d'"
  by (auto simp: delete_item_route_def dest: delete_item_wf split: sum.splits bool.splits)

lemma get_item_with_status_wf:
  "wf_db d \<Longrightarrow> get_item_with_status d k = (res, d') \<Longrightarrow> wf_db d'"
  by (auto simp: get_item_with_status_def split: option.splits)

lemma search_items_route_wf:
  "wf_db d \<Longrightarrow> search_items_route d nm cat lo hi = (res, d') \<Longrightarrow> wf_db d'"
  by (auto simp: search_items_route_def split: sum.splits)

lemma create_item_status_route_wf:
  "wf_db d \<Longrightarrow> create_item_status_route d k sc now = (res, d') \<Longrightarrow> wf_db d'"
  by (auto simp: create_item_status_route_def dest: create_status_wf split: option.splits sum.splits)

lemma get_item_status_route_wf:
  "wf_db d \<Longrightarrow> get_item_status_route d k = (res, d') \<Longrightarrow> wf_db d'"
  by (auto simp: get_item_status_route_def split: option.splits)

lemma update_item_status_route_wf:
  "wf_db d \<Longrightarrow> update_item_status_route d k u now = (res, d') \<Longrightarrow> wf_db d'"
  by (auto simp: update_item_status_route_def dest: update_status_wf split: sum.splits option.splits)

lemma delete_item_status_route_wf:
  "wf_db d \<Longrightarrow> delete_item_status_route d k = (res, d') \<Longrightarrow> wf_db d'"
  by (auto simp: delete_item_status_route_def dest: delete_status_wf split: sum.splits bool.splits)

lemma sell_item_route_wf:
  "wf_db d \<Longrightarrow> sell_item_route d k q now = (res, d') \<Longrightarrow> wf_db d'"
  by (auto simp: sell_item_route_def dest: sell_item_wf split: sum.splits option.splits)

lemma restock_item_route_wf:
  "wf_db d \<Longrightarrow> restock_item_route d k q now = (res, d') \<Longrightarrow> wf_db d'"
  by (auto simp: restock_item_route_def dest: restock_item_wf split: sum.splits option.splits)

lemma get_low_stock_items_route_wf:
  "wf_db d \<Longrightarrow> get_low_stock_items_route d t = (res, d') \<Longrightarrow> wf_db d'"
  by (auto simp: get_low_stock_items_route_def)

lemma get_top_sellers_route_wf:
  "wf_db d \<Longrightarrow> get_top_sellers_route d l = (res, d') \<Longrightarrow> wf_db d'"
  by (auto simp: get_top_sellers_route_def split: sum.splits)

lemma inventory_summary_route_wf:
  "wf_db d \<Longrightarrow> inventory_summary_route d = (res, d') \<Longrightarrow> wf_db d'"
  by (auto simp: inventory_summary_route_def)

lemma root_route_wf:
  "wf_db d \<Longrightarrow> root_route d = (res, d') \<Longrightarrow> wf_db d'"
  by (auto simp: root_route_def)

lemma health_check_wf:
  "wf_db d \<Longrightarrow> health_check d now = (res, d') \<Longrightarrow> wf_db d'"
  by (auto simp: health_check_def)

lemmas route_wf = create_item_route_wf read_all_items_wf read_item_wf update_item_route_wf delete_item_route_wf get_item_with_status_wf search_items_route_wf create_item_status_route_wf get_item_status_route_wf update_item_status_route_wf delete_item_status_route_wf sell_item_route_wf restock_item_route_wf get_low_stock_items_route_wf get_top_sellers_route_wf inventory_summary_route_wf root_route_wf health_check_wf

lemma dispatch_wf:
  "wf_db d \<Longrightarrow> dispatch d rq = (res, d') \<Longrightarrow> wf_db d'"
  by (cases rq) (auto intro: route_wf)

text \<open>Serving any sequence of requests from a database satisfying the table constraints (unique keys, status rows referencing items, int4 counters) yields a database satisfying them.\<close>

theorem run_requests_wf:
  "wf_db d \<Longrightarrow> run_requests d rqs = (rs, d') \<Longrightarrow> wf_db d'"
proof (induction rqs arbitrary: d rs)
  case Nil
  then show ?case by simp
next
  case (Cons rq rqs)
  obtain r1 d1 where 1: "dispatch d rq = (r1, d1)" by fastforce
  obtain rs2 d2 where 2: "run_requests d1 rqs = (rs2, d2)" by fastforce
  from Cons.prems 1 2 have "d' = d2" by simp
  moreover from Cons.prems(1) 1 have "wf_db d1" by (rule dispatch_wf)
  ultimately show ?case using Cons.IH 2 by blast
qed



text \<open>C24: GET /items/{id}/full for an item without a status row answers 500, because the response model requires a status; the spec says the status may be absent and is returned as null.\<close>

theorem item_full_without_status:
  "get_item d k = Some r \<Longrightarrow> get_status d k = None \<Longrightarrow> get_item_with_status d k = (ServerError, d)"
  by (simp add: get_item_with_status_def)



text \<open>C25: An item update that sends name = null is committed, and the request then answers 500 because the stored item no longer fits the response model.\<close>

theorem update_item_null_name:
  assumes "get_item d k = Some r"
  shows "update_item_route d k (empty_item_update\<lparr>iu_name := Set None\<rparr>) now =
           (ServerError, d\<lparr>items := replace_by item_id (r\<lparr>name := None, item_updated_at := now\<rparr>) (items d)\<rparr>)"
proof -
  have row: "get_item_row d k = Some r" using assms by (simp add: get_item_def)
  then have "item_id r = k" "k \<in> set (item_ids d)" using get_item_row_in_ids [OF row] by simp_all
  with row show ?thesis
    by (simp add: update_item_route_def update_item_def apply_item_update_def empty_item_update_def
        respond_item_def item_response_ok_def Let_def)
qed

text \<open>Creating a status for an item that already has one answers 400 and writes nothing.\<close>

theorem create_status_route_conflict:
  "get_item d k = Some r \<Longrightarrow> get_status d k = Some s \<Longrightarrow>
   create_item_status_route d k sc now = (HttpError 400 ''Status already exists for this item'', d)"
  by (simp add: create_item_status_route_def)

theorem create_status_route_no_item:
  "get_item d k = None \<Longrightarrow> create_item_status_route d k sc now = (HttpError 404 ''Item not found'', d)"
  by (simp add: create_item_status_route_def)

text \<open>A sell of an item without status, or of more than its stock, answers 400 and writes nothing.\<close>

theorem sell_route_rejects:
  assumes "get_status d k = None \<or> (\<exists>s st. get_status d k = Some s \<and> stock s = Some st \<and> st < q)"
  shows "sell_item_route d k q now = (HttpError 400 ''Item status not found or insufficient stock'', d)"
  using assms by (auto simp: sell_item_route_def sell_item_def get_status_def)

lemma sum_list_all_None:
  "list_all (\<lambda>v. v = None) vs \<Longrightarrow> sum_list (map (\<lambda>v. case v of None \<Rightarrow> 0 | Some x \<Rightarrow> x) vs) = (0::int)"
  by (induction vs) auto

lemma or_zero_sql_sum:
  "or_zero (sql_sum vs) = sum_list (map (\<lambda>v. case v of None \<Rightarrow> 0 | Some x \<Rightarrow> x) vs)"
  by (simp add: sql_sum_def or_zero_def sum_list_all_None)

text \<open>C29: A restock whose new stock does not fit the int4 column: Python computes the sum, PostgreSQL rejects the UPDATE, the route answers 500 and the session rolls back.\<close>

theorem restock_route_overflow:
  assumes "get_status d k = Some s" and "stock s = Some st" and "\<not> int32_ok (st + q)"
  shows "restock_item_route d k q now = (ServerError, d)"
proof -
  have row: "get_status_row d k = Some s" using assms(1) by (simp add: get_status_def)
  then have "status_id s = k" by (simp add: get_status_row_in_ids)
  with row assms(2,3) show ?thesis
    by (simp add: restock_item_route_def restock_item_def commit_upd_status status_ints_ok_def
        del: commit.simps)
qed

text \<open>C15: The summary reports the number of items and of status rows, the sums of stock and total_sell over the status rows (NULL counted as 0, and 0 when there are none), and the number of status rows with stock at most the fixed cutoff 10.\<close>

theorem inventory_summary_totals:
  "inventory_summary_route d =
     (Ok (BSummary
        \<lparr>total_items = length (items d), items_with_status = length (item_status d),
         total_stock = sum_list (map (\<lambda>s. case stock s of None \<Rightarrow> 0 | Some x \<Rightarrow> x) (item_status d)),
         total_sales = sum_list (map (\<lambda>s. case total_sell s of None \<Rightarrow> 0 | Some x \<Rightarrow> x) (item_status d)),
         low_stock_count = length (filter (stock_at_most 10) (item_status d))\<rparr>), d)"
  by (simp add: inventory_summary_route_def or_zero_sql_sum o_def)

subsection \<open>Witnesses\<close>

theorem item_full_without_status_witness:
  "get_item_with_status shop ''B'' = (ServerError, shop)"
proof -
  have "get_item shop ''B'' = Some item_b" "get_status shop ''B'' = None"
    by (simp_all add: get_item_def get_item_row_def get_status_def get_status_row_def lookup_by_def fixture_defs)
  then show ?thesis by (rule item_full_without_status)
qed

theorem run_requests_wf_witness:
  "wf_db (snd (run_requests shop [Sell ''A'' 3 7, Restock ''A'' 2 8, DeleteItem ''C'']))"
proof -
  obtain rs d' where r: "run_requests shop [Sell ''A'' 3 7, Restock ''A'' 2 8, DeleteItem ''C''] = (rs, d')"
    by fastforce
  from run_requests_wf [OF wf_shop r] r show ?thesis by simp
qed

theorem client_errors_write_nothing_witness:
  "dispatch shop (Sell ''A'' 6 7) = (HttpError 400 ''Item status not found or insufficient stock'', shop)"
proof -
  have "dispatch shop (Sell ''A'' 6 7) = (HttpError 400 ''Item status not found or insufficient stock'', shop)"
    by (simp add: sell_item_route_def sell_item_def get_status_row_def lookup_by_def fixture_defs)
  with client_errors_write_nothing [of shop "Sell ''A'' 6 7"] show ?thesis by simp
qed

theorem update_item_null_name_witness:
  "update_item_route shop ''A'' (empty_item_update\<lparr>iu_name := Set None\<rparr>) 9 =
     (ServerError, shop\<lparr>items := [item_a\<lparr>name := None, item_updated_at := 9\<rparr>, item_b, item_c]\<rparr>)"
proof -
  have g: "get_item shop ''A'' = Some item_a"
    by (simp add: get_item_def get_item_row_def lookup_by_def fixture_defs)
  have "replace_by item_id (item_a\<lparr>name := None, item_updated_at := 9\<rparr>) (items shop)
        = [item_a\<lparr>name := None, item_updated_at := 9\<rparr>, item_b, item_c]"
    by (simp add: replace_by_def fixture_defs)
  with update_item_null_name [OF g, of 9] show ?thesis by simp
qed

theorem create_status_route_conflict_witness:
  "create_item_status_route shop ''A'' \<lparr>sc_total_sell = 0, sc_stock = 3\<rparr> 9
     = (HttpError 400 ''Status already exists for this item'', shop)"
proof -
  have "get_item shop ''A'' = Some item_a" "get_status shop ''A'' = Some status_a"
    by (simp_all add: get_item_def get_item_row_def get_status_def get_status_row_def lookup_by_def fixture_defs)
  then show ?thesis by (rule create_status_route_conflict)
qed

theorem sell_route_rejects_witness:
  "sell_item_route shop ''B'' 1 9 = (HttpError 400 ''Item status not found or insufficient stock'', shop)
   \<and> sell_item_route shop ''A'' 6 9 = (HttpError 400 ''Item status not found or insufficient stock'', shop)"
proof -
  have b: "get_status shop ''B'' = None" and a: "get_status shop ''A'' = Some status_a"
    by (simp_all add: get_status_def get_status_row_def lookup_by_def fixture_defs)
  have "stock status_a = Some 5" by (simp add: status_a_def)
  with a have "\<exists>s st. get_status shop ''A'' = Some s \<and> stock s = Some st \<and> st < 6" by auto
  with b sell_route_rejects [of shop "''B''" 1 9] sell_route_rejects [of shop "''A''" 6 9]
  show ?thesis by blast
qed

theorem dispatch_typed_witness:
  "body_ok (BItem item_a)"
proof -
  have "dispatch shop (ReadItem ''A'') = (Ok (BItem item_a), shop)"
    by (simp add: read_item_def get_item_def get_item_row_def lookup_by_def respond_item_def
        item_response_ok_def fixture_defs)
  then show ?thesis by (rule dispatch_typed)
qed

theorem restock_route_overflow_witness:
  "restock_item_route shop ''A'' 2147483643 9 = (ServerError, shop)"
proof (rule restock_route_overflow)
  show "get_status shop ''A'' = Some status_a"
    by (simp add: get_status_def get_status_row_def lookup_by_def fixture_defs)
  show "stock status_a = Some 5" by (simp add: fixture_defs)
  show "\<not> int32_ok (5 + 2147483643)" by (simp add: int32_ok_def)
qed

end
