(* ===== verification/Variants.thy ===== *)
theory Variants
  imports Routes
begin

text \<open>
  The two other versions of the service kept in the repository.
  src/backups/main.py is a single-file version with the handlers written
  inline.  The handlers that differ from the package under src/app/ are
  modelled here: item creation (explicit \<open>total_sell=0\<close>), sell and
  restock (their own error mapping, and a quantity guard on restock), and the
  inventory summary, which calls \<open>db.func.sum\<close> on the Session object;
  so is its \<open>ItemResponse\<close>, which nests the status row.  The other
  handlers are in Backup.
  src/Desktop/projects/fastapi/fastapi-sample-project/main.py is an earlier
  items-only version whose \<open>create_item\<close> writes no status row.
\<close>

definition status_code :: "response \<Rightarrow> nat" where
  "status_code r = (case r of Ok _ \<Rightarrow> 200 | HttpError c _ \<Rightarrow> c | ServerError \<Rightarrow> 500)"

text \<open>
  The single-file version's \<open>ItemResponse\<close> (src/backups/main.py) adds
  \<open>status: Optional[StatusResponse] = None\<close>.  With
  \<open>from_attributes\<close>, serialising an item reads its \<open>status\<close>
  relationship, the \<open>item_status\<close> row with the item's id in the database
  the handler leaves, and validates it as a \<open>StatusResponse\<close>.
\<close>

definition backup_item_view :: "db \<Rightarrow> item \<Rightarrow> item \<times> status option" where
  "backup_item_view d r = (r, get_status_row d (item_id r))"

definition backup_item_response_ok :: "item \<times> status option \<Rightarrow> bool" where
  "backup_item_response_ok p \<longleftrightarrow> item_response_ok (fst p) \<and> pred_option status_response_ok (snd p)"

definition backup_respond_item :: "db \<Rightarrow> item \<Rightarrow> response" where
  "backup_respond_item d r =
     (let p = backup_item_view d r
      in if backup_item_response_ok p then Ok (BItemStatus (fst p) (snd p)) else ServerError)"

definition backup_respond_items :: "db \<Rightarrow> item list \<Rightarrow> response" where
  "backup_respond_items d xs =
     (let ps = map (backup_item_view d) xs
      in if list_all backup_item_response_ok ps then Ok (BItemsStatus ps) else ServerError)"

text \<open>The package's body of the same response: the nested status removed.\<close>

fun strip_status :: "response \<Rightarrow> response" where
  "strip_status (Ok (BItemStatus r _)) = Ok (BItem r)"
| "strip_status (Ok (BItemsStatus ps)) = Ok (BItems (map fst ps))"
| "strip_status x = x"

definition strip_result :: "response \<times> db \<Rightarrow> response \<times> db" where
  "strip_result x = (strip_status (fst x), snd x)"

text \<open>Every status row has both counters, so it validates as a \<open>StatusResponse\<close>.\<close>

definition counters_set :: "db \<Rightarrow> bool" where
  "counters_set d \<longleftrightarrow> list_all status_response_ok (item_status d)"

definition backup_create_item :: "db \<Rightarrow> ident \<Rightarrow> timestamp \<Rightarrow> item_create \<Rightarrow> response \<times> db" where
  "backup_create_item d k now ic =
     (let r = new_item_row now k ic;
          s = orm_new_status now k (Some 0) (ic_stock ic)
      in case commit d [InsItem r, InsStatus s] of
           Inl _ \<Rightarrow> (ServerError, d)
         | Inr d' \<Rightarrow> (backup_respond_item d' r, d'))"

definition backup_sell_item :: "db \<Rightarrow> ident \<Rightarrow> int \<Rightarrow> timestamp \<Rightarrow> response \<times> db" where
  "backup_sell_item d k q now =
     (case get_status_row d k of
        None \<Rightarrow> (HttpError 404 ''Item status not found'', d)
      | Some s \<Rightarrow>
          (case stock s of
             None \<Rightarrow> (ServerError, d)
           | Some st \<Rightarrow>
               if st < q then (HttpError 400 ''Insufficient stock'', d)
               else (case total_sell s of
                       None \<Rightarrow> (ServerError, d)
                     | Some ts \<Rightarrow>
                         (let s' = s\<lparr>stock := Some (st - q), total_sell := Some (ts + q),
                                    status_updated_at := now\<rparr>
                          in case commit d [UpdStatus s'] of
                               Inl _ \<Rightarrow> (ServerError, d)
                             | Inr d' \<Rightarrow> (respond_status s', d')))))"

definition backup_restock_item :: "db \<Rightarrow> ident \<Rightarrow> int \<Rightarrow> timestamp \<Rightarrow> response \<times> db" where
  "backup_restock_item d k q now =
     (case get_status_row d k of
        None \<Rightarrow> (HttpError 404 ''Item status not found'', d)
      | Some s \<Rightarrow>
          if q \<le> 0 then (HttpError 400 ''Quantity must be positive'', d)
          else (case stock s of
                  None \<Rightarrow> (ServerError, d)
                | Some st \<Rightarrow>
                    (let s' = s\<lparr>stock := Some (st + q), status_updated_at := now\<rparr>
                     in case commit d [UpdStatus s'] of
                          Inl _ \<Rightarrow> (ServerError, d)
                        | Inr d' \<Rightarrow> (respond_status s', d'))))"

text \<open>
  \<open>db.query(db.func.sum(ItemStatus.stock))\<close>: \<open>Session\<close> has no attribute
  \<open>func\<close>, so the handler raises AttributeError after its two counts.
\<close>

definition backup_inventory_summary :: "db \<Rightarrow> response \<times> db" where
  "backup_inventory_summary d = (ServerError, d)"

definition desktop_create_item :: "db \<Rightarrow> ident \<Rightarrow> timestamp \<Rightarrow> item_create \<Rightarrow> response \<times> db" where
  "desktop_create_item d k now ic =
     (let r = new_item_row now k ic
      in case commit d [InsItem r] of
           Inl _ \<Rightarrow> (ServerError, d)
         | Inr d' \<Rightarrow> (respond_item r, d'))"

subsection \<open>Properties\<close>

lemma counters_set_status_row:
  "counters_set d \<Longrightarrow> pred_option status_response_ok (get_status_row d k)"
  by (cases "get_status_row d k")
    (auto simp: counters_set_def list_all_iff get_status_row_def dest!: lookup_by_SomeD)

lemma strip_backup_respond_item:
  "counters_set d \<Longrightarrow> strip_status (backup_respond_item d r) = respond_item r"
  using counters_set_status_row [of d "item_id r"]
  by (auto simp: backup_respond_item_def backup_item_response_ok_def backup_item_view_def respond_item_def)

lemma backup_items_ok_iff:
  "counters_set d \<Longrightarrow>
   list_all backup_item_response_ok (map (backup_item_view d) xs) = list_all item_response_ok xs"
  by (induction xs) (auto simp: backup_item_response_ok_def backup_item_view_def counters_set_status_row)

lemma strip_backup_respond_items:
  "counters_set d \<Longrightarrow> strip_status (backup_respond_items d xs) = respond_items xs"
  by (simp add: backup_respond_items_def respond_items_def backup_items_ok_iff comp_def
      backup_item_view_def)

lemma strip_result_simps [simp]:
  "strip_result (ServerError, d) = (ServerError, d)"
  "strip_result (HttpError c m, d) = (HttpError c m, d)"
  "strip_result (x, d) = (strip_status x, d)"
  by (simp_all add: strip_result_def)

text \<open>The single-file version's create_item, which sets total_sell=0 explicitly, writes what the package's create route writes, and answers the same body with the new status nested in it.\<close>

theorem backup_create_item_equiv:
  "snd (backup_create_item d k now ic) = snd (create_item_route d k now ic)
   \<and> (counters_set d \<longrightarrow> strip_result (backup_create_item d k now ic) = create_item_route d k now ic)"
proof -
  let ?r = "new_item_row now k ic"
  let ?s = "orm_new_status now k (Some 0) (ic_stock ic)"
  have s: "?s = orm_new_status now k None (ic_stock ic)" by (simp add: orm_new_status_def)
  show ?thesis
  proof (cases "commit d [InsItem ?r, InsStatus ?s]")
    case (Inl e)
    with s show ?thesis by (simp add: backup_create_item_def create_item_route_def create_item_def Let_def)
  next
    case (Inr d')
    have "counters_set d \<Longrightarrow> counters_set d'"
      using Inr by (auto simp: counters_set_def status_response_ok_def orm_new_status_def split: if_splits)
    with Inr s show ?thesis
      by (auto simp: backup_create_item_def create_item_route_def create_item_def Let_def
          strip_backup_respond_item simp del: commit.simps)
  qed
qed

text \<open>C27: The single-file version rejects a restock of an existing status with a non-positive quantity with 400 and writes nothing, as the spec requires and the package does not.\<close>

theorem backup_restock_rejects_nonpositive:
  "get_status d k \<noteq> None \<Longrightarrow> q \<le> 0 \<Longrightarrow>
   backup_restock_item d k q now = (HttpError 400 ''Quantity must be positive'', d)"
  by (auto simp: backup_restock_item_def get_status_def)

text \<open>C32: For a positive quantity and an existing status, the single-file restock and the package restock route give the same response and database.\<close>

theorem backup_restock_equiv:
  "0 < q \<Longrightarrow> get_status d k \<noteq> None \<Longrightarrow> backup_restock_item d k q now = restock_item_route d k q now"
  by (auto simp: backup_restock_item_def restock_item_route_def restock_item_def get_status_def Let_def
      simp del: commit.simps split: option.splits sum.splits)

text \<open>C31: For an item with a status row, the single-file sell and the package sell route answer with the same HTTP status and leave the same database.\<close>

theorem backup_sell_equiv:
  assumes "get_status d k \<noteq> None"
  shows "status_code (fst (backup_sell_item d k q now)) = status_code (fst (sell_item_route d k q now))
     \<and> snd (backup_sell_item d k q now) = snd (sell_item_route d k q now)"
  using assms
  by (auto simp: backup_sell_item_def sell_item_route_def sell_item_def get_status_def Let_def status_code_def
      respond_status_def simp del: commit.simps split: option.splits sum.splits)

text \<open>For an item without a status row the single-file sell answers 404 and the package sell route answers 400.\<close>

theorem sell_missing_status_codes:
  "get_status d k = None \<Longrightarrow>
   status_code (fst (backup_sell_item d k q now)) = 404 \<and> status_code (fst (sell_item_route d k q now)) = 400"
  by (simp add: backup_sell_item_def sell_item_route_def sell_item_def get_status_def status_code_def)


subsection \<open>Witnesses\<close>

lemma shop_status_A: "get_status shop ''A'' = Some status_a"
  by (simp add: get_status_def get_status_row_def lookup_by_def fixture_defs)

theorem backup_restock_rejects_nonpositive_witness:
  "backup_restock_item shop ''A'' 0 9 = (HttpError 400 ''Quantity must be positive'', shop)"
  using backup_restock_rejects_nonpositive [of shop "''A''" 0 9] shop_status_A by simp

theorem backup_restock_equiv_witness:
  "backup_restock_item shop ''A'' 2 9 = restock_item_route shop ''A'' 2 9"
  using backup_restock_equiv [of 2 shop "''A''" 9] shop_status_A by simp

theorem backup_sell_equiv_witness:
  "status_code (fst (backup_sell_item shop ''A'' 3 9)) = status_code (fst (sell_item_route shop ''A'' 3 9))
   \<and> snd (backup_sell_item shop ''A'' 3 9) = snd (sell_item_route shop ''A'' 3 9)"
  using backup_sell_equiv [of shop "''A''" 3 9] shop_status_A by simp

theorem sell_missing_status_codes_witness:
  "status_code (fst (backup_sell_item shop ''B'' 1 9)) = 404 \<and> status_code (fst (sell_item_route shop ''B'' 1 9)) = 400"
proof -
  have "get_status shop ''B'' = None"
    by (simp add: get_status_def get_status_row_def lookup_by_def fixture_defs)
  then show ?thesis by (rule sell_missing_status_codes)
qed


end
