(* ===== verification/Backup.thy ===== *)
theory Backup
  imports Variants
begin

text \<open>
  The remaining handlers of the single-file version src/backups/main.py.  They
  are written inline against the session, with no data access layer between
  them and the database; each one is modelled from its own lines, on the same
  primitives as the package (\<open>get_item_row\<close> and \<open>get_status_row\<close> for
  \<open>.filter(... == item_id).first()\<close>, \<open>commit\<close> for \<open>db.commit()\<close>).
  \<open>backup_dispatch\<close> is the routing table of that application.  The
  properties show that it answers every request exactly as the package does,
  except sell, restock and the inventory summary, whose differences are stated
  in Variants.
\<close>

definition backup_read_all_items :: "db \<Rightarrow> int \<Rightarrow> int \<Rightarrow> response \<times> db" where
  "backup_read_all_items d skip limit =
     (if skip < 0 \<or> limit < 0 \<or> \<not> int64_ok skip \<or> \<not> int64_ok limit then (ServerError, d)
      else (backup_respond_items d (take (nat limit) (drop (nat skip) (items d))), d))"

definition backup_read_item :: "db \<Rightarrow> ident \<Rightarrow> response \<times> db" where
  "backup_read_item d k =
     (case get_item_row d k of
        None \<Rightarrow> (HttpError 404 ''Item not found'', d)
      | Some r \<Rightarrow> (backup_respond_item d r, d))"

definition backup_update_item :: "db \<Rightarrow> ident \<Rightarrow> item_update \<Rightarrow> timestamp \<Rightarrow> response \<times> db" where
  "backup_update_item d k u now =
     (case get_item_row d k of
        None \<Rightarrow> (HttpError 404 ''Item not found'', d)
      | Some r \<Rightarrow>
          (let r' = (apply_item_update u r)\<lparr>item_updated_at := now\<rparr>
           in case commit d [UpdItem r'] of
                Inl _ \<Rightarrow> (ServerError, d)
              | Inr d' \<Rightarrow> (backup_respond_item d' r', d')))"

text \<open>\<open>db.delete(db_item)\<close> with the cascade of the \<open>status\<close> relationship.\<close>

definition backup_delete_item :: "db \<Rightarrow> ident \<Rightarrow> response \<times> db" where
  "backup_delete_item d k =
     (case get_item_row d k of
        None \<Rightarrow> (HttpError 404 ''Item not found'', d)
      | Some _ \<Rightarrow>
          (let ws = (case get_status_row d k of None \<Rightarrow> [] | Some _ \<Rightarrow> [DelStatus k]) @ [DelItem k]
           in case commit d ws of
                Inl _ \<Rightarrow> (ServerError, d)
              | Inr d' \<Rightarrow> (Ok (BMsg ''Item deleted successfully''), d')))"

definition backup_create_item_status :: "db \<Rightarrow> ident \<Rightarrow> status_create \<Rightarrow> timestamp \<Rightarrow> response \<times> db" where
  "backup_create_item_status d k sc now =
     (case get_item_row d k of
        None \<Rightarrow> (HttpError 404 ''Item not found'', d)
      | Some _ \<Rightarrow>
          (case get_status_row d k of
             Some _ \<Rightarrow> (HttpError 400 ''Status already exists for this item'', d)
           | None \<Rightarrow>
               (let s = orm_new_status now k (Some (sc_total_sell sc)) (Some (sc_stock sc))
                in case commit d [InsStatus s] of
                     Inl _ \<Rightarrow> (ServerError, d)
                   | Inr d' \<Rightarrow> (respond_status s, d'))))"

definition backup_get_item_status :: "db \<Rightarrow> ident \<Rightarrow> response \<times> db" where
  "backup_get_item_status d k =
     (case get_status_row d k of
        None \<Rightarrow> (HttpError 404 ''Status not found for this item'', d)
      | Some s \<Rightarrow> (respond_status s, d))"

definition backup_update_item_status :: "db \<Rightarrow> ident \<Rightarrow> status_update \<Rightarrow> timestamp \<Rightarrow> response \<times> db" where
  "backup_update_item_status d k u now =
     (case get_status_row d k of
        None \<Rightarrow> (HttpError 404 ''Status not found for this item'', d)
      | Some s \<Rightarrow>
          (let s' = (apply_status_update u s)\<lparr>status_updated_at := now\<rparr>
           in case commit d [UpdStatus s'] of
                Inl _ \<Rightarrow> (ServerError, d)
              | Inr d' \<Rightarrow> (respond_status s', d')))"

definition backup_delete_item_status :: "db \<Rightarrow> ident \<Rightarrow> response \<times> db" where
  "backup_delete_item_status d k =
     (case get_status_row d k of
        None \<Rightarrow> (HttpError 404 ''Status not found for this item'', d)
      | Some _ \<Rightarrow>
          (case commit d [DelStatus k] of
             Inl _ \<Rightarrow> (ServerError, d)
           | Inr d' \<Rightarrow> (Ok (BMsg ''Item status deleted successfully''), d')))"

text \<open>The body \<open>{"item": item, "status": status}\<close> is validated against \<open>ItemWithStatusResponse\<close>, whose \<open>status\<close> is required.\<close>

definition backup_get_item_with_status :: "db \<Rightarrow> ident \<Rightarrow> response \<times> db" where
  "backup_get_item_with_status d k =
     (case get_item_row d k of
        None \<Rightarrow> (HttpError 404 ''Item not found'', d)
      | Some r \<Rightarrow>
          (case get_status_row d k of
             None \<Rightarrow> (ServerError, d)
           | Some s \<Rightarrow> (if item_response_ok r \<and> status_response_ok s then Ok (BFull r s) else ServerError, d)))"

text \<open>The search builds the same query as \<open>items_crud.search_items\<close>; its WHERE clause is \<open>search_cond\<close>.\<close>

definition backup_search_items ::
  "db \<Rightarrow> string option \<Rightarrow> string option \<Rightarrow> real option \<Rightarrow> real option \<Rightarrow> response \<times> db" where
  "backup_search_items d nm cat lo hi =
     (if list_ex (\<lambda>r. search_cond nm cat lo hi r = None) (items d) then (ServerError, d)
      else (backup_respond_items d (filter (\<lambda>r. search_cond nm cat lo hi r = Some True) (items d)), d))"

definition backup_get_low_stock_items :: "db \<Rightarrow> int \<Rightarrow> response \<times> db" where
  "backup_get_low_stock_items d threshold =
     (backup_respond_items d (map fst (filter (\<lambda>(i, s). stock_at_most threshold s) (joined d))), d)"

definition backup_get_top_sellers :: "db \<Rightarrow> int \<Rightarrow> response \<times> db" where
  "backup_get_top_sellers d limit =
     (if limit < 0 \<or> \<not> int64_ok limit then (ServerError, d)
      else (backup_respond_items d (map fst (take (nat limit) (sort_key sell_rank (joined d)))), d))"

definition backup_root :: "db \<Rightarrow> response \<times> db" where
  "backup_root d = (Ok (BMsg ''FastAPI CRUD API with PostgreSQL is running!''), d)"

definition backup_health_check :: "db \<Rightarrow> timestamp \<Rightarrow> response \<times> db" where
  "backup_health_check d now = (Ok (BHealth now), d)"

text \<open>The routing table of the single-file application.\<close>

fun backup_dispatch :: "db \<Rightarrow> request \<Rightarrow> response \<times> db" where
  "backup_dispatch d (CreateItem k now ic) = backup_create_item d k now ic"
| "backup_dispatch d (ReadAllItems skip limit) = backup_read_all_items d skip limit"
| "backup_dispatch d (ReadItem k) = backup_read_item d k"
| "backup_dispatch d (UpdateItem k u now) = backup_update_item d k u now"
| "backup_dispatch d (DeleteItem k) = backup_delete_item d k"
| "backup_dispatch d (ItemFull k) = backup_get_item_with_status d k"
| "backup_dispatch d (SearchItems nm cat lo hi) = backup_search_items d nm cat lo hi"
| "backup_dispatch d (CreateStatus k sc now) = backup_create_item_status d k sc now"
| "backup_dispatch d (GetStatus k) = backup_get_item_status d k"
| "backup_dispatch d (UpdateStatus k u now) = backup_update_item_status d k u now"
| "backup_dispatch d (DeleteStatus k) = backup_delete_item_status d k"
| "backup_dispatch d (Sell k q now) = backup_sell_item d k q now"
| "backup_dispatch d (Restock k q now) = backup_restock_item d k q now"
| "backup_dispatch d (LowStock t) = backup_get_low_stock_items d t"
| "backup_dispatch d (TopSellers l) = backup_get_top_sellers d l"
| "backup_dispatch d Summary = backup_inventory_summary d"
| "backup_dispatch d Root = backup_root d"
| "backup_dispatch d (Health now) = backup_health_check d now"

text \<open>The requests whose handler in the single-file version is a copy of the package's.\<close>

fun backup_shared :: "request \<Rightarrow> bool" where
  "backup_shared (Sell _ _ _) = False"
| "backup_shared (Restock _ _ _) = False"
| "backup_shared Summary = False"
| "backup_shared _ = True"

subsection \<open>Properties\<close>

text \<open>The handlers that answer with items: the same database, and the package's body once the nested status is removed, when every status row has its counters.\<close>

lemma backup_item_reads_db:
  "snd (backup_read_all_items d skip limit) = snd (read_all_items d skip limit)"
  "snd (backup_read_item d k) = snd (read_item d k)"
  "snd (backup_search_items d nm cat lo hi) = snd (search_items_route d nm cat lo hi)"
  "snd (backup_get_low_stock_items d t) = snd (get_low_stock_items_route d t)"
  "snd (backup_get_top_sellers d l) = snd (get_top_sellers_route d l)"
  by (simp_all add: backup_read_all_items_def read_all_items_def get_items_def
      backup_read_item_def read_item_def get_item_def
      backup_search_items_def search_items_route_def search_items_def
      backup_get_low_stock_items_def get_low_stock_items_route_def
      backup_get_top_sellers_def get_top_sellers_route_def get_top_sellers_def split: option.split)

lemma backup_item_reads_body:
  assumes "counters_set d"
  shows "strip_result (backup_read_all_items d skip limit) = read_all_items d skip limit"
    "strip_result (backup_read_item d k) = read_item d k"
    "strip_result (backup_search_items d nm cat lo hi) = search_items_route d nm cat lo hi"
    "strip_result (backup_get_low_stock_items d t) = get_low_stock_items_route d t"
    "strip_result (backup_get_top_sellers d l) = get_top_sellers_route d l"
  using assms
  by (simp_all add: backup_read_all_items_def read_all_items_def get_items_def
      backup_read_item_def read_item_def get_item_def
      backup_search_items_def search_items_route_def search_items_def
      backup_get_low_stock_items_def get_low_stock_items_route_def get_low_stock_items_def
      backup_get_top_sellers_def get_top_sellers_route_def get_top_sellers_def
      strip_backup_respond_item strip_backup_respond_items split: option.split)

lemma backup_update_item_db:
  "snd (backup_update_item d k u now) = snd (update_item_route d k u now)"
  by (simp add: backup_update_item_def update_item_route_def update_item_def Let_def
      del: commit.simps split: option.split sum.split)

lemma backup_update_item_body:
  assumes "counters_set d"
  shows "strip_result (backup_update_item d k u now) = update_item_route d k u now"
proof -
  have "counters_set (d\<lparr>items := xs\<rparr>)" for xs using assms by (simp add: counters_set_def)
  then show ?thesis
    by (simp add: backup_update_item_def update_item_route_def update_item_def Let_def
        strip_backup_respond_item split: option.split)
qed

lemma strip_respond_status: "strip_status (respond_status s) = respond_status s"
  by (simp add: respond_status_def)

lemma backup_plain_routes:
  "backup_delete_item d k = delete_item_route d k"
  "backup_get_item_with_status d k = get_item_with_status d k"
  "backup_create_item_status d k sc now = create_item_status_route d k sc now"
  "backup_get_item_status d k = get_item_status_route d k"
  "backup_update_item_status d k u now = update_item_status_route d k u now"
  "backup_delete_item_status d k = delete_item_status_route d k"
  "backup_root d = root_route d"
  "backup_health_check d now = health_check d now"
  by (simp_all add: backup_delete_item_def delete_item_route_def delete_item_def
      backup_get_item_with_status_def get_item_with_status_def get_item_def get_status_def
      backup_create_item_status_def create_item_status_route_def create_status_def
      backup_get_item_status_def get_item_status_route_def
      backup_update_item_status_def update_item_status_route_def update_status_def
      backup_delete_item_status_def delete_item_status_route_def delete_status_def Let_def
      backup_root_def root_route_def backup_health_check_def health_check_def
      del: commit.simps split: option.split sum.split)

text \<open>These package handlers never answer with an item body, so removing nested statuses leaves their answers as they are.\<close>

lemma plain_routes_strip:
  "strip_result (delete_item_route d k) = delete_item_route d k"
  "strip_result (get_item_with_status d k) = get_item_with_status d k"
  "strip_result (create_item_status_route d k sc now) = create_item_status_route d k sc now"
  "strip_result (get_item_status_route d k) = get_item_status_route d k"
  "strip_result (update_item_status_route d k u now) = update_item_status_route d k u now"
  "strip_result (delete_item_status_route d k) = delete_item_status_route d k"
  "strip_result (root_route d) = root_route d"
  "strip_result (health_check d now) = health_check d now"
  by (simp_all add: strip_result_def delete_item_route_def get_item_with_status_def
      create_item_status_route_def get_item_status_route_def update_item_status_route_def
      delete_item_status_route_def root_route_def health_check_def strip_respond_status
      split: option.split sum.split prod.split bool.split)

lemmas backup_routes_agree = backup_item_reads_db backup_item_reads_body backup_update_item_db
  backup_update_item_body backup_plain_routes plain_routes_strip

text \<open>C19: Every request other than sell, restock and the inventory summary leaves the same database in the single-file application as in the package; when every status row has both counters, the answers are the package's too, once the status the single-file ItemResponse nests in each item is removed.\<close>

theorem backup_dispatch_agrees:
  "backup_shared rq \<Longrightarrow>
   snd (backup_dispatch d rq) = snd (dispatch d rq)
   \<and> (counters_set d \<longrightarrow> strip_result (backup_dispatch d rq) = dispatch d rq)"
  using backup_create_item_equiv
  by (cases rq) (simp_all add: backup_routes_agree)

lemma backup_sell_item_db:
  "snd (backup_sell_item d k q now) = snd (sell_item_route d k q now)"
  by (auto simp: backup_sell_item_def sell_item_route_def sell_item_def Let_def
      simp del: commit.simps split: option.splits sum.splits)

lemma backup_restock_item_db:
  "snd (backup_restock_item d k q now) = (if q \<le> 0 then d else snd (restock_item_route d k q now))"
  by (auto simp: backup_restock_item_def restock_item_route_def restock_item_def Let_def
      simp del: commit.simps split: option.splits sum.splits)

text \<open>C18: Every request served by the single-file application either leaves the database as it was or leaves exactly the database the package leaves for the same request: its handlers write nothing the package's do not.\<close>

theorem backup_dispatch_effect:
  "snd (backup_dispatch d rq) \<in> {d, snd (dispatch d rq)}"
  using backup_create_item_equiv [of d]
  by (cases rq) (simp_all add: backup_routes_agree backup_sell_item_db backup_restock_item_db
      backup_inventory_summary_def)

text \<open>C33: Reading an item whose status row has a NULL counter (which update_item_status accepts): the package answers 200 with the item, the single-file version answers 500, because its ItemResponse validates the nested status.\<close>

theorem backup_read_item_null_counter:
  assumes "get_item d k = Some r" and "item_response_ok r"
    and "get_status d k = Some s" and "\<not> status_response_ok s"
  shows "backup_dispatch d (ReadItem k) = (ServerError, d) \<and> dispatch d (ReadItem k) = (Ok (BItem r), d)"
proof -
  have "item_id r = k" using assms(1) by (simp add: get_item_def get_item_row_in_ids)
  with assms show ?thesis
    by (simp add: backup_read_item_def read_item_def get_item_def get_status_def respond_item_def
        backup_respond_item_def backup_item_view_def backup_item_response_ok_def)
qed

subsection \<open>Witnesses\<close>

theorem backup_dispatch_agrees_witness:
  "strip_result (backup_dispatch shop (ReadItem ''A'')) = dispatch shop (ReadItem ''A'')"
proof -
  have "counters_set shop" by (simp add: counters_set_def status_response_ok_def fixture_defs)
  then show ?thesis using backup_dispatch_agrees [of "ReadItem ''A''" shop] by simp
qed

theorem backup_read_item_null_counter_witness:
  "backup_dispatch (shop\<lparr>item_status := [status_a\<lparr>stock := None\<rparr>, status_c]\<rparr>) (ReadItem ''A'')
     = (ServerError, shop\<lparr>item_status := [status_a\<lparr>stock := None\<rparr>, status_c]\<rparr>)
   \<and> dispatch (shop\<lparr>item_status := [status_a\<lparr>stock := None\<rparr>, status_c]\<rparr>) (ReadItem ''A'')
     = (Ok (BItem item_a), shop\<lparr>item_status := [status_a\<lparr>stock := None\<rparr>, status_c]\<rparr>)"
proof (rule backup_read_item_null_counter)
  show "get_item (shop\<lparr>item_status := [status_a\<lparr>stock := None\<rparr>, status_c]\<rparr>) ''A'' = Some item_a"
    by (simp add: get_item_def get_item_row_def lookup_by_def fixture_defs)
  show "item_response_ok item_a" by (simp add: item_response_ok_def fixture_defs)
  show "get_status (shop\<lparr>item_status := [status_a\<lparr>stock := None\<rparr>, status_c]\<rparr>) ''A'' = Some (status_a\<lparr>stock := None\<rparr>)"
    by (simp add: get_status_def get_status_row_def lookup_by_def fixture_defs)
  show "\<not> status_response_ok (status_a\<lparr>stock := None\<rparr>)" by (simp add: status_response_ok_def)
qed

end
