(* ===== verification/Desktop.thy ===== *)
theory Desktop
  imports Variants
begin

text \<open>
  The items-only version src/Desktop/projects/fastapi/fastapi-sample-project/main.py.
  Its \<open>ItemModel\<close> maps the same \<open>items\<close> table but declares no status
  relationship, so \<open>db.delete(db_item)\<close> issues a single DELETE on
  \<open>items\<close>; against a database whose \<open>item_status\<close> table references the
  item that statement violates the foreign key.  The application has no status
  or inventory endpoints: FastAPI answers those paths 404 \<open>Not Found\<close>.
  \<open>desktop_dispatch\<close> is its routing table over the requests of the
  package; the properties relate it to \<open>dispatch\<close>.
\<close>

definition desktop_read_all_items :: "db \<Rightarrow> int \<Rightarrow> int \<Rightarrow> response \<times> db" where
  "desktop_read_all_items d skip limit =
     (if skip < 0 \<or> limit < 0 \<or> \<not> int64_ok skip \<or> \<not> int64_ok limit then (ServerError, d)
      else (respond_items (take (nat limit) (drop (nat skip) (items d))), d))"

definition desktop_read_item :: "db \<Rightarrow> ident \<Rightarrow> response \<times> db" where
  "desktop_read_item d k =
     (case get_item_row d k of
        None \<Rightarrow> (HttpError 404 ''Item not found'', d)
      | Some r \<Rightarrow> (respond_item r, d))"

definition desktop_update_item :: "db \<Rightarrow> ident \<Rightarrow> item_update \<Rightarrow> timestamp \<Rightarrow> response \<times> db" where
  "desktop_update_item d k u now =
     (case get_item_row d k of
        None \<Rightarrow> (HttpError 404 ''Item not found'', d)
      | Some r \<Rightarrow>
          (let r' = (apply_item_update u r)\<lparr>item_updated_at := now\<rparr>
           in case commit d [UpdItem r'] of
                Inl _ \<Rightarrow> (ServerError, d)
              | Inr d' \<Rightarrow> (respond_item r', d')))"

definition desktop_delete_item :: "db \<Rightarrow> ident \<Rightarrow> response \<times> db" where
  "desktop_delete_item d k =
     (case get_item_row d k of
        None \<Rightarrow> (HttpError 404 ''Item not found'', d)
      | Some _ \<Rightarrow>
          (case commit d [DelItem k] of
             Inl _ \<Rightarrow> (ServerError, d)
           | Inr d' \<Rightarrow> (Ok (BMsg ''Item deleted successfully''), d')))"

definition desktop_search_items ::
  "db \<Rightarrow> string option \<Rightarrow> string option \<Rightarrow> real option \<Rightarrow> real option \<Rightarrow> response \<times> db" where
  "desktop_search_items d nm cat lo hi =
     (if list_ex (\<lambda>r. search_cond nm cat lo hi r = None) (items d) then (ServerError, d)
      else (respond_items (filter (\<lambda>r. search_cond nm cat lo hi r = Some True) (items d)), d))"

definition desktop_root :: "db \<Rightarrow> response \<times> db" where
  "desktop_root d = (Ok (BMsg ''FastAPI CRUD API with PostgreSQL is running!''), d)"

definition desktop_health_check :: "db \<Rightarrow> timestamp \<Rightarrow> response \<times> db" where
  "desktop_health_check d now = (Ok (BHealth now), d)"

fun desktop_dispatch :: "db \<Rightarrow> request \<Rightarrow> response \<times> db" where
  "desktop_dispatch d (CreateItem k now ic) = desktop_create_item d k now ic"
| "desktop_dispatch d (ReadAllItems skip limit) = desktop_read_all_items d skip limit"
| "desktop_dispatch d (ReadItem k) = desktop_read_item d k"
| "desktop_dispatch d (UpdateItem k u now) = desktop_update_item d k u now"
| "desktop_dispatch d (DeleteItem k) = desktop_delete_item d k"
| "desktop_dispatch d (SearchItems nm cat lo hi) = desktop_search_items d nm cat lo hi"
| "desktop_dispatch d Root = desktop_root d"
| "desktop_dispatch d (Health now) = desktop_health_check d now"
| "desktop_dispatch d _ = (HttpError 404 ''Not Found'', d)"

text \<open>The requests the items-only version answers with a copy of the package's handler.\<close>

fun desktop_shared :: "request \<Rightarrow> bool" where
  "desktop_shared (ReadAllItems _ _) = True"
| "desktop_shared (ReadItem _) = True"
| "desktop_shared (UpdateItem _ _ _) = True"
| "desktop_shared (SearchItems _ _ _ _) = True"
| "desktop_shared Root = True"
| "desktop_shared (Health _) = True"
| "desktop_shared _ = False"

text \<open>The requests it has a route for at all.\<close>

fun desktop_routed :: "request \<Rightarrow> bool" where
  "desktop_routed (CreateItem _ _ _) = True"
| "desktop_routed (DeleteItem _) = True"
| "desktop_routed rq = desktop_shared rq"

subsection \<open>Properties\<close>

lemma desktop_routes_equiv:
  "desktop_read_all_items d skip limit = read_all_items d skip limit"
  "desktop_read_item d k = read_item d k"
  "desktop_update_item d k u now = update_item_route d k u now"
  "desktop_search_items d nm cat lo hi = search_items_route d nm cat lo hi"
  "desktop_root d = root_route d"
  "desktop_health_check d now = health_check d now"
  by (simp_all add: desktop_read_all_items_def read_all_items_def get_items_def
      desktop_read_item_def read_item_def get_item_def
      desktop_update_item_def update_item_route_def update_item_def
      desktop_search_items_def search_items_route_def search_items_def Let_def
      desktop_root_def root_route_def desktop_health_check_def health_check_def
      del: commit.simps split: option.split sum.split)

lemma desktop_delete_item_no_status:
  "get_status d k = None \<Longrightarrow> desktop_delete_item d k = delete_item_route d k"
  by (simp add: desktop_delete_item_def delete_item_route_def delete_item_def get_status_def
      split: option.split sum.split)

lemma desktop_create_item_status:
  "item_status (snd (desktop_create_item d k now ic)) = item_status d"
  by (auto simp: desktop_create_item_def Let_def split: sum.split)

lemma desktop_update_item_status:
  "item_status (snd (desktop_update_item d k u now)) = item_status d"
  by (auto simp: desktop_update_item_def Let_def split: option.split sum.split)

lemma desktop_delete_item_status:
  "item_status (snd (desktop_delete_item d k)) = item_status d"
  by (auto simp: desktop_delete_item_def split: option.split sum.split if_splits)

text \<open>C20: Reads, updates, searches and the health endpoints of the items-only version answer exactly as the package does, on every database.\<close>

theorem desktop_dispatch_agrees:
  "desktop_shared rq \<Longrightarrow> desktop_dispatch d rq = dispatch d rq"
  by (cases rq) (simp_all add: desktop_routes_equiv)

text \<open>C28: Deleting an item that has a status row: the items-only version issues a bare DELETE on items, which the foreign key of item_status rejects, so the request fails with 500 and nothing is deleted, where the package deletes both rows.\<close>

theorem desktop_delete_with_status:
  assumes "get_item d k \<noteq> None" and "get_status d k \<noteq> None"
  shows "desktop_dispatch d (DeleteItem k) = (ServerError, d)"
proof -
  have "k \<in> set (status_ids d)"
    using assms(2) by (auto simp: get_status_def get_status_row_def lookup_by_None_iff)
  with assms(1) show ?thesis
    by (auto simp: desktop_delete_item_def get_item_def)
qed

text \<open>Every request keeps the status table of the database as it was: the items-only version never writes item_status, and the requests it has no route for are answered 404.\<close>

theorem desktop_dispatch_status_table:
  "item_status (snd (desktop_dispatch d rq)) = item_status d
   \<and> (\<not> desktop_routed rq \<longrightarrow> desktop_dispatch d rq = (HttpError 404 ''Not Found'', d))"
  by (cases rq) (simp_all add: desktop_create_item_status desktop_update_item_status
      desktop_delete_item_status desktop_read_all_items_def desktop_read_item_def
      desktop_search_items_def desktop_root_def desktop_health_check_def split: option.split)

subsection \<open>Witnesses\<close>

theorem desktop_dispatch_agrees_witness:
  "desktop_dispatch shop (ReadItem ''A'') = dispatch shop (ReadItem ''A'')"
  using desktop_dispatch_agrees [of "ReadItem ''A''" shop] by simp

theorem desktop_delete_with_status_witness:
  "desktop_dispatch shop (DeleteItem ''A'') = (ServerError, shop)"
proof -
  have "get_item shop ''A'' \<noteq> None" "get_status shop ''A'' \<noteq> None"
    by (simp_all add: get_item_def get_item_row_def get_status_def get_status_row_def lookup_by_def fixture_defs)
  then show ?thesis by (rule desktop_delete_with_status)
qed

theorem desktop_dispatch_status_table_witness:
  "desktop_dispatch shop (Sell ''A'' 1 9) = (HttpError 404 ''Not Found'', shop)
   \<and> item_status (snd (desktop_dispatch shop (DeleteItem ''A''))) = item_status shop"
  using desktop_dispatch_status_table [of shop "Sell ''A'' 1 9"]
    desktop_dispatch_status_table [of shop "DeleteItem ''A''"] by simp

end
