(* ===== verification/Race.thy ===== *)
theory Race
  imports StatusCrud
begin

text \<open>
  Concurrent sell and restock requests.  \<open>sell_item\<close> and
  \<open>restock_item\<close> (src/app/crud/status_crud.py) read the status row, compute
  in Python, and commit an UPDATE that writes the computed values as constants,
  with no row lock (no \<open>with_for_update\<close>) and no version check: sell
  writes stock and total_sell, restock writes stock only.  Under PostgreSQL's
  default READ COMMITTED isolation the UPDATE of a second transaction applies
  to the latest committed row version and overwrites the columns it sets.  A
  request is therefore split into its read phase (\<open>sell_plan\<close>,
  \<open>restock_plan\<close>: the writes it will commit, computed from the snapshot it
  read) and its commit, after which \<open>db.refresh\<close> reads the row back
  (\<open>refresh_row\<close>); a run of several requests is any interleaving of these
  phases (\<open>conc_step\<close>).
\<close>

definition sell_plan :: "db \<Rightarrow> ident \<Rightarrow> int \<Rightarrow> timestamp \<Rightarrow> exc + (status option \<times> db_write list)" where
  "sell_plan d k q now =
     (case get_status_row d k of
        None \<Rightarrow> Inr (None, [])
      | Some s \<Rightarrow>
          (case stock s of
             None \<Rightarrow> Inl TypeError
           | Some st \<Rightarrow>
               if st < q then Inr (None, [])
               else (case total_sell s of
                       None \<Rightarrow> Inl TypeError
                     | Some ts \<Rightarrow>
                         (let s' = s\<lparr>stock := Some (st - q), total_sell := Some (ts + q),
                                    status_updated_at := now\<rparr>
                          in Inr (Some s', [UpdStatus s'])))))"

definition restock_plan :: "db \<Rightarrow> ident \<Rightarrow> int \<Rightarrow> timestamp \<Rightarrow> exc + (status option \<times> db_write list)" where
  "restock_plan d k q now =
     (case get_status_row d k of
        None \<Rightarrow> Inr (None, [])
      | Some s \<Rightarrow>
          (case stock s of
             None \<Rightarrow> Inl TypeError
           | Some st \<Rightarrow> Inr (Some (s\<lparr>stock := Some (st + q), status_updated_at := now\<rparr>),
                             [UpdStatusStock k (st + q) now])))"

text \<open>\<open>db.refresh(db_status)\<close> after the commit: the row as the database now holds it.\<close>

definition refresh_row :: "db \<Rightarrow> status option \<Rightarrow> status option" where
  "refresh_row d r = (case r of None \<Rightarrow> None | Some s \<Rightarrow> get_status_row d (status_id s))"

datatype req =
    Pending ident int timestamp
  | PendingRestock ident int timestamp
  | Planned "status option" "db_write list"
  | Finished "exc + status option"

type_synonym conf = "db \<times> req list"

inductive conc_step :: "conf \<Rightarrow> conf \<Rightarrow> bool" where
  plan: "i < length rs \<Longrightarrow> rs ! i = Pending k q t \<Longrightarrow> sell_plan d k q t = Inr (r, ws) \<Longrightarrow>
           conc_step (d, rs) (d, rs[i := Planned r ws])"
| plan_fail: "i < length rs \<Longrightarrow> rs ! i = Pending k q t \<Longrightarrow> sell_plan d k q t = Inl e \<Longrightarrow>
           conc_step (d, rs) (d, rs[i := Finished (Inl e)])"
| plan_restock: "i < length rs \<Longrightarrow> rs ! i = PendingRestock k q t \<Longrightarrow> restock_plan d k q t = Inr (r, ws) \<Longrightarrow>
           conc_step (d, rs) (d, rs[i := Planned r ws])"
| plan_restock_fail: "i < length rs \<Longrightarrow> rs ! i = PendingRestock k q t \<Longrightarrow> restock_plan d k q t = Inl e \<Longrightarrow>
           conc_step (d, rs) (d, rs[i := Finished (Inl e)])"
| commit_ok: "i < length rs \<Longrightarrow> rs ! i = Planned r ws \<Longrightarrow> commit d ws = Inr d' \<Longrightarrow>
           conc_step (d, rs) (d', rs[i := Finished (Inr (refresh_row d' r))])"
| commit_fail: "i < length rs \<Longrightarrow> rs ! i = Planned r ws \<Longrightarrow> commit d ws = Inl e \<Longrightarrow>
           conc_step (d, rs) (d, rs[i := Finished (Inl e)])"

text \<open>Writes a planned request may still commit keep stocks non-negative.\<close>

definition write_nonneg :: "db_write \<Rightarrow> bool" where
  "write_nonneg w = (case w of UpdStatus s \<Rightarrow> pred_option (\<lambda>v. 0 \<le> v) (stock s)
                      | InsStatus s \<Rightarrow> pred_option (\<lambda>v. 0 \<le> v) (stock s)
                      | UpdStatusStock _ v _ \<Rightarrow> 0 \<le> v | _ \<Rightarrow> True)"

definition req_nonneg :: "req \<Rightarrow> bool" where
  "req_nonneg r = (case r of Planned _ ws \<Rightarrow> list_all write_nonneg ws
                    | PendingRestock _ q _ \<Rightarrow> 0 \<le> q | _ \<Rightarrow> True)"

definition conc_inv :: "conf \<Rightarrow> bool" where
  "conc_inv c \<longleftrightarrow> nonneg_stock (fst c) \<and> list_all req_nonneg (snd c)"

text \<open>
  Every request moves from \<open>Pending\<close> to \<open>Finished\<close> in at most two steps;
  \<open>conc_measure\<close> counts the steps the requests of a configuration still have to take.
\<close>

fun req_done :: "req \<Rightarrow> bool" where
  "req_done (Finished _) = True"
| "req_done _ = False"

fun req_weight :: "req \<Rightarrow> nat" where
  "req_weight (Pending _ _ _) = 2"
| "req_weight (PendingRestock _ _ _) = 2"
| "req_weight (Planned _ _) = 1"
| "req_weight (Finished _) = 0"

definition conc_measure :: "conf \<Rightarrow> nat" where
  "conc_measure c = sum_list (map req_weight (snd c))"

subsection \<open>Properties\<close>

text \<open>A request that commits right after its read phase is the sequential \<open>sell_item\<close>.\<close>

lemma sell_item_plan:
  "sell_item d k q now =
     (case sell_plan d k q now of
        Inl e \<Rightarrow> Inl e
      | Inr (r, ws) \<Rightarrow> (case commit d ws of Inl e \<Rightarrow> Inl e | Inr d' \<Rightarrow> Inr (refresh_row d' r, d')))"
proof (cases "get_status_row d k")
  case None
  then show ?thesis by (simp add: sell_item_def sell_plan_def refresh_row_def)
next
  case (Some s)
  then have "status_id s = k" by (simp add: get_status_row_in_ids)
  with Some show ?thesis
    by (simp add: sell_item_def sell_plan_def refresh_row_def Let_def commit_upd_status
        get_status_row_replace del: commit.simps(2) split: option.split)
qed

lemma commit_upd_status_stock:
  "get_status_row d k = Some s \<Longrightarrow>
   commit d [UpdStatusStock k v now] =
     (if int32_ok v then Inr (d\<lparr>item_status := replace_by status_id
                                 (s\<lparr>stock := Some v, status_updated_at := now\<rparr>) (item_status d)\<rparr>)
      else Inl DataError)"
  by (simp add: get_status_row_def)

text \<open>The same for \<open>restock_item\<close>, on a database whose counters fit their columns: its column-wise UPDATE and the row-wise write of the sequential model then agree.\<close>

lemma restock_item_plan:
  assumes "wf_db d"
  shows "restock_item d k q now =
     (case restock_plan d k q now of
        Inl e \<Rightarrow> Inl e
      | Inr (r, ws) \<Rightarrow> (case commit d ws of Inl e \<Rightarrow> Inl e | Inr d' \<Rightarrow> Inr (refresh_row d' r, d')))"
proof (cases "get_status_row d k")
  case None
  then show ?thesis by (simp add: restock_item_def restock_plan_def refresh_row_def)
next
  case (Some s)
  then have k: "status_id s = k" by (simp add: get_status_row_in_ids)
  from Some have "s \<in> set (item_status d)" by (auto simp: get_status_row_def dest!: lookup_by_SomeD)
  with assms have "status_ints_ok s" by (simp add: wf_db_def list_all_iff)
  with Some k show ?thesis
    by (simp add: restock_item_def restock_plan_def refresh_row_def status_ints_ok_def
        commit_upd_status commit_upd_status_stock get_status_row_replace Let_def del: commit.simps(2)
        split: option.split)
qed

lemma sell_plan_nonneg:
  "sell_plan d k q t = Inr (r, ws) \<Longrightarrow> list_all write_nonneg ws"
  by (auto simp: sell_plan_def Let_def write_nonneg_def split: option.splits if_splits)

lemma restock_plan_nonneg:
  assumes "nonneg_stock d" and "0 \<le> q" and "restock_plan d k q t = Inr (r, ws)"
  shows "list_all write_nonneg ws"
proof (cases "get_status_row d k")
  case (Some s)
  then have "s \<in> set (item_status d)" by (auto simp: get_status_row_def dest!: lookup_by_SomeD)
  with assms(1) have "pred_option (\<lambda>v. 0 \<le> v) (stock s)" by (simp add: nonneg_stock_def list_all_iff)
  with Some assms(2,3) show ?thesis
    by (auto simp: restock_plan_def write_nonneg_def split: option.splits)
qed (use assms(3) in \<open>simp add: restock_plan_def\<close>)

lemma apply_write_nonneg:
  "nonneg_stock d \<Longrightarrow> write_nonneg w \<Longrightarrow> apply_write d w = Inr d' \<Longrightarrow> nonneg_stock d'"
proof (cases w)
  case (UpdStatus s)
  assume "nonneg_stock d" "write_nonneg w" "apply_write d w = Inr d'"
  with UpdStatus show ?thesis
    by (auto simp: write_nonneg_def intro: nonneg_stock_replace split: if_splits)
next
  case (UpdStatusStock k v t)
  assume "nonneg_stock d" "write_nonneg w" "apply_write d w = Inr d'"
  with UpdStatusStock show ?thesis
    by (auto simp: write_nonneg_def intro: nonneg_stock_replace split: if_splits option.splits)
qed (auto simp: nonneg_stock_def write_nonneg_def list_all_iff remove_by_def split: if_splits)

lemma commit_nonneg:
  "nonneg_stock d \<Longrightarrow> list_all write_nonneg ws \<Longrightarrow> commit d ws = Inr d' \<Longrightarrow> nonneg_stock d'"
proof (induction ws arbitrary: d)
  case Nil
  then show ?case by simp
next
  case (Cons w ws)
  then obtain d1 where "apply_write d w = Inr d1" and "commit d1 ws = Inr d'"
    by (auto split: sum.splits)
  with Cons show ?case by (auto intro: apply_write_nonneg)
qed

lemma list_all_update_keep:
  "list_all P xs \<Longrightarrow> P x \<Longrightarrow> list_all P (xs[i := x])"
  by (auto simp: list_all_iff dest: set_update_subset_insert [THEN subsetD])

lemma conc_step_inv:
  "conc_step c c' \<Longrightarrow> conc_inv c \<Longrightarrow> conc_inv c'"
proof (induction rule: conc_step.induct)
  case (plan i rs k q t d r ws)
  then show ?case
    by (auto simp: conc_inv_def req_nonneg_def intro!: list_all_update_keep dest: sell_plan_nonneg)
next
  case (plan_fail i rs k q t d e)
  then show ?case
    by (auto simp: conc_inv_def req_nonneg_def intro!: list_all_update_keep)
next
  case (plan_restock i rs k q t d r ws)
  from plan_restock.hyps(1) have "rs ! i \<in> set rs" by (rule nth_mem)
  with plan_restock have q: "0 \<le> q" and nn: "nonneg_stock d"
    by (auto simp: conc_inv_def req_nonneg_def list_all_iff)
  have "list_all write_nonneg ws" using restock_plan_nonneg [OF nn q plan_restock.hyps(3)] .
  with plan_restock show ?case
    by (auto simp: conc_inv_def req_nonneg_def intro!: list_all_update_keep)
next
  case (plan_restock_fail i rs k q t d e)
  then show ?case
    by (auto simp: conc_inv_def req_nonneg_def intro!: list_all_update_keep)
next
  case (commit_ok i rs r ws d d')
  from commit_ok.hyps(1) have "rs ! i \<in> set rs" by (rule nth_mem)
  with commit_ok have "list_all write_nonneg ws"
    by (auto simp: conc_inv_def req_nonneg_def list_all_iff)
  with commit_ok show ?case
    by (auto simp: conc_inv_def req_nonneg_def intro!: list_all_update_keep intro: commit_nonneg)
next
  case (commit_fail i rs r ws d e)
  then show ?case
    by (auto simp: conc_inv_def req_nonneg_def intro!: list_all_update_keep)
qed

lemma conc_steps_inv:
  "conc_step\<^sup>*\<^sup>* c c' \<Longrightarrow> conc_inv c \<Longrightarrow> conc_inv c'"
  by (induction rule: rtranclp_induct) (auto intro: conc_step_inv)

text \<open>C4: In every interleaving of concurrent sell requests, started from a database whose stocks are all non-negative, every stock stays non-negative: each committed stock was computed from a snapshot that passed the stock check.\<close>

theorem concurrent_sells_nonneg:
  assumes "conc_step\<^sup>*\<^sup>* (d, map (\<lambda>(k, q, t). Pending k q t) reqs) (d', rs')"
    and "nonneg_stock d"
  shows "nonneg_stock d'"
proof -
  have "conc_inv (d, map (\<lambda>(k, q, t). Pending k q t) reqs)"
    using assms(2) by (auto simp: conc_inv_def req_nonneg_def list_all_iff)
  with assms(1) have "conc_inv (d', rs')" by (rule conc_steps_inv)
  then show ?thesis by (simp add: conc_inv_def)
qed


subsubsection \<open>Progress and termination of interleaved runs\<close>

lemma sum_list_map_update_less:
  "i < length xs \<Longrightarrow> (f :: 'a \<Rightarrow> nat) x < f (xs ! i) \<Longrightarrow> sum_list (map f (xs[i := x])) < sum_list (map f xs)"
proof (induction xs arbitrary: i)
  case (Cons y ys)
  then show ?case by (cases i) auto
qed simp

lemma req_weight_le: "sum_list (map req_weight rs) \<le> 2 * length rs"
proof (induction rs)
  case (Cons r rs)
  have "req_weight r \<le> 2" by (cases r) simp_all
  with Cons show ?case by simp
qed simp

lemma conc_step_measure:
  "conc_step c c' \<Longrightarrow> conc_measure c' < conc_measure c \<and> length (snd c') = length (snd c)"
  by (induction rule: conc_step.induct) (auto simp: conc_measure_def intro: sum_list_map_update_less)

lemma conc_step_not_done: "conc_step c c' \<Longrightarrow> \<not> list_all req_done (snd c)"
  by (induction rule: conc_step.induct) (auto simp: list_all_length)

lemma conc_step_exists:
  assumes "\<not> list_all req_done rs"
  shows "\<exists>c'. conc_step (d, rs) c'"
proof -
  obtain i where i: "i < length rs" "\<not> req_done (rs ! i)"
    using assms by (auto simp: list_all_length)
  show ?thesis
  proof (cases "rs ! i")
    case (Pending k q t)
    show ?thesis
    proof (cases "sell_plan d k q t")
      case (Inl e)
      with i(1) Pending show ?thesis by (blast intro: conc_step.plan_fail)
    next
      case (Inr p)
      with i(1) Pending show ?thesis by (cases p) (blast intro: conc_step.plan)
    qed
  next
    case (PendingRestock k q t)
    show ?thesis
    proof (cases "restock_plan d k q t")
      case (Inl e)
      with i(1) PendingRestock show ?thesis by (blast intro: conc_step.plan_restock_fail)
    next
      case (Inr p)
      with i(1) PendingRestock show ?thesis by (cases p) (blast intro: conc_step.plan_restock)
    qed
  next
    case (Planned r ws)
    with i(1) show ?thesis
      by (cases "commit d ws") (blast intro: conc_step.commit_ok conc_step.commit_fail)+
  next
    case (Finished x)
    with i(2) show ?thesis by simp
  qed
qed

lemma conc_steps_measure:
  "(conc_step ^^ n) c c' \<Longrightarrow> n \<le> conc_measure c"
proof (induction n arbitrary: c)
  case (Suc n)
  then obtain c1 where "conc_step c c1" and "(conc_step ^^ n) c1 c'"
    by (meson relpowp_Suc_D2)
  with Suc.IH show ?case by (fastforce dest: conc_step_measure)
qed simp

text \<open>Progress: an interleaving of sell requests can take a step exactly when some request has not finished, so a run stops only when every request has its answer.\<close>

theorem conc_step_iff_unfinished:
  "(\<exists>c'. conc_step c c') \<longleftrightarrow> \<not> list_all req_done (snd c)"
proof
  assume "\<exists>c'. conc_step c c'"
  then show "\<not> list_all req_done (snd c)" by (auto dest: conc_step_not_done)
next
  assume "\<not> list_all req_done (snd c)"
  then show "\<exists>c'. conc_step c c'" using conc_step_exists [of "snd c" "fst c"] by simp
qed

text \<open>Termination: every interleaved run of n sell requests has at most 2 n steps (one read phase and one commit per request).\<close>

theorem conc_run_bound:
  "(conc_step ^^ m) (d, rs) c' \<Longrightarrow> m \<le> 2 * length rs"
  using conc_steps_measure [of m "(d, rs)" c'] req_weight_le [of rs]
  by (simp add: conc_measure_def)

lemma lost_update_run:
  "conc_step\<^sup>*\<^sup>* (shop, [Pending ''A'' 5 7, Pending ''A'' 5 8])
     (shop\<lparr>item_status := [status_a\<lparr>stock := Some 0, total_sell := Some 5, status_updated_at := 8\<rparr>, status_c]\<rparr>,
      [Finished (Inr (Some (status_a\<lparr>stock := Some 0, total_sell := Some 5, status_updated_at := 7\<rparr>))), Finished (Inr (Some (status_a\<lparr>stock := Some 0, total_sell := Some 5, status_updated_at := 8\<rparr>)))])"
proof -
  let ?s1 = "status_a\<lparr>stock := Some 0, total_sell := Some 5, status_updated_at := 7\<rparr>"
  let ?s2 = "status_a\<lparr>stock := Some 0, total_sell := Some 5, status_updated_at := 8\<rparr>"
  let ?d1 = "shop\<lparr>item_status := [?s1, status_c]\<rparr>"
  let ?d2 = "shop\<lparr>item_status := [?s2, status_c]\<rparr>"
  have p1: "sell_plan shop ''A'' 5 7 = Inr (Some ?s1, [UpdStatus ?s1])"
    by (simp add: sell_plan_def get_status_row_def lookup_by_def fixture_defs Let_def)
  have p2: "sell_plan shop ''A'' 5 8 = Inr (Some ?s2, [UpdStatus ?s2])"
    by (simp add: sell_plan_def get_status_row_def lookup_by_def fixture_defs Let_def)
  have c1: "commit shop [UpdStatus ?s1] = Inr ?d1"
    by (simp add: status_ints_ok_def int32_ok_def replace_by_def fixture_defs)
  have c2: "commit ?d1 [UpdStatus ?s2] = Inr ?d2"
    by (simp add: status_ints_ok_def int32_ok_def replace_by_def fixture_defs)
  have r1: "refresh_row ?d1 (Some ?s1) = Some ?s1" and r2: "refresh_row ?d2 (Some ?s2) = Some ?s2"
    by (simp_all add: refresh_row_def get_status_row_def lookup_by_def fixture_defs)
  have st1: "conc_step (shop, [Pending ''A'' 5 7, Pending ''A'' 5 8])
                       (shop, [Planned (Some ?s1) [UpdStatus ?s1], Pending ''A'' 5 8])"
    using conc_step.plan [of 0 "[Pending ''A'' 5 7, Pending ''A'' 5 8]", OF _ _ p1] by simp
  have st2: "conc_step (shop, [Planned (Some ?s1) [UpdStatus ?s1], Pending ''A'' 5 8])
                       (shop, [Planned (Some ?s1) [UpdStatus ?s1], Planned (Some ?s2) [UpdStatus ?s2]])"
    using conc_step.plan [of 1 "[Planned (Some ?s1) [UpdStatus ?s1], Pending ''A'' 5 8]", OF _ _ p2] by simp
  have st3: "conc_step (shop, [Planned (Some ?s1) [UpdStatus ?s1], Planned (Some ?s2) [UpdStatus ?s2]])
                       (?d1, [Finished (Inr (Some ?s1)), Planned (Some ?s2) [UpdStatus ?s2]])"
    using conc_step.commit_ok [of 0 "[Planned (Some ?s1) [UpdStatus ?s1], Planned (Some ?s2) [UpdStatus ?s2]]",
        OF _ _ c1] r1 by simp
  have st4: "conc_step (?d1, [Finished (Inr (Some ?s1)), Planned (Some ?s2) [UpdStatus ?s2]])
                       (?d2, [Finished (Inr (Some ?s1)), Finished (Inr (Some ?s2))])"
    using conc_step.commit_ok [of 1 "[Finished (Inr (Some ?s1)), Planned (Some ?s2) [UpdStatus ?s2]]",
        OF _ _ c2] r2 by simp
  show ?thesis
    using st1 st2 st3 st4 by (meson rtranclp.rtrancl_into_rtrancl rtranclp.rtrancl_refl)
qed

text \<open>C5: The check-then-update of sell is not atomic: two concurrent sells of the whole stock of item A (5 units) can both succeed, and the final row records stock 0 and total_sell 5, so one sale is lost instead of the second request being rejected.\<close>

theorem concurrent_sells_lost_update:
  "\<exists>d' s1 s2.
     conc_step\<^sup>*\<^sup>* (shop, [Pending ''A'' 5 7, Pending ''A'' 5 8])
                     (d', [Finished (Inr (Some s1)), Finished (Inr (Some s2))])
     \<and> stock s1 = Some 0 \<and> total_sell s1 = Some 5 \<and> stock s2 = Some 0 \<and> total_sell s2 = Some 5
     \<and> get_status d' ''A'' = Some s2 \<and> get_status shop ''A'' = Some status_a \<and> total_sell status_a = Some 0"
proof -
  have g: "get_status (shop\<lparr>item_status := [status_a\<lparr>stock := Some 0, total_sell := Some 5, status_updated_at := 8\<rparr>, status_c]\<rparr>) ''A'' = Some (status_a\<lparr>stock := Some 0, total_sell := Some 5, status_updated_at := 8\<rparr>)" "get_status shop ''A'' = Some status_a"
    by (simp_all add: get_status_def get_status_row_def lookup_by_def fixture_defs)
  show ?thesis
    using lost_update_run g
    by (intro exI [of _ "shop\<lparr>item_status := [status_a\<lparr>stock := Some 0, total_sell := Some 5, status_updated_at := 8\<rparr>, status_c]\<rparr>"] exI [of _ "status_a\<lparr>stock := Some 0, total_sell := Some 5, status_updated_at := 7\<rparr>"] exI [of _ "status_a\<lparr>stock := Some 0, total_sell := Some 5, status_updated_at := 8\<rparr>"]) (simp add: status_a_def)
qed

lemma sell_restock_run:
  "conc_step\<^sup>*\<^sup>* (shop, [Pending ''A'' 5 7, PendingRestock ''A'' 10 8])
     (shop\<lparr>item_status := [status_a\<lparr>stock := Some 15, total_sell := Some 5, status_updated_at := 8\<rparr>, status_c]\<rparr>,
      [Finished (Inr (Some (status_a\<lparr>stock := Some 0, total_sell := Some 5, status_updated_at := 7\<rparr>))),
       Finished (Inr (Some (status_a\<lparr>stock := Some 15, total_sell := Some 5, status_updated_at := 8\<rparr>)))])"
proof -
  let ?s1 = "status_a\<lparr>stock := Some 0, total_sell := Some 5, status_updated_at := 7\<rparr>"
  let ?s2 = "status_a\<lparr>stock := Some 15, status_updated_at := 8\<rparr>"
  let ?s3 = "status_a\<lparr>stock := Some 15, total_sell := Some 5, status_updated_at := 8\<rparr>"
  let ?w = "UpdStatusStock ''A'' 15 8"
  let ?d1 = "shop\<lparr>item_status := [?s1, status_c]\<rparr>"
  let ?d2 = "shop\<lparr>item_status := [?s3, status_c]\<rparr>"
  have p1: "sell_plan shop ''A'' 5 7 = Inr (Some ?s1, [UpdStatus ?s1])"
    by (simp add: sell_plan_def get_status_row_def lookup_by_def fixture_defs Let_def)
  have p2: "restock_plan shop ''A'' 10 8 = Inr (Some ?s2, [?w])"
    by (simp add: restock_plan_def get_status_row_def lookup_by_def fixture_defs)
  have c1: "commit shop [UpdStatus ?s1] = Inr ?d1"
    by (simp add: status_ints_ok_def int32_ok_def replace_by_def fixture_defs)
  have c2: "commit ?d1 [?w] = Inr ?d2"
    by (simp add: int32_ok_def lookup_by_def replace_by_def fixture_defs)
  have r1: "refresh_row ?d1 (Some ?s1) = Some ?s1" and r2: "refresh_row ?d2 (Some ?s2) = Some ?s3"
    by (simp_all add: refresh_row_def get_status_row_def lookup_by_def fixture_defs)
  have st1: "conc_step (shop, [Pending ''A'' 5 7, PendingRestock ''A'' 10 8])
                       (shop, [Planned (Some ?s1) [UpdStatus ?s1], PendingRestock ''A'' 10 8])"
    using conc_step.plan [of 0 "[Pending ''A'' 5 7, PendingRestock ''A'' 10 8]", OF _ _ p1] by simp
  have st2: "conc_step (shop, [Planned (Some ?s1) [UpdStatus ?s1], PendingRestock ''A'' 10 8])
                       (shop, [Planned (Some ?s1) [UpdStatus ?s1], Planned (Some ?s2) [?w]])"
    using conc_step.plan_restock [of 1 "[Planned (Some ?s1) [UpdStatus ?s1], PendingRestock ''A'' 10 8]",
        OF _ _ p2] by simp
  have st3: "conc_step (shop, [Planned (Some ?s1) [UpdStatus ?s1], Planned (Some ?s2) [?w]])
                       (?d1, [Finished (Inr (Some ?s1)), Planned (Some ?s2) [?w]])"
    using conc_step.commit_ok [of 0 "[Planned (Some ?s1) [UpdStatus ?s1], Planned (Some ?s2) [?w]]",
        OF _ _ c1] r1 by simp
  have st4: "conc_step (?d1, [Finished (Inr (Some ?s1)), Planned (Some ?s2) [?w]])
                       (?d2, [Finished (Inr (Some ?s1)), Finished (Inr (Some ?s3))])"
    using conc_step.commit_ok [of 1 "[Finished (Inr (Some ?s1)), Planned (Some ?s2) [?w]]",
        OF _ _ c2] r2 by simp
  show ?thesis
    using st1 st2 st3 st4 by (meson rtranclp.rtrancl_into_rtrancl rtranclp.rtrancl_refl)
qed

text \<open>C22: Restock is not atomic either: a sell of 5 units and a restock of 10 units of item A (stock 5) that read the row before either commits both succeed, and the restock's UPDATE of stock overwrites the sale, leaving stock 15 with total_sell 5, while running the two requests one after the other leaves stock 10.\<close>

theorem concurrent_sell_restock_lost:
  "\<exists>d' r1 r2 s. conc_step\<^sup>*\<^sup>* (shop, [Pending ''A'' 5 7, PendingRestock ''A'' 10 8])
                                (d', [Finished (Inr r1), Finished (Inr r2)])
     \<and> get_status d' ''A'' = Some s \<and> stock s = Some 15 \<and> total_sell s = Some 5
     \<and> (\<exists>r r' d1 d2 s'. sell_item shop ''A'' 5 7 = Inr (r, d1) \<and> restock_item d1 ''A'' 10 8 = Inr (r', d2)
          \<and> get_status d2 ''A'' = Some s' \<and> stock s' = Some 10 \<and> total_sell s' = Some 5)"
proof -
  let ?s1 = "status_a\<lparr>stock := Some 0, total_sell := Some 5, status_updated_at := 7\<rparr>"
  let ?s4 = "status_a\<lparr>stock := Some 10, total_sell := Some 5, status_updated_at := 8\<rparr>"
  let ?d1 = "shop\<lparr>item_status := [?s1, status_c]\<rparr>"
  let ?d2 = "shop\<lparr>item_status := [?s4, status_c]\<rparr>"
  have g: "get_status (shop\<lparr>item_status := [status_a\<lparr>stock := Some 15, total_sell := Some 5, status_updated_at := 8\<rparr>, status_c]\<rparr>) ''A''
      = Some (status_a\<lparr>stock := Some 15, total_sell := Some 5, status_updated_at := 8\<rparr>)"
    by (simp add: get_status_def get_status_row_def lookup_by_def fixture_defs)
  have sell: "sell_item shop ''A'' 5 7 = Inr (Some ?s1, ?d1)"
    by (simp add: sell_item_def get_status_row_def lookup_by_def fixture_defs Let_def status_ints_ok_def
        int32_ok_def replace_by_def)
  have restock: "restock_item ?d1 ''A'' 10 8 = Inr (Some ?s4, ?d2)"
    by (simp add: restock_item_def get_status_row_def lookup_by_def fixture_defs Let_def status_ints_ok_def
        int32_ok_def replace_by_def)
  have g2: "get_status ?d2 ''A'' = Some ?s4"
    by (simp add: get_status_def get_status_row_def lookup_by_def fixture_defs)
  have f: "stock ?s4 = Some 10" "total_sell ?s4 = Some 5"
    "stock (status_a\<lparr>stock := Some 15, total_sell := Some 5, status_updated_at := 8\<rparr>) = Some 15"
    "total_sell (status_a\<lparr>stock := Some 15, total_sell := Some 5, status_updated_at := 8\<rparr>) = Some 5"
    by simp_all
  show ?thesis
    using sell_restock_run g sell restock g2 f by blast
qed

theorem concurrent_sells_nonneg_witness:
  "nonneg_stock (shop\<lparr>item_status := [status_a\<lparr>stock := Some 0, total_sell := Some 5, status_updated_at := 8\<rparr>, status_c]\<rparr>)"
proof -
  have run: "conc_step\<^sup>*\<^sup>* (shop, map (\<lambda>(k, q, t). Pending k q t) [(''A'', 5, 7), (''A'', 5, 8)])
     (shop\<lparr>item_status := [status_a\<lparr>stock := Some 0, total_sell := Some 5, status_updated_at := 8\<rparr>, status_c]\<rparr>, [Finished (Inr (Some (status_a\<lparr>stock := Some 0, total_sell := Some 5, status_updated_at := 7\<rparr>))), Finished (Inr (Some (status_a\<lparr>stock := Some 0, total_sell := Some 5, status_updated_at := 8\<rparr>)))])"
    using lost_update_run by simp
  have "nonneg_stock shop" by (simp add: nonneg_stock_def fixture_defs)
  with run show ?thesis by (rule concurrent_sells_nonneg)
qed

theorem conc_step_iff_unfinished_witness:
  "\<exists>c'. conc_step (shop, [Pending ''A'' 5 7]) c'"
  using conc_step_iff_unfinished [of "(shop, [Pending ''A'' 5 7])"] by simp

theorem conc_run_bound_witness:
  "\<exists>m. (conc_step ^^ m) (shop, [Pending ''A'' 5 7, Pending ''A'' 5 8])
          (shop\<lparr>item_status := [status_a\<lparr>stock := Some 0, total_sell := Some 5, status_updated_at := 8\<rparr>, status_c]\<rparr>,
           [Finished (Inr (Some (status_a\<lparr>stock := Some 0, total_sell := Some 5, status_updated_at := 7\<rparr>))),
            Finished (Inr (Some (status_a\<lparr>stock := Some 0, total_sell := Some 5, status_updated_at := 8\<rparr>)))])
      \<and> m \<le> 4"
proof -
  obtain m where run: "(conc_step ^^ m) (shop, [Pending ''A'' 5 7, Pending ''A'' 5 8])
          (shop\<lparr>item_status := [status_a\<lparr>stock := Some 0, total_sell := Some 5, status_updated_at := 8\<rparr>, status_c]\<rparr>,
           [Finished (Inr (Some (status_a\<lparr>stock := Some 0, total_sell := Some 5, status_updated_at := 7\<rparr>))),
            Finished (Inr (Some (status_a\<lparr>stock := Some 0, total_sell := Some 5, status_updated_at := 8\<rparr>)))])"
    using lost_update_run by (auto dest: rtranclp_imp_relpowp)
  with conc_run_bound [OF run] show ?thesis by auto
qed

end
