(* ===== verification/Refinement.thy ===== *)
theory Refinement
  imports StatusCrud
begin

text \<open>
  The inventory contract of the spec (section 4.2) as an abstract machine, and
  the refinement of the status operations of src/app/crud/status_crud.py
  against it.  The abstract state maps each item id to its pair
  (total_sell, stock); a row whose counters are NULL has no abstract value.
  \<open>spec_sell\<close> and \<open>spec_restock\<close> return \<open>None\<close> for Rejected.
\<close>

type_synonym inventory = "ident \<Rightarrow> (int \<times> int) option"

definition inv_abs :: "db \<Rightarrow> inventory" where
  "inv_abs d k =
     (case get_status_row d k of
        None \<Rightarrow> None
      | Some s \<Rightarrow> (case (total_sell s, stock s) of (Some ts, Some st) \<Rightarrow> Some (ts, st) | _ \<Rightarrow> None))"

definition spec_sell :: "inventory \<Rightarrow> ident \<Rightarrow> int \<Rightarrow> inventory option" where
  "spec_sell m k q =
     (case m k of
        None \<Rightarrow> None
      | Some (ts, st) \<Rightarrow> if st < q then None else Some (m(k \<mapsto> (ts + q, st - q))))"

definition spec_restock :: "inventory \<Rightarrow> ident \<Rightarrow> int \<Rightarrow> inventory option" where
  "spec_restock m k q =
     (case m k of
        None \<Rightarrow> None
      | Some (ts, st) \<Rightarrow> if q \<le> 0 then None else Some (m(k \<mapsto> (ts, st + q))))"

subsection \<open>Refinement\<close>

text \<open>C7: Every completed sell refines the abstract sell of the spec: a rejection (None) is a rejection of the abstract machine and changes no abstract state, and a success moves the abstract state exactly as the abstract sell does.\<close>

theorem sell_item_refines:
  assumes "sell_item d k q now = Inr (r, d')"
  shows "(r = None \<and> spec_sell (inv_abs d) k q = None \<and> inv_abs d' = inv_abs d)
       \<or> (r \<noteq> None \<and> spec_sell (inv_abs d) k q = Some (inv_abs d'))"
proof -
  from assms show ?thesis
    using get_status_row_in_ids [of d k]
    by (auto simp: sell_item_def spec_sell_def inv_abs_def Let_def commit_upd_status
        get_status_row_replace fun_eq_iff simp del: commit.simps
        split: option.splits if_splits sum.splits)
qed

text \<open>C17: A restock with a positive quantity of an item whose counters are set refines the abstract restock of the spec.\<close>

theorem restock_item_refines:
  assumes "0 < q" and "inv_abs d k \<noteq> None" and "restock_item d k q now = Inr (r, d')"
  shows "r \<noteq> None \<and> spec_restock (inv_abs d) k q = Some (inv_abs d')"
  using assms get_status_row_in_ids [of d k]
  by (auto simp: restock_item_def spec_restock_def inv_abs_def Let_def commit_upd_status
      get_status_row_replace fun_eq_iff simp del: commit.simps
      split: option.splits if_splits sum.splits)

subsection \<open>Witnesses\<close>

theorem sell_item_refines_witness:
  "spec_sell (inv_abs shop) ''A'' 3 =
     Some (inv_abs (snd (projr (sell_item shop ''A'' 3 7))))"
proof -
  have eq: "sell_item shop ''A'' 3 7 =
     Inr (Some (status_a\<lparr>stock := Some 2, total_sell := Some 3, status_updated_at := 7\<rparr>),
          shop\<lparr>item_status := [status_a\<lparr>stock := Some 2, total_sell := Some 3, status_updated_at := 7\<rparr>, status_c]\<rparr>)"
    by (simp add: sell_item_def get_status_row_def lookup_by_def replace_by_def status_ints_ok_def
        int32_ok_def Let_def fixture_defs)
  from sell_item_refines [OF eq] eq show ?thesis by simp
qed

theorem restock_item_refines_witness:
  "spec_restock (inv_abs shop) ''A'' 2 = Some (inv_abs (snd (projr (restock_item shop ''A'' 2 7))))"
proof -
  have eq: "restock_item shop ''A'' 2 7 =
     Inr (Some (status_a\<lparr>stock := Some 7, status_updated_at := 7\<rparr>),
          shop\<lparr>item_status := [status_a\<lparr>stock := Some 7, status_updated_at := 7\<rparr>, status_c]\<rparr>)"
    by (simp add: restock_item_def get_status_row_def lookup_by_def replace_by_def status_ints_ok_def
        int32_ok_def Let_def fixture_defs)
  have ne: "inv_abs shop ''A'' \<noteq> None"
    by (simp add: inv_abs_def get_status_row_def lookup_by_def fixture_defs)
  from restock_item_refines [OF _ ne eq] eq show ?thesis by simp
qed

end
