(* ===== verification/Payload.thy ===== *)
theory Payload
  imports Routes "HOL-Library.Monad_Syntax"
begin

text \<open>
  The request payloads before validation, and the parameter binding that turns
  an HTTP request into the typed \<open>request\<close> that \<open>dispatch\<close> serves.  The
  Pydantic classes of src/app/schemas/ declare, for each field, whether it is
  required, whether \<open>null\<close> is allowed, and its default; the route signatures
  of src/app/routes/ declare the query parameters and their defaults.  A JSON
  field is absent, \<open>null\<close>, or given a value (\<open>field\<close>); values of the
  wrong base type, and the coercions Pydantic applies to them, are not
  modelled: a given value already has the field's type.  A failed validation is
  FastAPI's 422 answer, before any handler runs.
\<close>

datatype 'a field = Absent | Null | Given 'a

text \<open>\<open>x: T\<close> with no default: missing or \<open>null\<close> is an error.\<close>

fun required :: "'a field \<Rightarrow> 'a option" where
  "required (Given v) = Some v"
| "required _ = None"

text \<open>\<open>x: T = dflt\<close>: missing takes the default, \<open>null\<close> is an error (the type is not Optional).\<close>

fun with_default :: "'a \<Rightarrow> 'a field \<Rightarrow> 'a option" where
  "with_default dflt Absent = Some dflt"
| "with_default _ Null = None"
| "with_default _ (Given v) = Some v"

text \<open>\<open>x: Optional[T] = dflt\<close>: missing takes the default, \<open>null\<close> is \<open>None\<close>.\<close>

fun optional_field :: "'a option \<Rightarrow> 'a field \<Rightarrow> 'a option" where
  "optional_field dflt Absent = dflt"
| "optional_field _ Null = None"
| "optional_field _ (Given v) = Some v"

text \<open>\<open>x: Optional[T] = None\<close> read through \<open>.dict(exclude_unset=True)\<close>: only a field sent is set, \<open>null\<close> included.\<close>

fun sent_field :: "'a field \<Rightarrow> 'a option patch" where
  "sent_field Absent = Unset"
| "sent_field Null = Set None"
| "sent_field (Given v) = Set (Some v)"

text \<open>The JSON object of an item request; a key no class declares is ignored.\<close>

record item_body =
  b_name :: "string field"
  b_description :: "string field"
  b_price :: "real field"
  b_category :: "string field"
  b_stock :: "int field"

record status_body =
  b_total_sell :: "int field"
  b_status_stock :: "int field"

definition parse_item_create :: "item_body \<Rightarrow> item_create option" where
  "parse_item_create b = do {
     n \<leftarrow> required (b_name b);
     p \<leftarrow> required (b_price b);
     c \<leftarrow> required (b_category b);
     Some \<lparr>ic_name = n, ic_description = optional_field None (b_description b), ic_price = p,
           ic_category = c, ic_stock = optional_field (Some 0) (b_stock b)\<rparr>
   }"

definition parse_item_update :: "item_body \<Rightarrow> item_update" where
  "parse_item_update b =
     \<lparr>iu_name = sent_field (b_name b), iu_description = sent_field (b_description b),
      iu_price = sent_field (b_price b), iu_category = sent_field (b_category b)\<rparr>"

definition parse_status_create :: "status_body \<Rightarrow> status_create option" where
  "parse_status_create b = do {
     t \<leftarrow> with_default 0 (b_total_sell b);
     s \<leftarrow> with_default 0 (b_status_stock b);
     Some \<lparr>sc_total_sell = t, sc_stock = s\<rparr>
   }"

definition parse_status_update :: "status_body \<Rightarrow> status_update" where
  "parse_status_update b =
     \<lparr>su_total_sell = sent_field (b_total_sell b), su_stock = sent_field (b_status_stock b)\<rparr>"

text \<open>A query parameter \<open>x: T = dflt\<close>; an absent one is \<open>None\<close>.\<close>

definition query_default :: "'a \<Rightarrow> 'a option \<Rightarrow> 'a" where
  "query_default dflt q = (case q of None \<Rightarrow> dflt | Some v \<Rightarrow> v)"

text \<open>
  An HTTP request as it reaches the application: path parameters, query
  parameters (\<open>None\<close> when absent) and the JSON body.  The server-side id and
  clock of the handlers are carried along.
\<close>

datatype http_request =
    PostItem ident timestamp item_body
  | GetItems "int option" "int option"
  | GetItem ident
  | PutItem ident item_body timestamp
  | DelItemH ident
  | GetFull ident
  | GetSearch "string option" "string option" "real option" "real option"
  | PostStatus ident status_body timestamp
  | GetStatusH ident
  | PutStatus ident status_body timestamp
  | DelStatusH ident
  | PostSell ident "int option" timestamp
  | PostRestock ident "int option" timestamp
  | GetLowStock "int option"
  | GetTopSellers "int option"
  | GetSummary
  | GetRoot
  | GetHealth timestamp

text \<open>Parameter binding: the signatures of the route functions, with their defaults.\<close>

fun decode_request :: "http_request \<Rightarrow> request option" where
  "decode_request (PostItem k now b) = map_option (CreateItem k now) (parse_item_create b)"
| "decode_request (GetItems skip limit) = Some (ReadAllItems (query_default 0 skip) (query_default 100 limit))"
| "decode_request (GetItem k) = Some (ReadItem k)"
| "decode_request (PutItem k b now) = Some (UpdateItem k (parse_item_update b) now)"
| "decode_request (DelItemH k) = Some (DeleteItem k)"
| "decode_request (GetFull k) = Some (ItemFull k)"
| "decode_request (GetSearch nm cat lo hi) = Some (SearchItems nm cat lo hi)"
| "decode_request (PostStatus k b now) = map_option (\<lambda>sc. CreateStatus k sc now) (parse_status_create b)"
| "decode_request (GetStatusH k) = Some (GetStatus k)"
| "decode_request (PutStatus k b now) = Some (UpdateStatus k (parse_status_update b) now)"
| "decode_request (DelStatusH k) = Some (DeleteStatus k)"
| "decode_request (PostSell k q now) = Some (Sell k (query_default 1 q) now)"
| "decode_request (PostRestock k q now) = map_option (\<lambda>v. Restock k v now) q"
| "decode_request (GetLowStock t) = Some (LowStock (query_default 10 t))"
| "decode_request (GetTopSellers l) = Some (TopSellers (query_default 10 l))"
| "decode_request GetSummary = Some Summary"
| "decode_request GetRoot = Some Root"
| "decode_request (GetHealth now) = Some (Health now)"

definition serve :: "db \<Rightarrow> http_request \<Rightarrow> response \<times> db" where
  "serve d hr =
     (case decode_request hr of
        None \<Rightarrow> (HttpError 422 ''Unprocessable Entity'', d)
      | Some rq \<Rightarrow> dispatch d rq)"

text \<open>A typed request written back as an HTTP request that states every field.\<close>

fun field_of_option :: "'a option \<Rightarrow> 'a field" where
  "field_of_option None = Null"
| "field_of_option (Some v) = Given v"

fun field_of_patch :: "'a option patch \<Rightarrow> 'a field" where
  "field_of_patch Unset = Absent"
| "field_of_patch (Set v) = field_of_option v"

fun encode_request :: "request \<Rightarrow> http_request" where
  "encode_request (CreateItem k now ic) =
     PostItem k now \<lparr>b_name = Given (ic_name ic), b_description = field_of_option (ic_description ic),
       b_price = Given (ic_price ic), b_category = Given (ic_category ic),
       b_stock = field_of_option (ic_stock ic)\<rparr>"
| "encode_request (ReadAllItems skip limit) = GetItems (Some skip) (Some limit)"
| "encode_request (ReadItem k) = GetItem k"
| "encode_request (UpdateItem k u now) =
     PutItem k \<lparr>b_name = field_of_patch (iu_name u), b_description = field_of_patch (iu_description u),
       b_price = field_of_patch (iu_price u), b_category = field_of_patch (iu_category u),
       b_stock = Absent\<rparr> now"
| "encode_request (DeleteItem k) = DelItemH k"
| "encode_request (ItemFull k) = GetFull k"
| "encode_request (SearchItems nm cat lo hi) = GetSearch nm cat lo hi"
| "encode_request (CreateStatus k sc now) =
     PostStatus k \<lparr>b_total_sell = Given (sc_total_sell sc), b_status_stock = Given (sc_stock sc)\<rparr> now"
| "encode_request (GetStatus k) = GetStatusH k"
| "encode_request (UpdateStatus k u now) =
     PutStatus k \<lparr>b_total_sell = field_of_patch (su_total_sell u), b_status_stock = field_of_patch (su_stock u)\<rparr> now"
| "encode_request (DeleteStatus k) = DelStatusH k"
| "encode_request (Sell k q now) = PostSell k (Some q) now"
| "encode_request (Restock k q now) = PostRestock k (Some q) now"
| "encode_request (LowStock t) = GetLowStock (Some t)"
| "encode_request (TopSellers l) = GetTopSellers (Some l)"
| "encode_request Summary = GetSummary"
| "encode_request Root = GetRoot"
| "encode_request (Health now) = GetHealth now"

text \<open>A sequence of HTTP requests served one after another.\<close>

fun serve_run :: "db \<Rightarrow> http_request list \<Rightarrow> response list \<times> db" where
  "serve_run d [] = ([], d)"
| "serve_run d (hr # hrs) =
     (let (r, d1) = serve d hr; (rs, d2) = serve_run d1 hrs in (r # rs, d2))"

text \<open>
  The databases the application can be in: the tables as
  \<open>Base.metadata.create_all\<close> leaves them at startup (empty, \<open>empty_db\<close>),
  and every database a request served from one of them leaves behind.
\<close>

inductive served :: "db \<Rightarrow> bool" where
  startup: "served empty_db"
| serve_step: "served d \<Longrightarrow> served (snd (serve d hr))"

subsection \<open>Properties\<close>

lemma sent_field_of_option [simp]: "sent_field (field_of_option v) = Set v"
  by (cases v) simp_all

lemma sent_field_of_patch [simp]: "sent_field (field_of_patch p) = p"
  by (cases p rule: field_of_patch.cases) simp_all

lemma optional_field_of_option [simp]: "optional_field dflt (field_of_option v) = v"
  by (cases v) simp_all

lemmas payload_parse_defs = parse_item_create_def parse_item_update_def parse_status_create_def
  parse_status_update_def query_default_def

lemma serve_encode: "serve d (encode_request rq) = dispatch d rq"
proof -
  have "decode_request (encode_request rq) = Some rq"
    by (cases rq) (simp_all add: payload_parse_defs)
  then show ?thesis by (simp add: serve_def)
qed

text \<open>Serving the HTTP form of typed requests one after another is running the typed requests.\<close>

theorem serve_run_encode: "serve_run d (map encode_request rqs) = run_requests d rqs"
  by (induction rqs arbitrary: d) (simp_all add: serve_encode)

lemma serve_wf:
  assumes "wf_db d"
  shows "wf_db (snd (serve d hr))"
proof (cases "decode_request hr")
  case None
  with assms show ?thesis by (simp add: serve_def)
next
  case (Some rq)
  from assms have "wf_db (snd (dispatch d rq))"
    by (rule dispatch_wf [where res = "fst (dispatch d rq)"]) simp
  with Some show ?thesis by (simp add: serve_def)
qed

lemma served_serve_run: "served d \<Longrightarrow> served (snd (serve_run d hrs))"
proof (induction hrs arbitrary: d)
  case Nil
  then show ?case by simp
next
  case (Cons hr hrs)
  from Cons.prems have "served (snd (serve d hr))" by (rule served.serve_step)
  then have "served (snd (serve_run (snd (serve d hr)) hrs))" by (rule Cons.IH)
  then show ?case by (simp add: split_def Let_def)
qed

text \<open>Every typed request is the result of binding some HTTP request: writing it back with every field stated and binding it again gives the same request.\<close>

theorem decode_encode_request:
  "decode_request (encode_request rq) = Some rq"
  by (cases rq) (simp_all add: payload_parse_defs)

lemma parse_item_create_stock:
  "parse_item_create b = Some ic \<Longrightarrow> ic_stock ic = optional_field (Some 0) (b_stock b)"
  by (auto simp: parse_item_create_def split: Option.bind_splits)

text \<open>A create request whose stock is left out and one whose stock is null both store a status row with stock 0 and no sales: the schema default gives 0 for the first, the ORM's column default for the NULL it omits from the INSERT gives 0 for the second.\<close>

theorem create_item_no_stock_given:
  assumes "wf_db d" and "k \<notin> set (item_ids d)"
    and "b_stock b = Absent \<or> b_stock b = Null" and "parse_item_create b = Some ic"
  shows "\<exists>s. get_status (snd (serve d (PostItem k now b))) k = Some s
     \<and> stock s = Some 0 \<and> total_sell s = Some 0"
proof -
  have st: "ic_stock ic = Some 0 \<or> ic_stock ic = None"
    using assms(3) parse_item_create_stock [OF assms(4)] by auto
  then have "pred_option int32_ok (ic_stock ic)" by (auto simp: int32_ok_def)
  with assms(1,2) have eq: "create_item d k now ic =
      Inr (new_item_row now k ic, d\<lparr>items := items d @ [new_item_row now k ic],
        item_status := item_status d @ [orm_new_status now k None (ic_stock ic)]\<rparr>)"
    by (rule create_item_eq)
  have "k \<notin> set (status_ids d)" using assms(1,2) by (rule wf_db_fresh_status)
  with eq assms(4) st show ?thesis
    by (auto simp: serve_def create_item_route_def get_status_def get_status_row_def
        lookup_by_append lookup_by_notin orm_new_status_def)
qed

text \<open>Every database the application reaches from its startup tables, by any sequence of HTTP requests, valid or not, satisfies the table constraints: unique keys, every status row referencing an item, counters within int4.\<close>

theorem served_wf: "served d \<Longrightarrow> wf_db d"
proof (induction rule: served.induct)
  case startup
  show ?case by (rule wf_empty_db)
next
  case (serve_step d hr)
  from serve_step.IH show ?case by (rule serve_wf)
qed

subsection \<open>Witnesses\<close>

theorem create_item_no_stock_given_witness:
  "\<exists>s. get_status (snd (serve shop (PostItem ''D'' 10
        \<lparr>b_name = Given ''Donut'', b_description = Absent, b_price = Given 2, b_category = Given ''Bakery'',
         b_stock = Null\<rparr>))) ''D'' = Some s \<and> stock s = Some 0 \<and> total_sell s = Some 0"
proof (rule create_item_no_stock_given [OF wf_shop])
  show "''D'' \<notin> set (item_ids shop)" by (simp add: fixture_defs)
  show "parse_item_create \<lparr>b_name = Given ''Donut'', b_description = Absent, b_price = Given 2,
      b_category = Given ''Bakery'', b_stock = Null\<rparr> =
    Some \<lparr>ic_name = ''Donut'', ic_description = None, ic_price = 2, ic_category = ''Bakery'', ic_stock = None\<rparr>"
    by (simp add: parse_item_create_def)
qed simp

theorem served_wf_witness:
  "wf_db (snd (serve_run empty_db
     [PostItem ''A'' 1 \<lparr>b_name = Given ''Apple'', b_description = Absent, b_price = Given 1,
        b_category = Given ''fruit'', b_stock = Given 5\<rparr>,
      PostSell ''A'' None 2, DelItemH ''A'', PostRestock ''A'' None 3]))"
  using served_wf [OF served_serve_run [OF served.startup]] .

end
