(* ===== verification/Conflicts.thy ===== *)
theory Conflicts
  imports Race ItemsCrud
begin

text \<open>
  A delete racing with the status requests.  \<open>delete_item\<close>
  (src/app/crud/items_crud.py) reads the item, and \<open>db.delete(db_item)\<close>
  loads its status through the relationship to cascade to it; the DELETE
  statements are issued at \<open>db.commit()\<close>.  \<open>delete_plan\<close> is that read
  phase: whether the item was found and the writes the commit will issue.  The
  status requests read and commit in the same way (\<open>Race.sell_plan\<close>,
  \<open>Race.restock_plan\<close>; the status-create route reads the item and the status
  before its INSERT).  When another request commits between the two phases,
  the second commit meets the table as that request left it: an UPDATE of a
  deleted row matches no row (\<open>StaleDataError\<close>), an INSERT of a status for a
  deleted item and a DELETE of an item that now has a status violate the
  foreign key (\<open>IntegrityError\<close>); the request answers 500 and rolls back.
\<close>

definition delete_plan :: "db \<Rightarrow> ident \<Rightarrow> bool \<times> db_write list" where
  "delete_plan d k =
     (case get_item_row d k of
        None \<Rightarrow> (False, [])
      | Some _ \<Rightarrow> (True, (case get_status_row d k of None \<Rightarrow> [] | Some _ \<Rightarrow> [DelStatus k]) @ [DelItem k]))"

subsection \<open>Properties\<close>

text \<open>Committing right after the read phase is the sequential \<open>delete_item\<close>.\<close>

lemma delete_item_plan:
  "delete_item d k =
     (case delete_plan d k of
        (False, _) \<Rightarrow> Inr (False, d)
      | (True, ws) \<Rightarrow> (case commit d ws of Inl e \<Rightarrow> Inl e | Inr d' \<Rightarrow> Inr (True, d')))"
  by (simp add: delete_item_def delete_plan_def del: commit.simps(2) split: option.split)

lemma commit_single: "commit d [w] = apply_write d w"
  by (simp split: sum.split)

lemma sell_plan_Some:
  "sell_plan d k q t = Inr (Some s, ws) \<Longrightarrow> ws = [UpdStatus s] \<and> status_id s = k"
  by (auto simp: sell_plan_def Let_def dest: get_status_row_in_ids split: option.splits if_splits)

lemma restock_plan_Some:
  "restock_plan d k q t = Inr (Some s, ws) \<Longrightarrow> \<exists>v. ws = [UpdStatusStock k v t]"
  by (auto simp: restock_plan_def split: option.splits)

text \<open>After a committed delete of an item, neither the item nor its status row is left.\<close>

lemma delete_item_gone:
  assumes "wf_db d" and "delete_item d k = Inr (True, d')"
  shows "d' = d\<lparr>items := remove_by item_id k (items d), item_status := remove_by status_id k (item_status d)\<rparr>"
    and "k \<notin> set (item_ids d')" and "k \<notin> set (status_ids d')"
proof -
  obtain r where "get_item_row d k = Some r"
    using assms(2) by (cases "get_item_row d k") (simp_all add: delete_item_missing)
  with assms show d': "d' = d\<lparr>items := remove_by item_id k (items d), item_status := remove_by status_id k (item_status d)\<rparr>"
    by (simp add: delete_item_found)
  show "k \<notin> set (item_ids d')" "k \<notin> set (status_ids d')"
    by (simp_all add: d' keys_remove_by)
qed

text \<open>C14: A sell that read the status row of an item which a delete then removed: its UPDATE matches no row, so its commit fails (StaleDataError, or DataError when the new counters do not fit int4), the request answers 500, and the item and its status stay deleted.\<close>

theorem sell_after_concurrent_delete:
  assumes "wf_db d" and "sell_plan d k q t = Inr (Some s, ws)" and "delete_item d k = Inr (True, d')"
  shows "commit d' ws = Inl (if status_ints_ok s then StaleDataError else DataError)
     \<and> get_item d' k = None \<and> get_status d' k = None"
proof -
  from sell_plan_Some [OF assms(2)] have ws: "ws = [UpdStatus s]" and k: "status_id s = k" by simp_all
  from delete_item_gone(2,3) [OF assms(1,3)] have "k \<notin> set (item_ids d')" "k \<notin> set (status_ids d')" .
  with ws k show ?thesis
    by (simp add: get_item_def get_status_def get_item_row_def get_status_row_def lookup_by_None_iff)
qed

text \<open>The same for a restock: its column-wise UPDATE finds no row.\<close>

theorem restock_after_concurrent_delete:
  assumes "wf_db d" and "restock_plan d k q t = Inr (Some s, ws)" and "delete_item d k = Inr (True, d')"
  shows "\<exists>e. commit d' ws = Inl e"
proof -
  from restock_plan_Some [OF assms(2)] obtain v where ws: "ws = [UpdStatusStock k v t]" ..
  from delete_item_gone(3) [OF assms(1,3)] have "lookup_by status_id k (item_status d') = None"
    by (simp add: lookup_by_None_iff)
  with ws show ?thesis by simp
qed

text \<open>C21: A delete that read an item without a status row, while a status for that item is created and committed before the delete's commit: the DELETE of the item violates the foreign key of the new status row, so the delete answers 500 and both rows stay.\<close>

theorem delete_after_concurrent_status_create:
  assumes "delete_plan d k = (True, ws)" and "get_status_row d k = None"
    and "create_status d k sc t = Inr (s, d1)"
  shows "commit d1 ws = Inl IntegrityError \<and> get_item d1 k \<noteq> None \<and> get_status d1 k = Some s"
proof -
  from assms(1,2) have ws: "ws = [DelItem k]" and it: "get_item_row d k \<noteq> None"
    by (auto simp: delete_plan_def split: option.splits)
  from assms(3) have aw: "apply_write d (InsStatus s) = Inr d1" and sid: "status_id s = k"
    by (auto simp: create_status_def Let_def orm_new_status_def commit_single
        simp del: apply_write.simps split: sum.splits)
  from it have it': "lookup_by item_id k (items d) \<noteq> None"
    by (simp add: get_item_row_def)
  from it have ki: "k \<in> item_id ` set (items d)"
    by (simp add: get_item_row_def lookup_by_None_iff)
  from assms(2) have ks: "k \<notin> status_id ` set (item_status d)"
    by (simp add: get_status_row_def lookup_by_None_iff)
  from aw sid have d1: "d1 = d\<lparr>item_status := item_status d @ [s]\<rparr>"
    by (simp split: if_splits)
  have "k \<in> status_id ` set (item_status d1)" by (simp add: d1 sid)
  with ws it' sid ks show ?thesis
    by (simp add: d1 get_item_def get_status_def get_item_row_def get_status_row_def
        lookup_by_append lookup_by_notin)
qed

text \<open>The other order: the status-create route found the item, a delete then committed, and the INSERT of the status violates the foreign key (or the counters do not fit int4): the request answers 500.\<close>

theorem status_create_after_concurrent_delete:
  assumes "wf_db d" and "delete_item d k = Inr (True, d')"
  shows "\<exists>e. create_status d' k sc t = Inl e"
proof -
  from delete_item_gone(2) [OF assms] have "k \<notin> set (item_ids d')" .
  then have "\<exists>e. apply_write d' (InsStatus (orm_new_status t k (Some (sc_total_sell sc)) (Some (sc_stock sc)))) = Inl e"
    by (simp add: orm_new_status_def)
  then show ?thesis
    by (auto simp: create_status_def commit_single simp del: apply_write.simps)
qed

subsection \<open>Witnesses\<close>

theorem sell_after_concurrent_delete_witness:
  "commit \<lparr>items = [item_b, item_c], item_status = [status_c]\<rparr>
     [UpdStatus (status_a\<lparr>stock := Some 3, total_sell := Some 2, status_updated_at := 9\<rparr>)]
   = Inl StaleDataError"
proof -
  have p: "sell_plan shop ''A'' 2 9 =
      Inr (Some (status_a\<lparr>stock := Some 3, total_sell := Some 2, status_updated_at := 9\<rparr>),
           [UpdStatus (status_a\<lparr>stock := Some 3, total_sell := Some 2, status_updated_at := 9\<rparr>)])"
    by (simp add: sell_plan_def get_status_row_def lookup_by_def fixture_defs Let_def)
  have dl: "delete_item shop ''A'' = Inr (True, \<lparr>items = [item_b, item_c], item_status = [status_c]\<rparr>)"
    by (simp add: delete_item_def get_item_row_def get_status_row_def lookup_by_def
        remove_by_def fixture_defs)
  show ?thesis
    using sell_after_concurrent_delete [OF wf_shop p dl]
    by (simp add: status_ints_ok_def int32_ok_def status_a_def)
qed



theorem restock_after_concurrent_delete_witness:
  "\<exists>e. commit \<lparr>items = [item_b, item_c], item_status = [status_c]\<rparr> [UpdStatusStock ''A'' 9 9] = Inl e"
proof -
  have p: "restock_plan shop ''A'' 4 9 =
      Inr (Some (status_a\<lparr>stock := Some 9, status_updated_at := 9\<rparr>), [UpdStatusStock ''A'' 9 9])"
    by (simp add: restock_plan_def get_status_row_def lookup_by_def fixture_defs)
  have dl: "delete_item shop ''A'' = Inr (True, \<lparr>items = [item_b, item_c], item_status = [status_c]\<rparr>)"
    by (simp add: delete_item_def get_item_row_def get_status_row_def lookup_by_def
        remove_by_def fixture_defs)
  show ?thesis using restock_after_concurrent_delete [OF wf_shop p dl] .
qed



theorem delete_after_concurrent_status_create_witness:
  "commit \<lparr>items = [item_a, item_b, item_c], item_status = [status_a, status_c,
       orm_new_status 9 ''B'' (Some 0) (Some 4)]\<rparr> [DelItem ''B''] = Inl IntegrityError"
proof -
  have p: "delete_plan shop ''B'' = (True, [DelItem ''B''])"
    by (simp add: delete_plan_def get_item_row_def get_status_row_def lookup_by_def fixture_defs)
  have n: "get_status_row shop ''B'' = None"
    by (simp add: get_status_row_def lookup_by_def fixture_defs)
  have c: "create_status shop ''B'' \<lparr>sc_total_sell = 0, sc_stock = 4\<rparr> 9 =
      Inr (orm_new_status 9 ''B'' (Some 0) (Some 4),
           \<lparr>items = [item_a, item_b, item_c], item_status = [status_a, status_c,
              orm_new_status 9 ''B'' (Some 0) (Some 4)]\<rparr>)"
    by (simp add: create_status_def orm_new_status_def status_ints_ok_def int32_ok_def fixture_defs Let_def)
  show ?thesis using delete_after_concurrent_status_create [OF p n c] by simp
qed



theorem status_create_after_concurrent_delete_witness:
  "\<exists>e. create_status \<lparr>items = [item_b, item_c], item_status = [status_c]\<rparr> ''A''
         \<lparr>sc_total_sell = 0, sc_stock = 1\<rparr> 9 = Inl e"
proof -
  have dl: "delete_item shop ''A'' = Inr (True, \<lparr>items = [item_b, item_c], item_status = [status_c]\<rparr>)"
    by (simp add: delete_item_def get_item_row_def get_status_row_def lookup_by_def
        remove_by_def fixture_defs)
  show ?thesis using status_create_after_concurrent_delete [OF wf_shop dl] .
qed

end
