(* ===== verification/Spec2Isabelle.thy ===== *)
theory Spec2Isabelle
  imports Backup Desktop Race Refinement Payload Conflicts
begin

text \<open>
  \<^bold>\<open>A verification model of the FastAPI inventory service (SMYakub/Fastapi-sample-project).\<close>

  \<^bold>\<open>The program.\<close> A CRUD web service over two PostgreSQL tables,
  \<open>items\<close> and \<open>item_status\<close> (one status row per item, same id).  The
  package src/app/ has three layers: the SQLAlchemy models and Pydantic
  schemas (src/app/models/, src/app/schemas/), the data access functions
  (src/app/crud/items_crud.py, src/app/crud/status_crud.py), and the route
  handlers (src/app/routes/items.py, status.py, inventory.py, plus the health
  endpoints of src/app/main.py).  A request runs a handler, which calls data
  access functions, which read rows and commit writes through a session; no
  state survives a request except the database.  The repository also keeps
  two older copies of the service, src/backups/main.py (single file, with
  status) and src/Desktop/.../main.py (items only).

  \<^bold>\<open>Library layout.\<close>
  \<^item> \<open>Prelude\<close>: identifiers, timestamps, the exceptions below the HTTP layer
    (\<open>exc\<close>), the int4/int8 ranges, optional-field patches, keyed row tables
    (\<open>lookup_by\<close>, \<open>replace_by\<close>, \<open>remove_by\<close>) and their lemmas
    (collection \<open>table_simps\<close>).
  \<^item> \<open>Schema\<close>: rows \<open>item\<close>, \<open>status\<close> (models) and payloads
    \<open>item_create\<close>, \<open>item_update\<close>, \<open>status_create\<close>, \<open>status_update\<close>
    (schemas); nullable columns are \<open>option\<close>; the \<open>setattr\<close> loops of the
    update functions are \<open>apply_item_update\<close>, \<open>apply_status_update\<close>.
  \<^item> \<open>Database\<close>: the persistence layer (external, modelled from the spec
    and the PostgreSQL/SQLAlchemy behaviour the code relies on): the state
    \<open>db\<close>, the writes a session flushes (\<open>db_write\<close>), \<open>apply_write\<close>
    with its checks (int4 range, primary key, foreign key without database
    cascade, UPDATE row count) and \<open>commit\<close> (stops at the first failure;
    the caller keeps the old database: rollback).  Invariant \<open>wf_db\<close>:
    distinct keys, every status row references an item, int4 counters;
    \<open>commit_wf\<close> shows every commit keeps it.
  \<^item> \<open>Fixtures\<close>: a concrete database \<open>shop\<close> the witnesses run on.
  \<^item> \<open>Like\<close>: PostgreSQL LIKE/ILIKE as an executable matcher
    (\<open>like_match\<close>, \<open>%\<close>, \<open>_\<close>, backslash escape, errors when a dangling
    escape is reached); \<open>ilike_contains\<close>: for a term without special
    characters the pattern \<open>%term%\<close> is case-insensitive substring search,
    and that pattern never errors.
  \<^item> \<open>ItemsCrud\<close>: \<open>create_item\<close>, \<open>get_items\<close>, \<open>get_item\<close>,
    \<open>update_item\<close>, \<open>delete_item\<close>, \<open>search_items\<close> of items_crud.py, each
    returning \<open>exc + (result \<times> db)\<close>; the server id (uuid4) and the clock
    are parameters.
  \<^item> \<open>StatusCrud\<close>: \<open>create_status\<close>, \<open>get_status\<close>, \<open>update_status\<close>,
    \<open>delete_status\<close>, \<open>sell_item\<close>, \<open>restock_item\<close>,
    \<open>get_low_stock_items\<close>, \<open>get_top_sellers\<close> of status_crud.py; Python's
    TypeError on a NULL counter and the database's DataError on int4 overflow
    are branches of the model.
  \<^item> \<open>Race\<close>: sell and restock requests split into a read phase
    (\<open>sell_plan\<close>, \<open>restock_plan\<close>) and a commit followed by
    \<open>db.refresh\<close>; \<open>conc_step\<close> is any interleaving of these phases under
    READ COMMITTED, where an UPDATE overwrites the columns it sets in the latest
    row version (restock sets only \<open>stock\<close>, through the column-wise write
    \<open>UpdStatusStock\<close>).  A sale can be lost to a concurrent sale
    (\<open>concurrent_sells_lost_update\<close>) or to a concurrent restock
    (\<open>concurrent_sell_restock_lost\<close>).  Every
    configuration with an unfinished request can step
    (\<open>conc_step_iff_unfinished\<close>), and a run of n requests has at most
    2 n steps (\<open>conc_run_bound\<close>, by the measure \<open>conc_measure\<close>).
  \<^item> \<open>Refinement\<close>: the spec's inventory contract as an abstract machine
    (\<open>spec_sell\<close>, \<open>spec_restock\<close> over \<open>inv_abs\<close>) and the refinement
    of \<open>sell_item\<close>, and of \<open>restock_item\<close> for positive quantities.
  \<^item> \<open>Routes\<close>: every handler of routes/ and main.py mapped to
    \<open>response \<times> db\<close> (\<open>HttpError\<close> for HTTPException, \<open>ServerError\<close>
    for an exception or a failed response-model validation), the routing
    table \<open>dispatch\<close> and \<open>run_requests\<close> for a sequence of requests.
  \<^item> \<open>Variants\<close>: the handlers of src/backups/main.py that differ from the
    package (create, sell, restock, summary), that version's
    \<open>ItemResponse\<close>, which nests the item's status row
    (\<open>backup_respond_item\<close>), and the items-only \<open>create_item\<close> of the
    Desktop copy, compared with the package.
  \<^item> \<open>Backup\<close>: every other handler of src/backups/main.py, each from its own
    lines, and its routing table \<open>backup_dispatch\<close>; it agrees with
    \<open>dispatch\<close> on the database for every request but sell, restock and
    the summary, and on the answer once the nested status is removed, when no
    status row has a NULL counter (\<open>backup_dispatch_agrees\<close>); with a
    NULL counter its item reads answer 500 where the package answers 200.
  \<^item> \<open>Desktop\<close>: every handler of src/Desktop/.../main.py and its routing
    table \<open>desktop_dispatch\<close> (status and inventory paths answer 404); its
    reads, updates and searches agree with the package, it never writes
    \<open>item_status\<close>, and its delete, which has no cascade, fails on the
    foreign key for an item that has a status row.
  \<^item> \<open>Payload\<close>: request validation and parameter binding.  The Pydantic
    field declarations (required, \<open>Optional\<close>, defaults,
    \<open>exclude_unset\<close>) as decoders of a JSON field that is absent, null or
    given; the route signatures' query defaults; \<open>decode_request\<close> from an
    HTTP request to the typed \<open>request\<close>, 422 when it fails, and
    \<open>serve\<close> = decode then \<open>dispatch\<close>.  Every typed request is reached
    (\<open>decode_encode_request\<close>), and a create request without a stock or with
    a null stock stores stock 0 (\<open>create_item_no_stock_given\<close>).
    \<open>serve_run\<close> serves a sequence of HTTP requests, and the inductive
    \<open>served\<close> holds of the databases reachable from the empty tables that
    \<open>Base.metadata.create_all\<close> leaves at startup (src/app/main.py);
    every one of them satisfies \<open>wf_db\<close> (\<open>served_wf\<close>, by rule
    induction), and serving the HTTP form of typed requests is running them
    (\<open>serve_run_encode\<close>).
  \<^item> \<open>Conflicts\<close>: the delete of an item split into its read phase
    (\<open>delete_plan\<close>: the query, and the status the cascade loads at
    \<open>db.delete\<close>) and its commit, raced against sell, restock and status
    creation committed in between.  A sell or restock of a row deleted in
    between fails at commit (the UPDATE matches no row) and answers 500
    (\<open>sell_after_concurrent_delete\<close>); a status created in between makes the
    delete fail on the foreign key, 500, with both rows kept
    (\<open>delete_after_concurrent_status_create\<close>), and a delete committed
    between the status-create route's check and its INSERT makes the INSERT
    fail.
  \<^item> this theory: the end-to-end examples of section 8 of the spec, run through
    \<open>run_requests\<close>.

  \<^bold>\<open>What is shown.\<close> Functional behaviour of every data access operation on
  each branch, errors included (ItemsCrud, StatusCrud): sell and restock
  (\<open>StatusCrud.sell_item_success\<close>, \<open>StatusCrud.restock_item_success\<close>),
  create and read back, delete with its cascade
  (\<open>ItemsCrud.delete_item_removes\<close>), the low-stock and top-sellers queries
  (the latter ordered by sales descending with NULLs first,
  \<open>StatusCrud.top_sellers_ranked\<close>); client errors write nothing
  (\<open>Routes.client_errors_write_nothing\<close>); sells never make a stock
  negative, sequentially or under any interleaving
  (\<open>StatusCrud.sell_item_nonneg\<close>, \<open>Race.concurrent_sells_nonneg\<close>); sell
  and restock refine the abstract contract (\<open>Refinement.sell_item_refines\<close>,
  \<open>Refinement.restock_item_refines\<close>); each request of the single-file
  version leaves the database unchanged or as the package leaves it
  (\<open>Backup.backup_dispatch_effect\<close>), and the two older versions agree with
  the package on the requests they share, up to the stated conditions
  (\<open>Backup.backup_dispatch_agrees\<close>, \<open>Desktop.desktop_dispatch_agrees\<close>).
  The table constraints hold after every request and in every database
  reachable from startup (\<open>Routes.run_requests_wf\<close>,
  \<open>Payload.served_wf\<close>); these follow from \<open>commit_wf\<close> alone, since
  every write goes through a commit that checks them.  Likewise progress and
  the 2 n step bound of interleaved runs (\<open>Race.conc_step_iff_unfinished\<close>,
  \<open>Race.conc_run_bound\<close>) follow from the two-phase shape of \<open>conc_step\<close>.
  Divergences from the spec are stated as theorems of what the code does: lost
  updates between concurrent sells and between a sell and a restock
  (\<open>Race.concurrent_sells_lost_update\<close>, \<open>Race.concurrent_sell_restock_lost\<close>),
  requests that fail with 500 when a delete races them
  (\<open>Conflicts.sell_after_concurrent_delete\<close>,
  \<open>Conflicts.delete_after_concurrent_status_create\<close>), restock without a
  quantity guard (\<open>StatusCrud.restock_item_success\<close>), negative sell
  quantities (\<open>StatusCrud.sell_negative_quantity\<close>), a 500 for an item
  without status on the /full route (\<open>Routes.item_full_without_status\<close>),
  nulls accepted by partial updates (\<open>Routes.update_item_null_name\<close>,
  \<open>StatusCrud.update_status_null_stock_then_sell\<close>).

  \<^bold>\<open>Bounds and choices.\<close> Python integers are unbounded (\<open>int\<close>); the
  Integer columns are PostgreSQL int4, checked at commit (\<open>int32_ok\<close>), so
  a counter that leaves the range makes the request answer 500 and write
  nothing (\<open>ItemsCrud.create_item_stock_out_of_range\<close>,
  \<open>Routes.restock_route_overflow\<close>);
  OFFSET/LIMIT must be non-negative int8.  No loop of the program is
  unbounded, so no fuel is needed: every definition is total and executable.
  Queries without ORDER BY return rows in table order, a choice the database
  does not guarantee; rows with equal sales keep join order in the top-sellers
  query (stable sort).  Interleaved runs need no fuel either: each request
  takes at most two steps, which bounds every run (\<open>Race.conc_run_bound\<close>).
  The search theorems of ItemsCrud (\<open>search_items_total\<close>,
  \<open>search_items_name\<close>) hold of the model's ILIKE, which folds ASCII letters
  only and assumes terms without NUL (see below).

  \<^bold>\<open>Not modelled.\<close> The HTTP framework's path matching (requests arrive
  already routed, as an \<open>http_request\<close>), and the type coercions of request
  validation (a given JSON value already has its field's type);
  floating-point rounding and NaN of \<open>price\<close> (a real number here);
  the length limits of the \<open>String(255)\<close> and \<open>String(100)\<close> columns
  \<open>name\<close> and \<open>category\<close> (items_models.py): a longer value fails at
  the INSERT or UPDATE in PostgreSQL, which \<open>apply_write\<close> does not check,
  so the create and update theorems hold for values within those lengths;
  the database driver's refusal of a NUL character in a search term (500);
  ILIKE's case folding beyond ASCII, which depends on the database collation; uuid generation and the clock (parameters);
  connection handling and the session factory (app/models/database.py and
  app/utils/helpers.py are not in the repository); the engine setup lines
  of the two older copies (I/O); and PostgreSQL row locks beyond the
  read/commit interleaving of sell, restock, delete and status creation (a
  second UPDATE of a row waits for the first to commit, which the
  interleaving already orders).
\<close>

definition payload :: "string \<Rightarrow> real \<Rightarrow> int \<Rightarrow> item_create" where
  "payload n p st = \<lparr>ic_name = n, ic_description = None, ic_price = p, ic_category = ''demo'', ic_stock = Some st\<rparr>"

lemmas request_eval = empty_db_def payload_def create_item_route_def create_item_def new_item_row_def
  orm_new_status_def status_ints_ok_def int32_ok_def respond_item_def item_response_ok_def Let_def
  sell_item_route_def sell_item_def restock_item_route_def restock_item_def get_status_row_def
  lookup_by_def replace_by_def respond_status_def status_response_ok_def
  inventory_summary_route_def sql_sum_def or_zero_def stock_at_most_def

text \<open>After creating three items with stocks 5, 15 and 8, the inventory summary reports 3 items, 3 status rows, total stock 28, total sales 0 and 2 items at or below the fixed cutoff 10.\<close>

theorem summary_example:
  "fst (dispatch (snd (run_requests empty_db
      [CreateItem ''X'' 1 (payload ''x'' 1 5), CreateItem ''Y'' 2 (payload ''y'' 2 15),
       CreateItem ''Z'' 3 (payload ''z'' 3 8)])) Summary)
   = Ok (BSummary \<lparr>total_items = 3, items_with_status = 3, total_stock = 28,
                   total_sales = 0, low_stock_count = 2\<rparr>)"
  by (simp add: request_eval)

text \<open>The scenario of the spec: create item A (price 9.99, stock 5), sell 3, restock 10; the sell answers stock 2 and total_sell 3, the restock answers stock 12.\<close>

theorem scenario:
  "(case fst (run_requests empty_db
        [CreateItem ''A'' 1 (payload ''Apple'' (999/100) 5), Sell ''A'' 3 2, Restock ''A'' 10 3]) of
      [Ok (BItem a), Ok (BStatus s1), Ok (BStatus s2)] \<Rightarrow>
        item_id a = ''A'' \<and> price a = Some (999/100)
        \<and> stock s1 = Some 2 \<and> total_sell s1 = Some 3 \<and> stock s2 = Some 12 \<and> total_sell s2 = Some 3
    | _ \<Rightarrow> False)"
  by (simp add: request_eval del: not_None_eq)

end
